theory Spec2Isabelle
  imports Complex_Main "HOL-Library.Sublist"
begin

chapter \<open>Core B: XML digital signature manager (xmlsecurity)\<close>

section \<open>SAX chain controller (xsecctl.cxx)\<close>

text \<open>
  The controller's collaborators (the SAXEventKeeper, the previous and next node of the
  SAX chain, the ElementStackKeeper) are UNO objects behind references. The model keeps,
  for each reference member, whether it is set (\<open>is()\<close>), and records every call the
  controller makes on a collaborator in a trace, in the order of the source.
\<close>

datatype sec_status = UNINITIALIZED | INITIALIZED | FAILTOINITIALIZED

datatype handler_ref = NullHandler | SEKHandler | NextNodeOnSAXChain

datatype component = XMLSIGNATURE_COMPONENT | XMLDOCUMENTWRAPPER_COMPONENT | SAXEVENTKEEPER_COMPONENT

datatype call =
    SEK_setNextHandler handler_ref
  | SEK_initialize
  | SEK_addSAXEventKeeperStatusChangeListener
  | Prev_initialize handler_ref
  | Prev_setDocumentHandler handler_ref
  | ESK_retrieve handler_ref bool
  | ESK_stop
  | ESK_start

record controller =
  m_bIsPreviousNodeInitializable :: bool
  m_bIsSAXEventKeeperConnected :: bool
  m_bIsCollectingElement :: bool
  m_bIsBlocking :: bool
  m_nStatusOfSecurityComponents :: sec_status
  m_bIsSAXEventKeeperSticky :: bool
  m_xXMLSignature :: bool
  m_xXMLDocumentWrapper :: bool
  m_xSAXEventKeeper :: bool
  m_xPreviousNodeOnSAXChain :: bool
  m_xNextNodeOnSAXChain :: bool
  m_xElementStackKeeper :: bool
  trace :: "call list"

definition XSecController :: controller where
  "XSecController =
     \<lparr> m_bIsPreviousNodeInitializable = False,
       m_bIsSAXEventKeeperConnected = False,
       m_bIsCollectingElement = False,
       m_bIsBlocking = False,
       m_nStatusOfSecurityComponents = UNINITIALIZED,
       m_bIsSAXEventKeeperSticky = False,
       m_xXMLSignature = False,
       m_xXMLDocumentWrapper = False,
       m_xSAXEventKeeper = False,
       m_xPreviousNodeOnSAXChain = False,
       m_xNextNodeOnSAXChain = False,
       m_xElementStackKeeper = False,
       trace = [] \<rparr>"

definition emit :: "call \<Rightarrow> controller \<Rightarrow> controller" where
  "emit c s = s\<lparr> trace := trace s @ [c] \<rparr>"

text \<open>
  \<open>createXSecComponent\<close>: the service manager's \<open>createInstanceWithContext\<close> is outside
  the repository part under study; \<open>mcf c\<close> says whether it hands out component \<open>c\<close>.
\<close>

definition createXSecComponent :: "(component \<Rightarrow> bool) \<Rightarrow> controller \<Rightarrow> controller" where
  "createXSecComponent mcf s =
     (let s1 = s\<lparr> m_nStatusOfSecurityComponents := FAILTOINITIALIZED,
                   m_xXMLSignature := False,
                   m_xXMLDocumentWrapper := False,
                   m_xSAXEventKeeper := False \<rparr>;
          s2 = s1\<lparr> m_xXMLSignature := mcf XMLSIGNATURE_COMPONENT \<rparr>;
          bSuccess1 = m_xXMLSignature s2;
          s3 = (if bSuccess1
                then s2\<lparr> m_xXMLDocumentWrapper := mcf XMLDOCUMENTWRAPPER_COMPONENT \<rparr>
                else s2);
          bSuccess2 = (bSuccess1 \<and> m_xXMLDocumentWrapper s3);
          s4 = (if bSuccess2
                then s3\<lparr> m_xSAXEventKeeper := mcf SAXEVENTKEEPER_COMPONENT \<rparr>
                else s3);
          bSuccess3 = (bSuccess2 \<and> m_xSAXEventKeeper s4)
      in if bSuccess3
         then (emit SEK_addSAXEventKeeperStatusChangeListener (emit SEK_initialize s4))
                \<lparr> m_nStatusOfSecurityComponents := INITIALIZED \<rparr>
         else s4)"

definition connectPrevious :: "handler_ref \<Rightarrow> controller \<Rightarrow> controller" where
  "connectPrevious h s =
     (if m_xPreviousNodeOnSAXChain s
      then (if m_bIsPreviousNodeInitializable s
            then emit (Prev_initialize h) s
            else emit (Prev_setDocumentHandler h) s)
      else s)"

definition chainOn :: "(component \<Rightarrow> bool) \<Rightarrow> bool \<Rightarrow> controller \<Rightarrow> bool \<times> controller" where
  "chainOn mcf bRetrievingLastEvent s =
     (if \<not> m_bIsSAXEventKeeperSticky s \<and> \<not> m_bIsSAXEventKeeperConnected s
      then
        (let s1 = (if m_nStatusOfSecurityComponents s = UNINITIALIZED
                   then createXSecComponent mcf s else s)
         in if m_nStatusOfSecurityComponents s1 = INITIALIZED
            then
              (let s2 = emit (SEK_setNextHandler NullHandler) s1;
                   s3 = connectPrevious SEKHandler s2;
                   s4 = (if m_xElementStackKeeper s3
                         then emit ESK_stop (emit (ESK_retrieve SEKHandler bRetrievingLastEvent) s3)
                         else s3);
                   s5 = emit (SEK_setNextHandler NextNodeOnSAXChain) s4
               in (True, s5\<lparr> m_bIsSAXEventKeeperConnected := True \<rparr>))
            else (False, s1))
      else (False, s))"

definition chainOff :: "controller \<Rightarrow> controller" where
  "chainOff s =
     (if \<not> m_bIsSAXEventKeeperSticky s
      then (if m_bIsSAXEventKeeperConnected s
            then
              (let s1 = emit (SEK_setNextHandler NullHandler) s;
                   s2 = connectPrevious NextNodeOnSAXChain s1;
                   s3 = (if m_xElementStackKeeper s2 then emit ESK_start s2 else s2)
               in s3\<lparr> m_bIsSAXEventKeeperConnected := False \<rparr>)
            else s)
      else s)"

definition checkChainingStatus :: "(component \<Rightarrow> bool) \<Rightarrow> controller \<Rightarrow> controller" where
  "checkChainingStatus mcf s =
     (if m_bIsCollectingElement s \<or> m_bIsBlocking s
      then snd (chainOn mcf True s)
      else chainOff s)"

definition initializeSAXChain :: "controller \<Rightarrow> controller" where
  "initializeSAXChain s =
     (let s1 = s\<lparr> m_bIsSAXEventKeeperConnected := False,
                   m_bIsCollectingElement := False,
                   m_bIsBlocking := False \<rparr>;
          s2 = (if m_xElementStackKeeper s1 then emit ESK_start s1 else s1)
      in chainOff s2)"

definition setSAXChainConnector :: "bool \<Rightarrow> bool \<Rightarrow> bool \<Rightarrow> controller \<Rightarrow> controller" where
  "setSAXChainConnector xInitialization xDocumentHandler xElementStackKeeper s =
     initializeSAXChain
       (s\<lparr> m_bIsPreviousNodeInitializable := True,
           m_xPreviousNodeOnSAXChain := xInitialization,
           m_xNextNodeOnSAXChain := xDocumentHandler,
           m_xElementStackKeeper := xElementStackKeeper \<rparr>)"

definition clearSAXChainConnector :: "controller \<Rightarrow> controller" where
  "clearSAXChainConnector s =
     (let s1 = (if m_xElementStackKeeper s \<and> m_xSAXEventKeeper s
                then emit (ESK_retrieve SEKHandler True) s else s);
          s2 = chainOff s1
      in s2\<lparr> m_xPreviousNodeOnSAXChain := False,
             m_xNextNodeOnSAXChain := False,
             m_xElementStackKeeper := False \<rparr>)"

definition blockingStatusChanged :: "(component \<Rightarrow> bool) \<Rightarrow> bool \<Rightarrow> controller \<Rightarrow> controller" where
  "blockingStatusChanged mcf isBlocking s =
     checkChainingStatus mcf (s\<lparr> m_bIsBlocking := isBlocking \<rparr>)"

definition collectionStatusChanged :: "(component \<Rightarrow> bool) \<Rightarrow> bool \<Rightarrow> controller \<Rightarrow> controller" where
  "collectionStatusChanged mcf isInsideCollectedElement s =
     checkChainingStatus mcf (s\<lparr> m_bIsCollectingElement := isInsideCollectedElement \<rparr>)"

text \<open>The calls a callback adds to the trace: what follows the old trace.\<close>

definition new_calls :: "controller \<Rightarrow> controller \<Rightarrow> call list" where
  "new_calls s s' = drop (length (trace s)) (trace s')"

text \<open>The status-change callbacks of the SAXEventKeeper.\<close>

datatype callback = BlockingStatusChanged bool | CollectionStatusChanged bool

fun deliver :: "(component \<Rightarrow> bool) \<Rightarrow> callback \<Rightarrow> controller \<Rightarrow> controller" where
  "deliver mcf (BlockingStatusChanged b) s = blockingStatusChanged mcf b s"
| "deliver mcf (CollectionStatusChanged b) s = collectionStatusChanged mcf b s"


section \<open>OOXML signature serializer (xsecctl.cxx)\<close>

text \<open>
  A document handler receives SAX events; the model collects them in the order in
  which the source calls \<open>startElement\<close>, \<open>characters\<close> and \<open>endElement\<close>.
  An OUString is modelled as a \<open>string\<close>.
\<close>

type_synonym StringPair = "string \<times> string"

datatype sax_event =
    startElement string "StringPair list"
  | endElement string
  | characters string

text \<open>
  Modelled from the spec: the tag, attribute, namespace and algorithm macros come from
  the header xsecctl.hxx, which is not among the sources. Their values are the element
  and attribute names that section 4.13 of the specification shows on the wire
  (\<open>mdssi:RelationshipReference SourceId\<close>, \<open>xd:QualifyingProperties\<close>,
  \<open>xd:SignedProperties\<close>, \<open>Manifest\<close>, ...) and the names of XML-DSig.
\<close>

definition TAG_SIGNATURE :: string where "TAG_SIGNATURE = ''Signature''"
definition TAG_SIGNEDINFO :: string where "TAG_SIGNEDINFO = ''SignedInfo''"
definition TAG_CANONICALIZATIONMETHOD :: string where "TAG_CANONICALIZATIONMETHOD = ''CanonicalizationMethod''"
definition TAG_SIGNATUREMETHOD :: string where "TAG_SIGNATUREMETHOD = ''SignatureMethod''"
definition TAG_REFERENCE :: string where "TAG_REFERENCE = ''Reference''"
definition TAG_TRANSFORMS :: string where "TAG_TRANSFORMS = ''Transforms''"
definition TAG_TRANSFORM :: string where "TAG_TRANSFORM = ''Transform''"
definition TAG_DIGESTMETHOD :: string where "TAG_DIGESTMETHOD = ''DigestMethod''"
definition TAG_DIGESTVALUE :: string where "TAG_DIGESTVALUE = ''DigestValue''"
definition TAG_SIGNATUREVALUE :: string where "TAG_SIGNATUREVALUE = ''SignatureValue''"
definition TAG_KEYINFO :: string where "TAG_KEYINFO = ''KeyInfo''"
definition TAG_X509DATA :: string where "TAG_X509DATA = ''X509Data''"
definition TAG_X509CERTIFICATE :: string where "TAG_X509CERTIFICATE = ''X509Certificate''"
definition TAG_OBJECT :: string where "TAG_OBJECT = ''Object''"
definition TAG_MANIFEST :: string where "TAG_MANIFEST = ''Manifest''"
definition TAG_SIGNATUREPROPERTIES :: string where "TAG_SIGNATUREPROPERTIES = ''SignatureProperties''"
definition TAG_SIGNATUREPROPERTY :: string where "TAG_SIGNATUREPROPERTY = ''SignatureProperty''"
definition TAG_SIGNATURETIME :: string where "TAG_SIGNATURETIME = ''SignatureTime''"
definition TAG_FORMAT :: string where "TAG_FORMAT = ''Format''"
definition TAG_VALUE :: string where "TAG_VALUE = ''Value''"
definition TAG_RELATIONSHIPREFERENCE :: string where "TAG_RELATIONSHIPREFERENCE = ''RelationshipReference''"
definition TAG_QUALIFYINGPROPERTIES :: string where "TAG_QUALIFYINGPROPERTIES = ''QualifyingProperties''"
definition TAG_SIGNEDPROPERTIES :: string where "TAG_SIGNEDPROPERTIES = ''SignedProperties''"
definition NSTAG_MDSSI :: string where "NSTAG_MDSSI = ''mdssi''"
definition NSTAG_XD :: string where "NSTAG_XD = ''xd''"
definition ATTR_XMLNS :: string where "ATTR_XMLNS = ''xmlns''"
definition ATTR_ALGORITHM :: string where "ATTR_ALGORITHM = ''Algorithm''"
definition ATTR_URI :: string where "ATTR_URI = ''URI''"
definition ATTR_ID :: string where "ATTR_ID = ''Id''"
definition ATTR_TARGET :: string where "ATTR_TARGET = ''Target''"
definition ATTR_SOURCEID :: string where "ATTR_SOURCEID = ''SourceId''"
definition CHAR_FRAGMENT :: string where "CHAR_FRAGMENT = ''#''"
definition NS_XMLDSIG :: string where "NS_XMLDSIG = ''http://www.w3.org/2000/09/xmldsig#''"
definition NS_MDSSI :: string where
  "NS_MDSSI = ''http://schemas.openxmlformats.org/package/2006/digital-signature''"
definition NS_XD :: string where "NS_XD = ''http://uri.etsi.org/01903/v1.3.2#''"
definition ALGO_C14N :: string where "ALGO_C14N = ''http://www.w3.org/TR/2001/REC-xml-c14n-20010315''"
definition ALGO_RSASHA256 :: string where
  "ALGO_RSASHA256 = ''http://www.w3.org/2001/04/xmldsig-more#rsa-sha256''"
definition ALGO_XMLDSIGSHA256 :: string where
  "ALGO_XMLDSIGSHA256 = ''http://www.w3.org/2001/04/xmlenc#sha256''"
definition ALGO_RELATIONSHIP :: string where
  "ALGO_RELATIONSHIP = ''http://schemas.openxmlformats.org/package/2006/RelationshipTransform''"

lemmas xml_macros =
  TAG_SIGNATURE_def TAG_SIGNEDINFO_def TAG_CANONICALIZATIONMETHOD_def TAG_SIGNATUREMETHOD_def
  TAG_REFERENCE_def TAG_TRANSFORMS_def TAG_TRANSFORM_def TAG_DIGESTMETHOD_def
  TAG_DIGESTVALUE_def TAG_SIGNATUREVALUE_def TAG_KEYINFO_def TAG_X509DATA_def
  TAG_X509CERTIFICATE_def TAG_OBJECT_def TAG_MANIFEST_def TAG_SIGNATUREPROPERTIES_def
  TAG_SIGNATUREPROPERTY_def TAG_SIGNATURETIME_def TAG_FORMAT_def TAG_VALUE_def
  TAG_RELATIONSHIPREFERENCE_def TAG_QUALIFYINGPROPERTIES_def TAG_SIGNEDPROPERTIES_def
  NSTAG_MDSSI_def NSTAG_XD_def ATTR_XMLNS_def ATTR_ALGORITHM_def ATTR_URI_def ATTR_ID_def
  ATTR_TARGET_def ATTR_SOURCEID_def CHAR_FRAGMENT_def NS_XMLDSIG_def NS_MDSSI_def NS_XD_def
  ALGO_C14N_def ALGO_RSASHA256_def ALGO_XMLDSIGSHA256_def ALGO_RELATIONSHIP_def

subsection \<open>Signature records\<close>

datatype SignatureReferenceType = SAMEDOCUMENT | BINARYSTREAM | XMLSTREAM

record SignatureReferenceInformation =
  nType :: SignatureReferenceType
  ouURI :: string
  ouDigestValue :: string

record DateTime =
  Year :: int
  Month :: nat
  Day :: nat
  Hours :: nat
  Minutes :: nat
  Seconds :: nat
  NanoSeconds :: nat

record SignatureInformation =
  nSecurityId :: int
  ouSignatureId :: string
  ouPropertyId :: string
  ouDescriptionPropertyId :: string
  ouSignatureValue :: string
  ouX509IssuerName :: string
  ouX509SerialNumber :: string
  ouX509Certificate :: string
  ouCertDigest :: string
  stDateTime :: DateTime
  ouDateTime :: string
  ouDescription :: string
  vSignatureReferenceInfors :: "SignatureReferenceInformation list"

subsection \<open>OUString operations\<close>

definition startsWith :: "string \<Rightarrow> string \<Rightarrow> bool" where
  "startsWith s p = prefix p s"

definition endsWith :: "string \<Rightarrow> string \<Rightarrow> bool" where
  "endsWith s p = suffix p s"

definition indexOf :: "string \<Rightarrow> char \<Rightarrow> int" where
  "indexOf s c = (if c \<in> set s then int (length (takeWhile (\<lambda>x. x \<noteq> c) s)) else - 1)"

definition lastIndexOf :: "string \<Rightarrow> char \<Rightarrow> int" where
  "lastIndexOf s c =
     (if c \<in> set s then int (length s) - 1 - int (length (takeWhile (\<lambda>x. x \<noteq> c) (rev s)))
      else - 1)"

subsection \<open>The two blacklists\<close>

definition lcl_isOOXMLBlacklist :: "string \<Rightarrow> bool" where
  "lcl_isOOXMLBlacklist rStreamName =
     (find (\<lambda>rLiteral. startsWith rStreamName rLiteral)
        [''/%5BContent_Types%5D.xml'',
         ''/docProps/app.xml'',
         ''/docProps/core.xml'',
         ''/_xmlsignatures''] \<noteq> None)"

definition vRelationBlacklist :: "string list" where
  "vRelationBlacklist =
     [''http://schemas.openxmlformats.org/officeDocument/2006/relationships/extended-properties'',
      ''http://schemas.openxmlformats.org/package/2006/relationships/metadata/core-properties'',
      ''http://schemas.openxmlformats.org/package/2006/relationships/digital-signature/origin'']"

definition lcl_isOOXMLRelationBlacklist :: "string \<Rightarrow> bool" where
  "lcl_isOOXMLRelationBlacklist rRelationName =
     (find (\<lambda>rLiteral. rLiteral = rRelationName) vRelationBlacklist \<noteq> None)"

subsection \<open>exportOOXMLSignature\<close>

text \<open>
  What the function takes from outside the sources is collected in a record:
  \<^item> \<open>bTest\<close>: the function-local \<open>static bool bTest = getenv("LO_TESTNAME")\<close>, that
    is, whether the variable was set when the function first ran;
  \<^item> \<open>ReadRelationsInfoSequence\<close>: the attribute pairs that the package helper reads from
    the relationships part opened under a name in the root storage, \<open>None\<close> when
    opening or parsing throws;
  \<^item> \<open>toISO8601\<close>: the date formatter of the utility library.
  An exception of a collaborator and a failed \<open>assert\<close> end the export with an error;
  the events sent before are then not reported.
\<close>

datatype export_error = StorageError | AssertionFailed

record export_env =
  bTest :: bool
  ReadRelationsInfoSequence :: "string \<Rightarrow> StringPair list list option"
  toISO8601 :: "DateTime \<Rightarrow> string"

definition exportSameDocumentReference :: "SignatureReferenceInformation \<Rightarrow> sax_event list" where
  "exportSameDocumentReference rReference =
     (if nType rReference = SAMEDOCUMENT
      then
        [startElement TAG_REFERENCE
           [(''Type'', (if ouURI rReference \<noteq> ''idSignedProperties''
                        then ''http://www.w3.org/2000/09/xmldsig#Object''
                        else ''http://uri.etsi.org/01903#SignedProperties'')),
            (ATTR_URI, CHAR_FRAGMENT @ ouURI rReference)]]
        @ (if ouURI rReference = ''idSignedProperties''
           then [startElement TAG_TRANSFORMS [],
                 startElement TAG_TRANSFORM [(ATTR_ALGORITHM, ALGO_C14N)],
                 endElement TAG_TRANSFORM,
                 endElement TAG_TRANSFORMS]
           else [])
        @ [startElement TAG_DIGESTMETHOD [(ATTR_ALGORITHM, ALGO_XMLDSIGSHA256)],
           endElement TAG_DIGESTMETHOD,
           startElement TAG_DIGESTVALUE [],
           characters (ouDigestValue rReference),
           endElement TAG_DIGESTVALUE,
           endElement TAG_REFERENCE]
      else [])"

text \<open>The inner loop over one relation's attribute pairs: the last Id and the last Type win.\<close>

definition readIdType :: "StringPair list \<Rightarrow> string \<times> string" where
  "readIdType rPairs =
     foldl (\<lambda>(aId, aType) rPair.
              if fst rPair = ''Id'' then (snd rPair, aType)
              else if fst rPair = ''Type'' then (aId, snd rPair)
              else (aId, aType))
           ([], []) rPairs"

definition exportRelationshipReference :: "StringPair list \<Rightarrow> sax_event list" where
  "exportRelationshipReference rPairs =
     (case readIdType rPairs of (aId, aType) \<Rightarrow>
        if lcl_isOOXMLRelationBlacklist aType then []
        else [startElement (NSTAG_MDSSI @ '':'' @ TAG_RELATIONSHIPREFERENCE)
                [(ATTR_XMLNS @ '':'' @ NSTAG_MDSSI, NS_MDSSI), (ATTR_SOURCEID, aId)],
              endElement (NSTAG_MDSSI @ '':'' @ TAG_RELATIONSHIPREFERENCE)])"

definition relationsPartName :: "string \<Rightarrow> string" where
  "relationsPartName uri =
     (let aURI = (if startsWith uri ''/'' then drop 1 uri else uri);
          nQueryPos = indexOf aURI (CHR ''?'')
      in if nQueryPos \<noteq> - 1 then take (nat nQueryPos) aURI else aURI)"

definition hasRelationshipTransform :: "SignatureReferenceInformation \<Rightarrow> bool" where
  "hasRelationshipTransform rReference =
     endsWith (ouURI rReference)
       ''?ContentType=application/vnd.openxmlformats-package.relationships+xml''"

definition exportTransforms ::
  "export_env \<Rightarrow> SignatureReferenceInformation \<Rightarrow> export_error + sax_event list" where
  "exportTransforms env rReference =
     (if hasRelationshipTransform rReference
      then (case ReadRelationsInfoSequence env (relationsPartName (ouURI rReference)) of
              None \<Rightarrow> Inl StorageError
            | Some aRelationsInfo \<Rightarrow>
                Inr ([startElement TAG_TRANSFORMS [],
                      startElement TAG_TRANSFORM [(ATTR_ALGORITHM, ALGO_RELATIONSHIP)]]
                     @ concat (map exportRelationshipReference aRelationsInfo)
                     @ [endElement TAG_TRANSFORM,
                        startElement TAG_TRANSFORM [(ATTR_ALGORITHM, ALGO_C14N)],
                        endElement TAG_TRANSFORM,
                        endElement TAG_TRANSFORMS]))
      else Inr [])"

definition exportManifestReference ::
  "export_env \<Rightarrow> SignatureReferenceInformation \<Rightarrow> export_error + sax_event list" where
  "exportManifestReference env rReference =
     (if nType rReference \<noteq> SAMEDOCUMENT
      then (if lcl_isOOXMLBlacklist (ouURI rReference) then Inr []
            else (case exportTransforms env rReference of
                    Inl e \<Rightarrow> Inl e
                  | Inr transforms \<Rightarrow>
                      Inr ([startElement TAG_REFERENCE [(ATTR_URI, ouURI rReference)]]
                           @ transforms
                           @ [startElement TAG_DIGESTMETHOD [(ATTR_ALGORITHM, ALGO_XMLDSIGSHA256)],
                              endElement TAG_DIGESTMETHOD,
                              startElement TAG_DIGESTVALUE [],
                              characters (ouDigestValue rReference),
                              endElement TAG_DIGESTVALUE,
                              endElement TAG_REFERENCE])))
      else Inr [])"

fun exportManifestReferences ::
  "export_env \<Rightarrow> SignatureReferenceInformation list \<Rightarrow> export_error + sax_event list" where
  "exportManifestReferences env [] = Inr []"
| "exportManifestReferences env (rReference # rReferences) =
     (case exportManifestReference env rReference of
        Inl e \<Rightarrow> Inl e
      | Inr evs \<Rightarrow>
          (case exportManifestReferences env rReferences of
             Inl e \<Rightarrow> Inl e
           | Inr evs' \<Rightarrow> Inr (evs @ evs')))"

definition signatureTimeValue :: "export_env \<Rightarrow> SignatureInformation \<Rightarrow> string" where
  "signatureTimeValue env rInformation =
     (if ouDateTime rInformation \<noteq> [] then ouDateTime rInformation
      else (let aSignatureTimeValue = toISO8601 env (stDateTime rInformation);
                nCommaPos = indexOf aSignatureTimeValue (CHR '','')
            in if nCommaPos \<noteq> - 1
               then take (nat nCommaPos) aSignatureTimeValue @ ''Z''
               else aSignatureTimeValue))"

definition exportSignedInfo :: "SignatureInformation \<Rightarrow> sax_event list" where
  "exportSignedInfo rInformation =
     [startElement TAG_SIGNATURE [(ATTR_XMLNS, NS_XMLDSIG), (ATTR_ID, ''idPackageSignature'')],
      startElement TAG_SIGNEDINFO [],
      startElement TAG_CANONICALIZATIONMETHOD [(ATTR_ALGORITHM, ALGO_C14N)],
      endElement TAG_CANONICALIZATIONMETHOD,
      startElement TAG_SIGNATUREMETHOD [(ATTR_ALGORITHM, ALGO_RSASHA256)],
      endElement TAG_SIGNATUREMETHOD]
     @ concat (map exportSameDocumentReference (vSignatureReferenceInfors rInformation))
     @ [endElement TAG_SIGNEDINFO,
        startElement TAG_SIGNATUREVALUE [],
        characters (ouSignatureValue rInformation),
        endElement TAG_SIGNATUREVALUE,
        startElement TAG_KEYINFO [],
        startElement TAG_X509DATA [],
        startElement TAG_X509CERTIFICATE [],
        characters (ouX509Certificate rInformation),
        endElement TAG_X509CERTIFICATE,
        endElement TAG_X509DATA,
        endElement TAG_KEYINFO,
        startElement TAG_OBJECT [(ATTR_ID, ''idPackageObject'')],
        startElement TAG_MANIFEST []]"

definition exportSignatureTime :: "string \<Rightarrow> sax_event list" where
  "exportSignatureTime aSignatureTimeValue =
     [endElement TAG_MANIFEST,
      startElement TAG_SIGNATUREPROPERTIES [],
      startElement TAG_SIGNATUREPROPERTY
        [(ATTR_ID, ''idSignatureTime''), (ATTR_TARGET, ''#idPackageSignature'')],
      startElement (NSTAG_MDSSI @ '':'' @ TAG_SIGNATURETIME)
        [(ATTR_XMLNS @ '':'' @ NSTAG_MDSSI, NS_MDSSI)],
      startElement (NSTAG_MDSSI @ '':'' @ TAG_FORMAT) [],
      characters ''YYYY-MM-DDThh:mm:ssTZD'',
      endElement (NSTAG_MDSSI @ '':'' @ TAG_FORMAT),
      startElement (NSTAG_MDSSI @ '':'' @ TAG_VALUE) [],
      characters aSignatureTimeValue,
      endElement (NSTAG_MDSSI @ '':'' @ TAG_VALUE),
      endElement (NSTAG_MDSSI @ '':'' @ TAG_SIGNATURETIME),
      endElement TAG_SIGNATUREPROPERTY,
      endElement TAG_SIGNATUREPROPERTIES,
      endElement TAG_OBJECT]"

definition exportOfficeObject :: "SignatureInformation \<Rightarrow> sax_event list" where
  "exportOfficeObject rInformation =
     [startElement TAG_OBJECT [(ATTR_ID, ''idOfficeObject'')],
      startElement TAG_SIGNATUREPROPERTIES [],
      startElement TAG_SIGNATUREPROPERTY
        [(ATTR_ID, ''idOfficeV1Details''), (ATTR_TARGET, ''#idPackageSignature'')],
      startElement ''SignatureInfoV1''
        [(ATTR_XMLNS, ''http://schemas.microsoft.com/office/2006/digsig'')],
      startElement ''SetupId'' [], endElement ''SetupId'',
      startElement ''SignatureText'' [], endElement ''SignatureText'',
      startElement ''SignatureImage'' [], endElement ''SignatureImage'',
      startElement ''SignatureComments'' [],
      characters (ouDescription rInformation),
      endElement ''SignatureComments'',
      startElement ''WindowsVersion'' [], characters ''6.1'', endElement ''WindowsVersion'',
      startElement ''OfficeVersion'' [], characters ''16.0'', endElement ''OfficeVersion'',
      startElement ''ApplicationVersion'' [], characters ''16.0'',
      endElement ''ApplicationVersion'',
      startElement ''Monitors'' [], characters ''1'', endElement ''Monitors'',
      startElement ''HorizontalResolution'' [], characters ''1280'',
      endElement ''HorizontalResolution'',
      startElement ''VerticalResolution'' [], characters ''800'',
      endElement ''VerticalResolution'',
      startElement ''ColorDepth'' [], characters ''32'', endElement ''ColorDepth'',
      startElement ''SignatureProviderId'' [],
      characters ''{00000000-0000-0000-0000-000000000000}'',
      endElement ''SignatureProviderId'',
      startElement ''SignatureProviderUrl'' [], endElement ''SignatureProviderUrl'',
      startElement ''SignatureProviderDetails'' [], characters ''9'',
      endElement ''SignatureProviderDetails'',
      startElement ''SignatureType'' [], characters ''1'', endElement ''SignatureType'',
      endElement ''SignatureInfoV1'',
      endElement TAG_SIGNATUREPROPERTY,
      endElement TAG_SIGNATUREPROPERTIES,
      endElement TAG_OBJECT]"

definition exportSignedProperties :: "SignatureInformation \<Rightarrow> string \<Rightarrow> sax_event list" where
  "exportSignedProperties rInformation aSignatureTimeValue =
     [startElement (NSTAG_XD @ '':'' @ TAG_SIGNEDPROPERTIES) [(ATTR_ID, ''idSignedProperties'')],
      startElement ''xd:SignedSignatureProperties'' [],
      startElement ''xd:SigningTime'' [],
      characters aSignatureTimeValue,
      endElement ''xd:SigningTime'',
      startElement ''xd:SigningCertificate'' [],
      startElement ''xd:Cert'' [],
      startElement ''xd:CertDigest'' [],
      startElement ''DigestMethod'' [(ATTR_ALGORITHM, ALGO_XMLDSIGSHA256)],
      endElement ''DigestMethod'',
      startElement ''DigestValue'' [],
      characters (ouCertDigest rInformation),
      endElement ''DigestValue'',
      endElement ''xd:CertDigest'',
      startElement ''xd:IssuerSerial'' [],
      startElement ''X509IssuerName'' [],
      characters (ouX509IssuerName rInformation),
      endElement ''X509IssuerName'',
      startElement ''X509SerialNumber'' [],
      characters (ouX509SerialNumber rInformation),
      endElement ''X509SerialNumber'',
      endElement ''xd:IssuerSerial'',
      endElement ''xd:Cert'',
      endElement ''xd:SigningCertificate'',
      startElement ''xd:SignaturePolicyIdentifier'' [],
      startElement ''xd:SignaturePolicyImplied'' [],
      endElement ''xd:SignaturePolicyImplied'',
      endElement ''xd:SignaturePolicyIdentifier'',
      endElement ''xd:SignedSignatureProperties'',
      endElement (NSTAG_XD @ '':'' @ TAG_SIGNEDPROPERTIES)]"

definition exportQualifyingProperties ::
  "export_env \<Rightarrow> SignatureInformation \<Rightarrow> export_error + sax_event list" where
  "exportQualifyingProperties env rInformation =
     (if \<not> bTest env \<and> ouCertDigest rInformation = [] then Inl AssertionFailed
      else Inr
        ([startElement TAG_OBJECT [],
          startElement (NSTAG_XD @ '':'' @ TAG_QUALIFYINGPROPERTIES)
            [(ATTR_XMLNS @ '':'' @ NSTAG_XD, NS_XD), (ATTR_TARGET, ''#idPackageSignature'')]]
         @ (if \<not> bTest env
            then exportSignedProperties rInformation (signatureTimeValue env rInformation)
            else [])
         @ [endElement (NSTAG_XD @ '':'' @ TAG_QUALIFYINGPROPERTIES),
            endElement TAG_OBJECT,
            endElement TAG_SIGNATURE]))"

definition exportOOXMLSignature ::
  "export_env \<Rightarrow> SignatureInformation \<Rightarrow> export_error + sax_event list" where
  "exportOOXMLSignature env rInformation =
     (case exportManifestReferences env (vSignatureReferenceInfors rInformation) of
        Inl e \<Rightarrow> Inl e
      | Inr manifest \<Rightarrow>
          (case exportQualifyingProperties env rInformation of
             Inl e \<Rightarrow> Inl e
           | Inr qualifying \<Rightarrow>
               Inr (exportSignedInfo rInformation
                    @ manifest
                    @ exportSignatureTime (signatureTimeValue env rInformation)
                    @ exportOfficeObject rInformation
                    @ qualifying)))"

text \<open>Reading a written document: the elements of a given name, with their attributes.\<close>

fun elements_named :: "string \<Rightarrow> sax_event list \<Rightarrow> StringPair list list" where
  "elements_named n [] = []"
| "elements_named n (startElement m attrs # evs) =
     (if m = n then attrs # elements_named n evs else elements_named n evs)"
| "elements_named n (endElement m # evs) = elements_named n evs"
| "elements_named n (characters c # evs) = elements_named n evs"

text \<open>
  The events between the first \<open>startElement n\<close> and the next \<open>endElement n\<close>, that is
  the content of that element; \<open>None\<close> when no element of that name is opened.
\<close>

fun until_end :: "string \<Rightarrow> sax_event list \<Rightarrow> sax_event list" where
  "until_end n [] = []"
| "until_end n (ev # evs) = (if ev = endElement n then [] else ev # until_end n evs)"

fun content_of :: "string \<Rightarrow> sax_event list \<Rightarrow> sax_event list option" where
  "content_of n [] = None"
| "content_of n (startElement m attrs # evs) =
     (if m = n then Some (until_end n evs) else content_of n evs)"
| "content_of n (endElement m # evs) = content_of n evs"
| "content_of n (characters c # evs) = content_of n evs"

definition relationsRead :: "export_env \<Rightarrow> SignatureReferenceInformation \<Rightarrow> StringPair list list" where
  "relationsRead env rReference =
     (case ReadRelationsInfoSequence env (relationsPartName (ouURI rReference)) of
        None \<Rightarrow> []
      | Some aRelationsInfo \<Rightarrow> aRelationsInfo)"

text \<open>
  The specification's words for the relation filter: of the \<open>(Id, Type)\<close> pairs read from
  a relationships part, those whose type is not blacklisted become RelationshipReference
  elements that carry the namespace declaration and the pair's Id as SourceId.
\<close>

definition expectedRelationshipReferences :: "StringPair list list \<Rightarrow> StringPair list list" where
  "expectedRelationshipReferences aRelationsInfo =
     map (\<lambda>rPairs. [(''xmlns:mdssi'', NS_MDSSI), (''SourceId'', fst (readIdType rPairs))])
       (filter (\<lambda>rPairs. snd (readIdType rPairs) \<notin> set vRelationBlacklist) aRelationsInfo)"

text \<open>The references that are written with a relationship transform.\<close>

definition signedWithRelationshipTransform :: "SignatureReferenceInformation \<Rightarrow> bool" where
  "signedWithRelationshipTransform rReference =
     (nType rReference \<noteq> SAMEDOCUMENT \<and> \<not> lcl_isOOXMLBlacklist (ouURI rReference)
      \<and> hasRelationshipTransform rReference)"

definition events_of :: "export_error + sax_event list \<Rightarrow> sax_event list" where
  "events_of r = (case r of Inl e \<Rightarrow> [] | Inr evs \<Rightarrow> evs)"

text \<open>
  Where an element sits in a written document. \<open>open_after\<close> gives the elements that
  are open after a run of events, innermost first, each with its attributes;
  \<open>endElement\<close> closes the innermost one. \<open>located_named\<close> lists the elements of a given
  name, each with the elements open around it and its own attributes.
\<close>

type_synonym open_elements = "(string \<times> StringPair list) list"

fun open_after :: "open_elements \<Rightarrow> sax_event list \<Rightarrow> open_elements" where
  "open_after stk [] = stk"
| "open_after stk (startElement m attrs # evs) = open_after ((m, attrs) # stk) evs"
| "open_after stk (endElement m # evs) = open_after (tl stk) evs"
| "open_after stk (characters c # evs) = open_after stk evs"

fun located_named ::
  "string \<Rightarrow> open_elements \<Rightarrow> sax_event list \<Rightarrow> (open_elements \<times> StringPair list) list" where
  "located_named n stk [] = []"
| "located_named n stk (startElement m attrs # evs) =
     (if m = n then (stk, attrs) # located_named n ((m, attrs) # stk) evs
      else located_named n ((m, attrs) # stk) evs)"
| "located_named n stk (endElement m # evs) = located_named n (tl stk) evs"
| "located_named n stk (characters c # evs) = located_named n stk evs"

text \<open>
  The specification's words for the place of a RelationshipReference: a child of the
  Relationship transform, in the transforms of the reference to the relationships part,
  which the manifest of the package object lists.
\<close>

definition relationshipTransformPath :: "SignatureReferenceInformation \<Rightarrow> open_elements" where
  "relationshipTransformPath rReference =
     [(''Transform'',
         [(''Algorithm'', ''http://schemas.openxmlformats.org/package/2006/RelationshipTransform'')]),
      (''Transforms'', []),
      (''Reference'', [(''URI'', ouURI rReference)]),
      (''Manifest'', []),
      (''Object'', [(''Id'', ''idPackageObject'')]),
      (''Signature'', [(''xmlns'', NS_XMLDSIG), (''Id'', ''idPackageSignature'')])]"

definition expectedLocatedReferences ::
  "export_env \<Rightarrow> SignatureReferenceInformation \<Rightarrow> (open_elements \<times> StringPair list) list" where
  "expectedLocatedReferences env rReference =
     map (\<lambda>attrs. (relationshipTransformPath rReference, attrs))
       (expectedRelationshipReferences (relationsRead env rReference))"

section \<open>Document signature manager (documentsignaturemanager.cxx)\<close>

text \<open>
  The manager works through its signature helper, the root storage and temporary files,
  all of them UNO objects outside the sources. In the model the member
  \<open>maSignatureHelper\<close> stands for the helper together with the objects it reaches,
  as a value of an arbitrary type \<open>'h\<close>; every call on them is a parameter that
  maps this value to a result and a new value, or throws.
\<close>

datatype 'a outcome = Returned 'a | Threw

datatype any = AnyString string | AnyOther

record PropertyValue =
  Name :: string
  Value :: any

datatype StorageFormat = ZIP | OFOPXML

record SignatureStreamHelper =
  xSignatureStream :: "nat option"
  xSignatureStorage :: "nat option"
  nStorageFormat :: StorageFormat

record ElementModes =
  READ :: bool
  WRITE :: bool
  TRUNCATE :: bool

record 'h manager =
  mxStore :: bool
  maSignatureHelper :: 'h
  maCurrentSignatureInformations :: "SignatureInformation list"
  m_manifest :: "PropertyValue list list"
  mxSignatureStream :: "nat option"
  mxTempSignatureStream :: "nat option"
  mxTempSignatureStorage :: "nat option"

record ('h, 'c) collaborators =
  LO_TESTNAME :: bool
  equalsReferenceUriManifestPath :: "string \<Rightarrow> string \<Rightarrow> bool"
  certSerialNumber :: "'c \<Rightarrow> string"
  certEncoded :: "'c \<Rightarrow> string"
  certSHA256Thumbprint :: "'c \<Rightarrow> string option"
  certIssuerName :: "'c \<Rightarrow> string"
  hasContentTypes :: "'h \<Rightarrow> bool"
  TempFile_create :: "'h \<Rightarrow> nat outcome \<times> 'h"
  GetStorageOfFormatFromStream :: "nat \<Rightarrow> 'h \<Rightarrow> nat outcome \<times> 'h"
  OpenSignatureStream :: "ElementModes \<Rightarrow> 'h \<Rightarrow> SignatureStreamHelper outcome \<times> 'h"
  XTruncate_truncate :: "nat \<Rightarrow> 'h \<Rightarrow> unit outcome \<times> 'h"
  XSeekable_seek :: "nat \<Rightarrow> 'h \<Rightarrow> unit outcome \<times> 'h"
  StartMission :: "'h \<Rightarrow> unit outcome \<times> 'h"
  GetNewSecurityId :: "'h \<Rightarrow> int outcome \<times> 'h"
  SetX509Certificate :: "int \<Rightarrow> string \<Rightarrow> string \<Rightarrow> string \<Rightarrow> string \<Rightarrow> 'h \<Rightarrow> unit outcome \<times> 'h"
  CreateElementList :: "'h \<Rightarrow> string list outcome \<times> 'h"
  AddForSigning :: "int \<Rightarrow> string \<Rightarrow> string \<Rightarrow> bool \<Rightarrow> 'h \<Rightarrow> unit outcome \<times> 'h"
  SetDateTime :: "int \<Rightarrow> 'h \<Rightarrow> unit outcome \<times> 'h"
  SetDescription :: "int \<Rightarrow> string \<Rightarrow> 'h \<Rightarrow> unit outcome \<times> 'h"
  CreateDocumentHandlerWithHeader :: "nat \<Rightarrow> 'h \<Rightarrow> nat outcome \<times> 'h"
  ExportSignature :: "nat \<Rightarrow> SignatureInformation \<Rightarrow> 'h \<Rightarrow> unit outcome \<times> 'h"
  CreateAndWriteSignature :: "nat \<Rightarrow> 'h \<Rightarrow> unit outcome \<times> 'h"
  CloseDocumentHandler :: "nat \<Rightarrow> 'h \<Rightarrow> unit outcome \<times> 'h"
  EnsureSignaturesRelation :: "'h \<Rightarrow> unit outcome \<times> 'h"
  ExportSignatureRelations :: "nat option \<Rightarrow> nat \<Rightarrow> 'h \<Rightarrow> unit outcome \<times> 'h"
  ExportOOXMLSignature :: "nat option \<Rightarrow> SignatureInformation \<Rightarrow> nat \<Rightarrow> 'h \<Rightarrow> unit outcome \<times> 'h"
  CreateAndWriteOOXMLSignature :: "nat option \<Rightarrow> nat \<Rightarrow> 'h \<Rightarrow> unit outcome \<times> 'h"
  commit :: "nat option \<Rightarrow> 'h \<Rightarrow> unit outcome \<times> 'h"
  closeOutput :: "nat option \<Rightarrow> 'h \<Rightarrow> unit outcome \<times> 'h"
  EndMission :: "'h \<Rightarrow> unit outcome \<times> 'h"

subsection \<open>isXML\<close>

definition ascii_upper :: "char \<Rightarrow> char" where
  "ascii_upper c =
     (if 97 \<le> (of_char c :: nat) \<and> (of_char c :: nat) \<le> 122
      then char_of ((of_char c :: nat) - 32) else c)"

definition equalsIgnoreAsciiCase :: "string \<Rightarrow> string \<Rightarrow> bool" where
  "equalsIgnoreAsciiCase a b = (map ascii_upper a = map ascii_upper b)"

text \<open>The loop over one manifest entry's properties: path, media type, encrypted.\<close>

definition readEntry :: "PropertyValue list \<Rightarrow> string \<times> string \<times> bool" where
  "readEntry entry =
     foldl (\<lambda>(sPath, sMediaType, bEncrypted) prop.
              if Name prop = ''FullPath''
              then ((case Value prop of AnyString v \<Rightarrow> v | AnyOther \<Rightarrow> sPath), sMediaType, bEncrypted)
              else if Name prop = ''MediaType''
              then (sPath, (case Value prop of AnyString v \<Rightarrow> v | AnyOther \<Rightarrow> sMediaType), bEncrypted)
              else if Name prop = ''Digest'' then (sPath, sMediaType, True)
              else (sPath, sMediaType, bEncrypted))
           ([], [], False) entry"

text \<open>The loop over the manifest, left at the first matching entry: (bIsXML, bPropsAvailable).\<close>

fun manifestLookup ::
  "(string \<Rightarrow> string \<Rightarrow> bool) \<Rightarrow> string \<Rightarrow> PropertyValue list list \<Rightarrow> bool \<times> bool" where
  "manifestLookup eq rURI [] = (False, False)"
| "manifestLookup eq rURI (entry # entries) =
     (case readEntry entry of (sPath, sMediaType, bEncrypted) \<Rightarrow>
        if eq rURI sPath then (sMediaType = ''text/xml'' \<and> \<not> bEncrypted, True)
        else manifestLookup eq rURI entries)"

definition isXML :: "('h, 'c) collaborators \<Rightarrow> 'h manager \<Rightarrow> string \<Rightarrow> bool" where
  "isXML ext s rURI =
     (if LO_TESTNAME ext then True
      else
        (case manifestLookup (equalsReferenceUriManifestPath ext) rURI (m_manifest s) of
           (bIsXML, bPropsAvailable) \<Rightarrow>
             if \<not> bPropsAvailable
             then (let nSep = lastIndexOf rURI (CHR ''.'')
                   in if nSep \<noteq> - 1
                      then (if equalsIgnoreAsciiCase (drop (nat (nSep + 1)) rURI) ''XML''
                            then True else bIsXML)
                      else bIsXML)
             else bIsXML))"

subsection \<open>Sequencing calls that may throw\<close>

type_synonym ('a, 'h) action = "'h manager \<Rightarrow> 'a outcome \<times> 'h manager"

definition returnM :: "'a \<Rightarrow> ('a, 'h) action" where
  "returnM x s = (Returned x, s)"

definition throwM :: "('a, 'h) action" where
  "throwM s = (Threw, s)"

definition bindM :: "('a, 'h) action \<Rightarrow> ('a \<Rightarrow> ('b, 'h) action) \<Rightarrow> ('b, 'h) action" where
  "bindM m f s = (case m s of (Threw, s') \<Rightarrow> (Threw, s') | (Returned x, s') \<Rightarrow> f x s')"

definition thenM :: "(unit, 'h) action \<Rightarrow> ('b, 'h) action \<Rightarrow> ('b, 'h) action" where
  "thenM m k = bindM m (\<lambda>_. k)"

definition extern :: "('h \<Rightarrow> 'a outcome \<times> 'h) \<Rightarrow> ('a, 'h) action" where
  "extern f s = (case f (maSignatureHelper s) of (r, h) \<Rightarrow> (r, s\<lparr> maSignatureHelper := h \<rparr>))"

definition getM :: "('h manager \<Rightarrow> 'a) \<Rightarrow> ('a, 'h) action" where
  "getM f s = (Returned (f s), s)"

definition modifyM :: "('h manager \<Rightarrow> 'h manager) \<Rightarrow> (unit, 'h) action" where
  "modifyM f s = (Returned (), f s)"

fun forM :: "'a list \<Rightarrow> ('a \<Rightarrow> (unit, 'h) action) \<Rightarrow> (unit, 'h) action" where
  "forM [] body = returnM ()"
| "forM (x # xs) body = thenM (body x) (forM xs body)"

subsection \<open>ImplOpenSignatureStream\<close>

definition openTemp ::
  "('h, 'c) collaborators \<Rightarrow> ElementModes \<Rightarrow> SignatureStreamHelper \<Rightarrow> (SignatureStreamHelper, 'h) action" where
  "openTemp ext nStreamOpenMode aHelper =
     bindM
       (if TRUNCATE nStreamOpenMode
        then bindM (extern (TempFile_create ext)) (\<lambda>tmp.
             thenM (modifyM (\<lambda>s. s\<lparr> mxTempSignatureStream := Some tmp \<rparr>))
               (if nStorageFormat aHelper \<noteq> OFOPXML
                then returnM (aHelper\<lparr> xSignatureStream := Some tmp \<rparr>)
                else bindM (extern (GetStorageOfFormatFromStream ext tmp)) (\<lambda>stor.
                     thenM (modifyM (\<lambda>s. s\<lparr> mxTempSignatureStorage := Some stor \<rparr>))
                       (returnM (aHelper\<lparr> xSignatureStorage := Some stor \<rparr>)))))
        else returnM aHelper)
       (\<lambda>aHelper1.
          bindM (getM mxTempSignatureStream) (\<lambda>tmpStream.
          bindM (getM mxTempSignatureStorage) (\<lambda>tmpStorage.
            returnM (if nStorageFormat aHelper1 = OFOPXML
                     then aHelper1\<lparr> xSignatureStream := tmpStream, xSignatureStorage := tmpStorage \<rparr>
                     else aHelper1\<lparr> xSignatureStream := tmpStream \<rparr>))))"

definition openFinal ::
  "('h, 'c) collaborators \<Rightarrow> ElementModes \<Rightarrow> SignatureStreamHelper \<Rightarrow> (SignatureStreamHelper, 'h) action" where
  "openFinal ext nStreamOpenMode aHelper =
     bindM (getM mxSignatureStream) (\<lambda>sigStream.
       if sigStream = None
       then extern (OpenSignatureStream ext nStreamOpenMode)
       else returnM (aHelper\<lparr> xSignatureStream := sigStream \<rparr>))"

definition ImplOpenSignatureStream ::
  "('h, 'c) collaborators \<Rightarrow> ElementModes \<Rightarrow> bool \<Rightarrow> (SignatureStreamHelper, 'h) action" where
  "ImplOpenSignatureStream ext nStreamOpenMode bTempStream =
     bindM (getM (\<lambda>s. mxStore s \<and> hasContentTypes ext (maSignatureHelper s))) (\<lambda>bOOXML.
     bindM ((if bTempStream then openTemp ext nStreamOpenMode else openFinal ext nStreamOpenMode)
              \<lparr> xSignatureStream = None, xSignatureStorage = None,
                nStorageFormat = (if bOOXML then OFOPXML else ZIP) \<rparr>) (\<lambda>aHelper.
     bindM (getM mxSignatureStream) (\<lambda>sigStream.
     thenM
       (if TRUNCATE nStreamOpenMode
        then (if xSignatureStream aHelper \<noteq> None \<and> nStorageFormat aHelper \<noteq> OFOPXML
              then (case xSignatureStream aHelper of
                      None \<Rightarrow> throwM
                    | Some st \<Rightarrow> extern (XTruncate_truncate ext st))
              else returnM ())
        else if bTempStream \<or> sigStream \<noteq> None
        then (case xSignatureStream aHelper of
                None \<Rightarrow> throwM
              | Some st \<Rightarrow> extern (XSeekable_seek ext st))
        else returnM ())
       (returnM aHelper))))"

subsection \<open>add\<close>

definition writeODF :: "('h, 'c) collaborators \<Rightarrow> SignatureStreamHelper \<Rightarrow> (unit, 'h) action" where
  "writeODF ext aStreamHelper =
     (case xSignatureStream aStreamHelper of
        None \<Rightarrow> throwM
      | Some xOutputStream \<Rightarrow>
          bindM (extern (CreateDocumentHandlerWithHeader ext xOutputStream)) (\<lambda>xDocumentHandler.
          bindM (getM (\<lambda>s. length (maCurrentSignatureInformations s))) (\<lambda>nInfos.
          thenM (forM [0..<nInfos] (\<lambda>n.
                   bindM (getM (\<lambda>s. maCurrentSignatureInformations s ! n)) (\<lambda>info.
                     extern (ExportSignature ext xDocumentHandler info))))
         (thenM (extern (CreateAndWriteSignature ext xDocumentHandler))
                (extern (CloseDocumentHandler ext xDocumentHandler))))))"

definition writeOOXML :: "('h, 'c) collaborators \<Rightarrow> SignatureStreamHelper \<Rightarrow> (unit, 'h) action" where
  "writeOOXML ext aStreamHelper =
     thenM (extern (EnsureSignaturesRelation ext))
    (bindM (getM (\<lambda>s. length (maCurrentSignatureInformations s) + 1)) (\<lambda>nSignatureCount.
     thenM (extern (ExportSignatureRelations ext (xSignatureStorage aStreamHelper) nSignatureCount))
    (bindM (getM (\<lambda>s. length (maCurrentSignatureInformations s))) (\<lambda>nInfos.
     thenM (forM [0..<nInfos] (\<lambda>i.
              bindM (getM (\<lambda>s. maCurrentSignatureInformations s ! i)) (\<lambda>info.
                extern (ExportOOXMLSignature ext (xSignatureStorage aStreamHelper) info (i + 1)))))
    (thenM (extern (CreateAndWriteOOXMLSignature ext (xSignatureStorage aStreamHelper) nSignatureCount))
    (thenM (extern (commit ext (xSignatureStorage aStreamHelper)))
           (extern (closeOutput ext (xSignatureStream aStreamHelper)))))))))"

text \<open>
  \<open>add\<close> returns its boolean result together with the security id it stores through
  the reference parameter \<open>nSecurityId\<close> (\<open>None\<close>: the parameter is left as it was).
\<close>

definition add ::
  "('h, 'c) collaborators \<Rightarrow> 'c option \<Rightarrow> string \<Rightarrow> (bool \<times> int option, 'h) action" where
  "add ext xCert rDescription =
     (case xCert of
        None \<Rightarrow> returnM (False, None)
      | Some cert \<Rightarrow>
          (let aCertSerial = certSerialNumber ext cert in
           if aCertSerial = [] then returnM (False, None)
           else
             thenM (extern (StartMission ext))
            (bindM (extern (GetNewSecurityId ext)) (\<lambda>nSecurityId.
             thenM (extern (SetX509Certificate ext nSecurityId (certIssuerName ext cert) aCertSerial
                      (certEncoded ext cert)
                      (case certSHA256Thumbprint ext cert of None \<Rightarrow> [] | Some d \<Rightarrow> d)))
            (bindM (extern (CreateElementList ext)) (\<lambda>aElements.
             thenM (forM aElements (\<lambda>el.
                      bindM (getM (\<lambda>s. \<not> isXML ext s el)) (\<lambda>bBinaryMode.
                        extern (AddForSigning ext nSecurityId el el bBinaryMode))))
            (thenM (extern (SetDateTime ext nSecurityId))
            (thenM (extern (SetDescription ext nSecurityId rDescription))
            (bindM (ImplOpenSignatureStream ext \<lparr> READ = False, WRITE = True, TRUNCATE = True \<rparr> True)
               (\<lambda>aStreamHelper.
             thenM (if nStorageFormat aStreamHelper \<noteq> OFOPXML
                    then writeODF ext aStreamHelper
                    else writeOOXML ext aStreamHelper)
            (thenM (extern (EndMission ext))
                   (returnM (True, Some nSecurityId)))))))))))))"

text \<open>A manager action leaves the list of current signatures as it is.\<close>

definition keeps_signatures :: "('a, 'h) action \<Rightarrow> bool" where
  "keeps_signatures m =
     (\<forall>s. maCurrentSignatureInformations (snd (m s)) = maCurrentSignatureInformations s)"

text \<open>The two element names of the XAdES object.\<close>

definition xd_name :: "string \<Rightarrow> bool" where
  "xd_name n = (n = ''xd:QualifyingProperties'' \<or> n = ''xd:SignedProperties'')"

section \<open>Sample inputs of Core B\<close>

text \<open>A service manager that hands out every component.\<close>

fun all_components :: "component \<Rightarrow> bool" where
  "all_components c = True"

text \<open>
  Two controllers reached from the constructor: the chain connector is set (without and
  with an ElementStackKeeper), the keeper reports blocking, which creates the security
  components and engages the buffer stage, and then reports the end of blocking.
\<close>

definition chain_without_keeper :: controller where
  "chain_without_keeper =
     blockingStatusChanged all_components False
       (blockingStatusChanged all_components True
          (setSAXChainConnector True True False XSecController))"

definition chain_with_keeper :: controller where
  "chain_with_keeper =
     blockingStatusChanged all_components False
       (blockingStatusChanged all_components True
          (setSAXChainConnector True True True XSecController))"

text \<open>
  A relationships part with the three blacklisted relation types and a custom one, and a
  signature over a document part, that relationships part and a blacklisted stream.
\<close>

fun sample_relations :: "string \<Rightarrow> StringPair list list option" where
  "sample_relations aURI =
     (if aURI = ''word/_rels/document.xml.rels''
      then Some
        [[(''Id'', ''rId1''),
          (''Type'', ''http://schemas.openxmlformats.org/officeDocument/2006/relationships/extended-properties''),
          (''Target'', ''docProps/app.xml'')],
         [(''Id'', ''rId2''),
          (''Type'', ''http://schemas.openxmlformats.org/package/2006/relationships/metadata/core-properties''),
          (''Target'', ''docProps/core.xml'')],
         [(''Id'', ''rId3''),
          (''Type'', ''http://schemas.openxmlformats.org/package/2006/relationships/digital-signature/origin''),
          (''Target'', ''_xmlsignatures/origin.sigs'')],
         [(''Id'', ''rId4''),
          (''Type'', ''http://schemas.openxmlformats.org/officeDocument/2006/relationships/styles''),
          (''Target'', ''styles.xml'')]]
      else None)"

fun sample_toISO8601 :: "DateTime \<Rightarrow> string" where
  "sample_toISO8601 d = ''2016-03-01T10:15:30,000000000''"

definition sample_env :: export_env where
  "sample_env =
     \<lparr> bTest = False, ReadRelationsInfoSequence = sample_relations, toISO8601 = sample_toISO8601 \<rparr>"

definition test_env :: export_env where
  "test_env =
     \<lparr> bTest = True, ReadRelationsInfoSequence = sample_relations, toISO8601 = sample_toISO8601 \<rparr>"

definition sample_signature :: SignatureInformation where
  "sample_signature =
     \<lparr> nSecurityId = 1,
       ouSignatureId = ''idPackageSignature'',
       ouPropertyId = ''idSignatureTime'',
       ouDescriptionPropertyId = [],
       ouSignatureValue = ''c2lnbmF0dXJl'',
       ouX509IssuerName = ''CN=Test'',
       ouX509SerialNumber = ''4660'',
       ouX509Certificate = ''Y2VydA=='',
       ouCertDigest = ''ZGlnZXN0'',
       stDateTime = \<lparr> Year = 2016, Month = 3, Day = 1, Hours = 10, Minutes = 15,
                      Seconds = 30, NanoSeconds = 0 \<rparr>,
       ouDateTime = [],
       ouDescription = ''approved'',
       vSignatureReferenceInfors =
         [\<lparr> nType = SAMEDOCUMENT, ouURI = ''idPackageObject'', ouDigestValue = ''YQ=='' \<rparr>,
          \<lparr> nType = XMLSTREAM,
            ouURI = ''/word/document.xml?ContentType=application/vnd.openxmlformats-officedocument.wordprocessingml.document.main+xml'',
            ouDigestValue = ''Yg=='' \<rparr>,
          \<lparr> nType = XMLSTREAM,
            ouURI = ''/word/_rels/document.xml.rels?ContentType=application/vnd.openxmlformats-package.relationships+xml'',
            ouDigestValue = ''Yw=='' \<rparr>,
          \<lparr> nType = XMLSTREAM,
            ouURI = ''/docProps/core.xml?ContentType=application/vnd.openxmlformats-package.core-properties+xml'',
            ouDigestValue = ''ZA=='' \<rparr>] \<rparr>"

text \<open>
  Collaborators of the manager that only count the calls made on them; a certificate is
  represented by its serial number.
\<close>

definition count_call :: "'a \<Rightarrow> nat \<Rightarrow> 'a outcome \<times> nat" where
  "count_call r h = (Returned r, Suc h)"

definition counting_collaborators :: "(nat, string) collaborators" where
  "counting_collaborators =
     \<lparr> LO_TESTNAME = True,
       equalsReferenceUriManifestPath = (\<lambda>uri path. uri = path),
       certSerialNumber = (\<lambda>c. c),
       certEncoded = (\<lambda>c. ''Y2VydA==''),
       certSHA256Thumbprint = (\<lambda>c. Some ''ZGlnZXN0''),
       certIssuerName = (\<lambda>c. ''CN=Test''),
       hasContentTypes = (\<lambda>h. False),
       TempFile_create = (\<lambda>h. (Returned h, Suc h)),
       GetStorageOfFormatFromStream = (\<lambda>st h. (Returned h, Suc h)),
       OpenSignatureStream = (\<lambda>m h. (Threw, h)),
       XTruncate_truncate = (\<lambda>st. count_call ()),
       XSeekable_seek = (\<lambda>st. count_call ()),
       StartMission = count_call (),
       GetNewSecurityId = (\<lambda>h. (Returned (int h), Suc h)),
       SetX509Certificate = (\<lambda>i a b c d. count_call ()),
       CreateElementList = count_call [''content.xml'', ''mimetype''],
       AddForSigning = (\<lambda>i a b c. count_call ()),
       SetDateTime = (\<lambda>i. count_call ()),
       SetDescription = (\<lambda>i d. count_call ()),
       CreateDocumentHandlerWithHeader = (\<lambda>st h. (Returned st, Suc h)),
       ExportSignature = (\<lambda>hd i. count_call ()),
       CreateAndWriteSignature = (\<lambda>hd. count_call ()),
       CloseDocumentHandler = (\<lambda>hd. count_call ()),
       EnsureSignaturesRelation = count_call (),
       ExportSignatureRelations = (\<lambda>st n. count_call ()),
       ExportOOXMLSignature = (\<lambda>st i n. count_call ()),
       CreateAndWriteOOXMLSignature = (\<lambda>st n. count_call ()),
       commit = (\<lambda>st. count_call ()),
       closeOutput = (\<lambda>st. count_call ()),
       EndMission = count_call () \<rparr>"

definition sample_manager :: "nat manager" where
  "sample_manager =
     \<lparr> mxStore = True,
       maSignatureHelper = 0,
       maCurrentSignatureInformations = [sample_signature],
       m_manifest = [],
       mxSignatureStream = None,
       mxTempSignatureStream = None,
       mxTempSignatureStorage = None \<rparr>"

chapter \<open>Core A: ETS forecasting engine (interpr8.cxx)\<close>

text \<open>
  A \<open>double\<close> is modelled by a real number: arithmetic is exact, and there is no
  rounding, no infinity and no NaN. Where the source compares the result of a division
  by zero or of \<open>fmod\<close> by zero, the model writes the outcome of the IEEE comparison out.
  \<open>SCSIZE\<close> is \<open>size_t\<close>; it is modelled by \<open>nat\<close>, and the subtractions
  on it are written where the source has them (none of them wraps on the paths modelled).
  A read of \<open>maRange\<close> outside the vector is undefined behaviour in C++; the model gives
  it the result \<open>OutOfRange\<close>.
\<close>

section \<open>Data\<close>

record DataPoint =
  X :: real
  Y :: real

datatype ets_error =
    errNoValue | errIllegalFPOperation | errDivisionByZero | errUnknownState | OutOfRange

datatype ScETSType = etsAdd | etsMult | etsSeason | etsPIAdd | etsPIMult | etsStatAdd | etsStatMult

record ets =
  maRange :: "DataPoint list"
  mpBase :: "real list"
  mpTrend :: "real list"
  mpPerIdx :: "real list"
  mpForecast :: "real list"
  mnSmplInPrd :: nat
  mfStepSize :: real
  mfAlpha :: real
  mfBeta :: real
  mfGamma :: real
  mnCount :: nat
  mbInitialised :: bool
  mnMonthDay :: nat
  mfMAE :: real
  mfMASE :: real
  mfMSE :: real
  mfRMSE :: real
  mfSMAPE :: real
  bAdditive :: bool
  bEDS :: bool

text \<open>
  The number formatter's null date and the class \<open>Date\<close> are outside the sources. The
  model identifies the date \<open>aNullDate + n\<close> with the day offset \<open>n\<close>; the three
  functions give its day of month, month and year. \<open>fresh\<close> is the content of the
  cells of a newly allocated array.
\<close>

record formatter =
  GetDay :: "int \<Rightarrow> nat"
  GetMonth :: "int \<Rightarrow> nat"
  GetYear :: "int \<Rightarrow> int"
  IsLeapYear :: "int \<Rightarrow> bool"
  fresh :: real

definition DBL_MAX :: real where
  "DBL_MAX = (2 - 1 / 2 ^ 52) * 2 ^ 1023"

definition cfMinABCResolution :: real where
  "cfMinABCResolution = 1 / 1000"

text \<open>\<open>static_cast<long>\<close> of a double: truncation towards zero.\<close>

definition trunc :: "real \<Rightarrow> int" where
  "trunc x = (if 0 \<le> x then \<lfloor>x\<rfloor> else \<lceil>x\<rceil>)"

definition fmod :: "real \<Rightarrow> real \<Rightarrow> real" where
  "fmod x y = x - y * of_int (trunc (x / y))"

text \<open>\<open>fmod(x, y) != 0.0\<close>: for \<open>y = 0\<close> the result is NaN, which differs from zero.\<close>

definition fmod_nonzero :: "real \<Rightarrow> real \<Rightarrow> bool" where
  "fmod_nonzero x y = (y = 0 \<or> fmod x y \<noteq> 0)"

definition vec_at :: "'a list \<Rightarrow> nat \<Rightarrow> ets_error + 'a" where
  "vec_at xs i = (if i < length xs then Inr (xs ! i) else Inl OutOfRange)"

definition erase :: "'a list \<Rightarrow> nat \<Rightarrow> 'a list" where
  "erase xs i = take i xs @ drop (Suc i) xs"

definition insert_at :: "'a list \<Rightarrow> nat \<Rightarrow> 'a \<Rightarrow> 'a list" where
  "insert_at xs i x = take i xs @ x # drop i xs"

definition ScETSForecastCalculation :: "nat \<Rightarrow> ets" where
  "ScETSForecastCalculation nSize =
     \<lparr> maRange = [], mpBase = [], mpTrend = [], mpPerIdx = [], mpForecast = [],
       mnSmplInPrd = 0, mfStepSize = 0, mfAlpha = 0, mfBeta = 0, mfGamma = 0,
       mnCount = nSize, mbInitialised = False, mnMonthDay = 0,
       mfMAE = 0, mfMASE = 0, mfMSE = 0, mfRMSE = 0, mfSMAPE = 0,
       bAdditive = False, bEDS = False \<rparr>"

section \<open>CalcPeriodLen\<close>

text \<open>
  The mean error of one candidate period length over the Y values of the \<open>n = mnCount\<close>
  points. The indices stay inside the vector: \<open>1 \<le> nStart\<close> and
  \<open>nPeriodLen + i < mnCount\<close>.
\<close>

definition meanError :: "real list \<Rightarrow> nat \<Rightarrow> nat \<Rightarrow> real" where
  "meanError ys n nPeriodLen =
     (let nPeriods = n div nPeriodLen;
          nStart = n - nPeriods * nPeriodLen + 1
      in (\<Sum>i \<leftarrow> [nStart..<n - nPeriodLen].
            \<bar>(ys ! i - ys ! (i - 1)) - (ys ! (nPeriodLen + i) - ys ! (nPeriodLen + i - 1))\<bar>)
         / real ((nPeriods - 1) * nPeriodLen - 1))"

fun CalcPeriodLen_loop :: "real list \<Rightarrow> nat \<Rightarrow> nat \<Rightarrow> nat \<Rightarrow> real \<Rightarrow> nat" where
  "CalcPeriodLen_loop ys n 0 nBestVal fBestME = nBestVal"
| "CalcPeriodLen_loop ys n (Suc m) nBestVal fBestME =
     (if Suc m > 1
      then (let fMeanError = meanError ys n (Suc m)
            in if fMeanError < fBestME \<or> fMeanError = 0
               then CalcPeriodLen_loop ys n m (Suc m) fMeanError
               else CalcPeriodLen_loop ys n m nBestVal fBestME)
      else nBestVal)"

definition CalcPeriodLen :: "ets \<Rightarrow> nat" where
  "CalcPeriodLen s =
     CalcPeriodLen_loop (map Y (maRange s)) (mnCount s) (mnCount s div 2) (mnCount s) DBL_MAX"

section \<open>PreprocessDataRange\<close>

subsection \<open>Month detection\<close>

fun monthDay_loop :: "formatter \<Rightarrow> int \<Rightarrow> nat \<Rightarrow> DataPoint list \<Rightarrow> nat" where
  "monthDay_loop fmt aDate nDay [] = nDay"
| "monthDay_loop fmt aDate nDay (p # ps) =
     (if nDay \<noteq> 0
      then (let aDate1 = trunc (X p)
            in if aDate \<noteq> aDate1 \<and> GetDay fmt aDate1 \<noteq> nDay
               then monthDay_loop fmt aDate 0 ps
               else monthDay_loop fmt aDate nDay ps)
      else nDay)"

definition toMonths :: "formatter \<Rightarrow> int \<Rightarrow> real" where
  "toMonths fmt aDate = of_int (GetYear fmt aDate * 12 + int (GetMonth fmt aDate))"

definition monthDiff :: "formatter \<Rightarrow> int \<Rightarrow> int \<Rightarrow> real" where
  "monthDiff fmt aDate1 aDate =
     of_int (12 * (GetYear fmt aDate1 - GetYear fmt aDate)
             + (int (GetMonth fmt aDate1) - int (GetMonth fmt aDate)))"

subsection \<open>Duplicate aggregation\<close>

text \<open>
  The accumulator of a run of equal X values: \<open>fTmp\<close>, \<open>nCounter\<close> and the vector
  \<open>aTmp\<close> of the median case. \<open>accumulate\<close> is the body of the \<open>while\<close> loop of the
  aggregation case, without the \<open>erase\<close> that all cases share.
\<close>

type_synonym run_acc = "real \<times> nat \<times> real list"

definition accumulate :: "int \<Rightarrow> run_acc \<Rightarrow> real \<Rightarrow> run_acc" where
  "accumulate nAggregation acc y =
     (case acc of (fTmp, nCounter, aTmp) \<Rightarrow>
        if nAggregation = 1 \<or> nAggregation = 7 then (fTmp + y, nCounter + 1, aTmp)
        else if nAggregation = 2 \<or> nAggregation = 3 then (fTmp, nCounter + 1, aTmp)
        else if nAggregation = 4 then ((if y > fTmp then y else fTmp), nCounter, aTmp)
        else if nAggregation = 5 then (fTmp, nCounter + 1, aTmp @ [y])
        else if nAggregation = 6 then ((if y < fTmp then y else fTmp), nCounter, aTmp)
        else acc)"

definition aggregated :: "int \<Rightarrow> run_acc \<Rightarrow> real" where
  "aggregated nAggregation acc =
     (case acc of (fTmp, nCounter, aTmp) \<Rightarrow>
        if nAggregation = 1 then fTmp / real nCounter
        else if nAggregation = 7 then fTmp
        else if nAggregation = 2 \<or> nAggregation = 3 then real nCounter
        else if nAggregation = 5
        then (let aSorted = sort aTmp
              in if nCounter mod 2 \<noteq> 0 then aSorted ! (nCounter div 2)
                 else (aSorted ! (nCounter div 2) + aSorted ! (nCounter div 2 - 1)) / 2)
        else fTmp)"

text \<open>
  \<open>while ( maRange[ i ].X == maRange[ i - 1 ].X && i < mnCount )\<close>: the two elements are
  read first, the comparison of \<open>i\<close> with the count comes second.
\<close>

function aggregate_run ::
  "int \<Rightarrow> DataPoint list \<Rightarrow> nat \<Rightarrow> nat \<Rightarrow> run_acc \<Rightarrow> ets_error + (DataPoint list \<times> nat \<times> run_acc)" where
  "aggregate_run nAggregation r i cnt acc =
     (case vec_at r i of
        Inl e \<Rightarrow> Inl e
      | Inr p \<Rightarrow>
          (case vec_at r (i - 1) of
             Inl e \<Rightarrow> Inl e
           | Inr q \<Rightarrow>
               if X p = X q \<and> i < cnt
               then aggregate_run nAggregation (erase r i) i (cnt - 1)
                      (accumulate nAggregation acc (Y p))
               else Inr (r, cnt, acc)))"
  by pat_completeness auto
termination
  by (relation "measure (\<lambda>(nAggregation, r, i, cnt, acc). length r)")
     (auto simp: vec_at_def erase_def split: if_splits)

declare aggregate_run.simps [simp del]

text \<open>The \<open>switch\<close> on the aggregation mode: modes outside 1..7 have no case.\<close>

definition aggregate ::
  "int \<Rightarrow> DataPoint list \<Rightarrow> nat \<Rightarrow> nat \<Rightarrow> ets_error + (DataPoint list \<times> nat)" where
  "aggregate nAggregation r i cnt =
     (if 1 \<le> nAggregation \<and> nAggregation \<le> 7
      then (case vec_at r (i - 1) of
              Inl e \<Rightarrow> Inl e
            | Inr q \<Rightarrow>
                (case aggregate_run nAggregation r i cnt (Y q, 1, [Y q]) of
                   Inl e \<Rightarrow> Inl e
                 | Inr (r', cnt', acc) \<Rightarrow>
                     (case vec_at r' (i - 1) of
                        Inl e \<Rightarrow> Inl e
                      | Inr q' \<Rightarrow>
                          Inr (r'[i - 1 := q'\<lparr> Y := aggregated nAggregation acc \<rparr>], cnt'))))
      else Inr (r, cnt))"

text \<open>
  The \<open>for\<close> loop over the sorted points: the month conversion of \<open>X[i]\<close>, the
  aggregation of a run of equal X values into \<open>maRange[i - 1]\<close>, and the smallest step.
  \<open>aDate\<close> is the variable of that name of the source, as a day offset.
\<close>

function aggregate_loop ::
  "formatter \<Rightarrow> int \<Rightarrow> nat \<Rightarrow> DataPoint list \<Rightarrow> nat \<Rightarrow> real \<Rightarrow> int \<Rightarrow> nat
   \<Rightarrow> ets_error + (DataPoint list \<times> nat \<times> real)" where
  "aggregate_loop fmt nAggregation nMonthDay r cnt fStepSize aDate i =
     (if i < cnt
      then
        (case vec_at r i of
           Inl e \<Rightarrow> Inl e
         | Inr p0 \<Rightarrow>
             (let aDate1 = (if nMonthDay \<noteq> 0 then trunc (X p0) else aDate);
                  r1 = (if nMonthDay \<noteq> 0 then r[i := p0\<lparr> X := toMonths fmt aDate1 \<rparr>] else r)
              in case vec_at r1 i of
                   Inl e \<Rightarrow> Inl e
                 | Inr p \<Rightarrow>
                     (case vec_at r1 (i - 1) of
                        Inl e \<Rightarrow> Inl e
                      | Inr q \<Rightarrow>
                          if X p - X q = 0
                          then
                            (if nAggregation = 0 then Inl errNoValue
                             else
                               (case aggregate nAggregation r1 i cnt of
                                  Inl e \<Rightarrow> Inl e
                                | Inr (r2, cnt2) \<Rightarrow>
                                    if i < cnt2 - 1
                                    then
                                      (case vec_at r2 (i + 1) of
                                         Inl e \<Rightarrow> Inl e
                                       | Inr p' \<Rightarrow>
                                           (case vec_at r2 i of
                                              Inl e \<Rightarrow> Inl e
                                            | Inr q' \<Rightarrow>
                                                (let fStep = (if nMonthDay \<noteq> 0
                                                              then monthDiff fmt (trunc (X p')) aDate1
                                                              else X p' - X q');
                                                     aDate2 = (if nMonthDay \<noteq> 0
                                                               then trunc (X p') else aDate1)
                                                 in aggregate_loop fmt nAggregation nMonthDay r2 cnt2
                                                      (if fStep < fStepSize then fStep else fStepSize)
                                                      aDate2 (i + 2))))
                                    else aggregate_loop fmt nAggregation nMonthDay r2 cnt2
                                           fStepSize aDate1 (i + 1)))
                          else aggregate_loop fmt nAggregation nMonthDay r1 cnt
                                 (if X p - X q < fStepSize then X p - X q else fStepSize)
                                 aDate1 (i + 1))))
      else Inr (r, cnt, fStepSize))"
  by pat_completeness auto
termination
proof -
  have run: "aggregate_run nAgg r i cnt acc = Inr (r', cnt', acc') \<Longrightarrow> cnt' \<le> cnt"
    for nAgg r i cnt acc r' cnt' acc'
  proof (induction nAgg r i cnt acc rule: aggregate_run.induct)
    case (1 nAgg r i cnt acc)
    from "1.prems" show ?case
      by (subst (asm) aggregate_run.simps)
         (auto split: sum.splits if_splits dest!: "1.IH")
  qed
  have agg: "aggregate nAgg r i cnt = Inr (r', cnt') \<Longrightarrow> cnt' \<le> cnt" for nAgg r i cnt r' cnt'
    by (auto simp: aggregate_def split: if_splits sum.splits dest: run)
  show ?thesis
    by (relation "measure (\<lambda>(fmt, nAgg, nMonthDay, r, cnt, fStepSize, aDate, i). cnt - i)")
       (auto dest!: agg)
qed

declare aggregate_loop.simps [simp del]

subsection \<open>Step check and gap filling\<close>

function hasGap_loop :: "DataPoint list \<Rightarrow> nat \<Rightarrow> real \<Rightarrow> nat \<Rightarrow> ets_error + bool" where
  "hasGap_loop r cnt fStepSize i =
     (if i < cnt
      then (case vec_at r i of
              Inl e \<Rightarrow> Inl e
            | Inr p \<Rightarrow>
                (case vec_at r (i - 1) of
                   Inl e \<Rightarrow> Inl e
                 | Inr q \<Rightarrow>
                     if X p - X q \<noteq> fStepSize
                     then (if fmod_nonzero (X p - X q) fStepSize then Inl errNoValue
                           else Inr True)
                     else hasGap_loop r cnt fStepSize (i + 1)))
      else Inr False)"
  by pat_completeness auto
termination
  by (relation "measure (\<lambda>(r, cnt, fStepSize, i). cnt - i)") auto

declare hasGap_loop.simps [simp del]

text \<open>
  \<open>static_cast<double>(nMissingXCount) / fOriginalCount > 0.3\<close>; a division by zero
  gives infinity, which is greater.
\<close>

definition exceeds :: "nat \<Rightarrow> nat \<Rightarrow> bool" where
  "exceeds nMissingXCount nOriginalCount =
     (nOriginalCount = 0 \<or> real nMissingXCount / real nOriginalCount > 3 / 10)"

text \<open>The inner loop: the points inserted before \<open>maRange[i]\<close>, from \<open>fXGap\<close> on.\<close>

function gap_insert ::
  "bool \<Rightarrow> real \<Rightarrow> real \<Rightarrow> nat \<Rightarrow> DataPoint list \<Rightarrow> nat \<Rightarrow> nat \<Rightarrow> nat \<Rightarrow> real
   \<Rightarrow> ets_error + (DataPoint list \<times> nat \<times> nat \<times> nat)" where
  "gap_insert bDataCompletion fStepSize fYGap nOriginalCount r i cnt nMissingXCount fXGap =
     (case vec_at r i of
        Inl e \<Rightarrow> Inl e
      | Inr p \<Rightarrow>
          if fXGap < X p
          then (if exceeds (nMissingXCount + 1) nOriginalCount then Inl errNoValue
                else gap_insert bDataCompletion fStepSize fYGap nOriginalCount
                       (insert_at r i \<lparr> X = fXGap, Y = (if bDataCompletion then fYGap else 0) \<rparr>)
                       (i + 1) (cnt + 1) (nMissingXCount + 1) (fXGap + fStepSize))
          else Inr (r, i, cnt, nMissingXCount))"
  by pat_completeness auto
termination
proof (relation "measure (\<lambda>(bDataCompletion, fStepSize, fYGap, nOriginalCount, r, i, cnt,
                            nMissingXCount, fXGap). nOriginalCount - nMissingXCount)")
  show "wf (measure (\<lambda>(bDataCompletion, fStepSize, fYGap, nOriginalCount, r, i, cnt,
                       nMissingXCount, fXGap). nOriginalCount - nMissingXCount))"
    by simp
next
  fix bDataCompletion :: bool and fStepSize fYGap :: real and nOriginalCount :: nat
    and r :: "DataPoint list" and i cnt nMissingXCount :: nat and fXGap :: real and p :: DataPoint
  assume "\<not> exceeds (nMissingXCount + 1) nOriginalCount"
  then have "0 < nOriginalCount" and "real (nMissingXCount + 1) / real nOriginalCount \<le> 3 / 10"
    by (auto simp: exceeds_def)
  then have "real (nMissingXCount + 1) \<le> 3 / 10 * real nOriginalCount"
    by (simp add: field_simps)
  also have "\<dots> \<le> real nOriginalCount" by simp
  finally have "nMissingXCount < nOriginalCount" by simp
  then show "((bDataCompletion, fStepSize, fYGap, nOriginalCount,
                insert_at r i \<lparr> X = fXGap, Y = (if bDataCompletion then fYGap else 0) \<rparr>,
                i + 1, cnt + 1, nMissingXCount + 1, fXGap + fStepSize),
              (bDataCompletion, fStepSize, fYGap, nOriginalCount, r, i, cnt,
                nMissingXCount, fXGap))
             \<in> measure (\<lambda>(bDataCompletion, fStepSize, fYGap, nOriginalCount, r, i, cnt,
                            nMissingXCount, fXGap). nOriginalCount - nMissingXCount)"
    by simp
qed

declare gap_insert.simps [simp del]

function gap_loop ::
  "formatter \<Rightarrow> bool \<Rightarrow> nat \<Rightarrow> real \<Rightarrow> nat \<Rightarrow> DataPoint list \<Rightarrow> nat \<Rightarrow> nat \<Rightarrow> nat \<Rightarrow> int
   \<Rightarrow> ets_error + (DataPoint list \<times> nat)" where
  "gap_loop fmt bDataCompletion nMonthDay fStepSize nOriginalCount r i cnt nMissingXCount aDate =
     (if i < cnt
      then
        (case vec_at r i of
           Inl e \<Rightarrow> Inl e
         | Inr p \<Rightarrow>
             (case vec_at r (i - 1) of
                Inl e \<Rightarrow> Inl e
              | Inr q \<Rightarrow>
                  (let fDist = (if nMonthDay \<noteq> 0 then monthDiff fmt (trunc (X p)) aDate
                                else X p - X q);
                       aDate1 = (if nMonthDay \<noteq> 0 then trunc (X p) else aDate)
                   in if fDist > fStepSize
                      then
                        (case gap_insert bDataCompletion fStepSize ((Y p + Y q) / 2)
                                nOriginalCount r i cnt nMissingXCount (X q + fStepSize) of
                           Inl e \<Rightarrow> Inl e
                         | Inr (r', i', cnt', nMissingXCount') \<Rightarrow>
                             gap_loop fmt bDataCompletion nMonthDay fStepSize nOriginalCount
                               r' (i' + 1) cnt' nMissingXCount' aDate1)
                      else gap_loop fmt bDataCompletion nMonthDay fStepSize nOriginalCount
                             r (i + 1) cnt nMissingXCount aDate1)))
      else Inr (r, cnt))"
  by pat_completeness auto
termination
proof -
  have ins: "gap_insert c st y n r i cnt m x = Inr (r', i', cnt', m') \<Longrightarrow> cnt' + i = cnt + i'"
    for c st y n r i cnt m x r' i' cnt' m'
  proof (induction c st y n r i cnt m x rule: gap_insert.induct)
    case (1 c st y n r i cnt m x)
    from "1.prems" show ?case
      by (subst (asm) gap_insert.simps)
         (auto split: sum.splits if_splits dest!: "1.IH")
  qed
  show ?thesis
    by (relation "measure (\<lambda>(fmt, c, md, st, n, r, i, cnt, m, aDate). cnt - i)")
       (auto dest!: ins)
qed

declare gap_loop.simps [simp del]

section \<open>Initializer\<close>

text \<open>
  After the preprocessing the vector holds \<open>mnCount\<close> points, and the arrays are
  allocated with \<open>mnCount\<close> cells. The reads of the initializer and of the smoothing
  kernel are inside these bounds; only \<open>maRange[0]\<close> and \<open>maRange[mnCount - 1]\<close> are read
  through the checked access, as they fail on an empty vector.
\<close>

definition prefillTrendData :: "ets \<Rightarrow> ets_error + ets" where
  "prefillTrendData s =
     (if bEDS s
      then (case vec_at (maRange s) (mnCount s - 1) of
              Inl e \<Rightarrow> Inl e
            | Inr pLast \<Rightarrow>
                (case vec_at (maRange s) 0 of
                   Inl e \<Rightarrow> Inl e
                 | Inr p0 \<Rightarrow>
                     Inr (s\<lparr> mpTrend := (mpTrend s)[0 := (Y pLast - Y p0) / real (mnCount s - 1)] \<rparr>)))
      else if mnCount s < 2 * mnSmplInPrd s then Inl errNoValue
      else (let ys = map Y (maRange s);
                fSum = (\<Sum>i \<leftarrow> [0..<mnSmplInPrd s]. ys ! (i + mnSmplInPrd s) - ys ! i);
                fTrend = fSum / real (mnSmplInPrd s * mnSmplInPrd s)
            in Inr (s\<lparr> mpTrend := (mpTrend s)[0 := fTrend] \<rparr>)))"

definition periodAverage :: "real list \<Rightarrow> nat \<Rightarrow> nat \<Rightarrow> real" where
  "periodAverage ys nSmplInPrd i =
     (\<Sum>j \<leftarrow> [0..<nSmplInPrd]. ys ! (i * nSmplInPrd + j)) / real nSmplInPrd"

definition seasonalIndex :: "ets \<Rightarrow> nat \<Rightarrow> real" where
  "seasonalIndex s j =
     (let ys = map Y (maRange s);
          nPeriods = mnCount s div mnSmplInPrd s;
          fI = (\<Sum>i \<leftarrow> [0..<nPeriods].
                  (if bAdditive s
                   then ys ! (i * mnSmplInPrd s + j)
                        - (periodAverage ys (mnSmplInPrd s) i
                           + (real j - (1 / 2) * real (mnSmplInPrd s - 1)) * mpTrend s ! 0)
                   else ys ! (i * mnSmplInPrd s + j)
                        / (periodAverage ys (mnSmplInPrd s) i
                           + (real j - (1 / 2) * real (mnSmplInPrd s - 1)) * mpTrend s ! 0)))
      in fI / real nPeriods)"

definition prefillPerIdx :: "ets \<Rightarrow> ets_error + ets" where
  "prefillPerIdx s =
     (if \<not> bEDS s
      then (if mnSmplInPrd s = 0 then Inl errUnknownState
            else if list_ex (\<lambda>i. periodAverage (map Y (maRange s)) (mnSmplInPrd s) i = 0)
                      [0..<mnCount s div mnSmplInPrd s]
            then Inl errDivisionByZero
            else Inr (s\<lparr> mpPerIdx :=
                         fold (\<lambda>j aPerIdx. aPerIdx[j := seasonalIndex s j])
                              [0..<mnSmplInPrd s] (mpPerIdx s) \<rparr>))
      else Inr s)"

definition prefillBaseData :: "ets \<Rightarrow> ets_error + ets" where
  "prefillBaseData s =
     (case vec_at (maRange s) 0 of
        Inl e \<Rightarrow> Inl e
      | Inr p0 \<Rightarrow>
          if bEDS s
          then Inr (s\<lparr> mpBase := (mpBase s)[0 := Y p0] \<rparr>)
          else Inr (s\<lparr> mpBase := (mpBase s)[0 := Y p0 / mpPerIdx s ! 0] \<rparr>))"

definition initData :: "formatter \<Rightarrow> ets \<Rightarrow> ets_error + ets" where
  "initData fmt s =
     (let s1 = s\<lparr> mpBase := replicate (mnCount s) (fresh fmt),
                   mpTrend := replicate (mnCount s) (fresh fmt),
                   mpPerIdx := (if \<not> bEDS s then replicate (mnCount s) (fresh fmt)
                                else mpPerIdx s),
                   mpForecast := replicate (mnCount s) (fresh fmt) \<rparr>
      in case vec_at (maRange s1) 0 of
           Inl e \<Rightarrow> Inl e
         | Inr p0 \<Rightarrow>
             (case prefillTrendData (s1\<lparr> mpForecast := (mpForecast s1)[0 := Y p0] \<rparr>) of
                Inl e \<Rightarrow> Inl e
              | Inr s2 \<Rightarrow>
                  (case prefillPerIdx s2 of
                     Inl e \<Rightarrow> Inl e
                   | Inr s3 \<Rightarrow> prefillBaseData s3)))"

section \<open>PreprocessDataRange, assembled\<close>

text \<open>
  The two matrices have \<open>mnCount\<close> elements each (the caller checks that their
  dimensions agree and constructs the calculation with the element count). \<open>std::sort\<close>
  leaves the order of points with equal X open; the model sorts stably. \<open>rTMat\<close> is
  \<open>None\<close> for a null matrix, else the rows of the target matrix.
\<close>

definition checkTarget :: "real list list option \<Rightarrow> ScETSType \<Rightarrow> ets \<Rightarrow> ets_error + unit" where
  "checkTarget rTMat eETSType s =
     (case rTMat of
        None \<Rightarrow> Inr ()
      | Some m \<Rightarrow>
          (case concat m of
             [] \<Rightarrow> Inl OutOfRange
           | t0 # ts \<Rightarrow>
               if eETSType \<noteq> etsPIAdd \<and> eETSType \<noteq> etsPIMult
               then (case vec_at (maRange s) 0 of
                       Inl e \<Rightarrow> Inl e
                     | Inr p0 \<Rightarrow> if t0 < X p0 then Inl errIllegalFPOperation else Inr ())
               else (case vec_at (maRange s) (mnCount s - 1) of
                       Inl e \<Rightarrow> Inl e
                     | Inr pLast \<Rightarrow>
                         if t0 < X pLast then Inl errIllegalFPOperation else Inr ())))"

text \<open>
  Everything before the gap filling: the state, with \<open>maRange\<close>, \<open>mnCount\<close>,
  \<open>mfStepSize\<close> and \<open>mnMonthDay\<close> set, and the flag \<open>bHasGap\<close>.
\<close>

definition prepare ::
  "formatter \<Rightarrow> real list \<Rightarrow> real list \<Rightarrow> nat \<Rightarrow> int \<Rightarrow> real list list option \<Rightarrow> ScETSType
   \<Rightarrow> ets \<Rightarrow> ets_error + (ets \<times> bool)" where
  "prepare fmt rMatX rMatY rSmplInPrd nAggregation rTMat eETSType s =
     (let s1 = s\<lparr> bEDS := (rSmplInPrd = 0),
                   bAdditive := (eETSType = etsAdd \<or> eETSType = etsPIAdd \<or> eETSType = etsStatAdd),
                   maRange := sort_key X
                     (maRange s @ map (\<lambda>(x, y). \<lparr> X = x, Y = y \<rparr>)
                                      (take (mnCount s) (zip rMatX rMatY))) \<rparr>
      in case checkTarget rTMat eETSType s1 of
           Inl e \<Rightarrow> Inl e
         | Inr u \<Rightarrow>
             (let s2 = s1\<lparr> mnSmplInPrd := (if rSmplInPrd \<noteq> 1 then rSmplInPrd
                                              else CalcPeriodLen s1) \<rparr>
              in case vec_at (maRange s2) 0 of
                   Inl e \<Rightarrow> Inl e
                 | Inr p0 \<Rightarrow>
                     (let aDate = trunc (X p0);
                          nMonthDay = monthDay_loop fmt aDate (GetDay fmt aDate)
                                        (drop 1 (take (mnCount s2) (maRange s2)));
                          r = (if nMonthDay \<noteq> 0
                               then (maRange s2)[0 := p0\<lparr> X := toMonths fmt aDate \<rparr>]
                               else maRange s2)
                      in case aggregate_loop fmt nAggregation nMonthDay r (mnCount s2)
                                DBL_MAX aDate 1 of
                           Inl e \<Rightarrow> Inl e
                         | Inr (r', cnt', fStepSize) \<Rightarrow>
                             (case hasGap_loop r' cnt' fStepSize 1 of
                                Inl e \<Rightarrow> Inl e
                              | Inr bHasGap \<Rightarrow>
                                  Inr (s2\<lparr> maRange := r', mnCount := cnt',
                                           mfStepSize := fStepSize,
                                           mnMonthDay := nMonthDay \<rparr>, bHasGap)))))"

definition fillGaps :: "formatter \<Rightarrow> bool \<Rightarrow> ets \<Rightarrow> ets_error + ets" where
  "fillGaps fmt bDataCompletion s =
     (case vec_at (maRange s) 0 of
        Inl e \<Rightarrow> (if mnMonthDay s \<noteq> 0 then Inl e
                   else (case gap_loop fmt bDataCompletion (mnMonthDay s) (mfStepSize s)
                                (mnCount s) (maRange s) 1 (mnCount s) 0 0 of
                           Inl e' \<Rightarrow> Inl e'
                         | Inr (r', cnt') \<Rightarrow> Inr (s\<lparr> maRange := r', mnCount := cnt' \<rparr>)))
      | Inr p0 \<Rightarrow>
          (case gap_loop fmt bDataCompletion (mnMonthDay s) (mfStepSize s) (mnCount s)
                  (maRange s) 1 (mnCount s) 0
                  (if mnMonthDay s \<noteq> 0 then trunc (X p0) else 0) of
             Inl e \<Rightarrow> Inl e
           | Inr (r', cnt') \<Rightarrow> Inr (s\<lparr> maRange := r', mnCount := cnt' \<rparr>)))"

definition PreprocessDataRange ::
  "formatter \<Rightarrow> real list \<Rightarrow> real list \<Rightarrow> nat \<Rightarrow> bool \<Rightarrow> int \<Rightarrow> real list list option
   \<Rightarrow> ScETSType \<Rightarrow> ets \<Rightarrow> ets_error + ets" where
  "PreprocessDataRange fmt rMatX rMatY rSmplInPrd bDataCompletion nAggregation rTMat eETSType s =
     (case prepare fmt rMatX rMatY rSmplInPrd nAggregation rTMat eETSType s of
        Inl e \<Rightarrow> Inl e
      | Inr (s1, bHasGap) \<Rightarrow>
          (case (if bHasGap then fillGaps fmt bDataCompletion s1 else Inr s1) of
             Inl e \<Rightarrow> Inl e
           | Inr s2 \<Rightarrow> initData fmt s2))"

section \<open>Smoothing kernel and accuracy indicators\<close>

definition calcAccuracyIndicators :: "ets \<Rightarrow> ets" where
  "calcAccuracyIndicators s =
     (let fErrors = map (\<lambda>i. mpForecast s ! i - Y (maRange s ! i)) [1..<mnCount s];
          fSumAbsErr = (\<Sum>e \<leftarrow> fErrors. \<bar>e\<bar>);
          fSumErrSq = (\<Sum>e \<leftarrow> fErrors. e * e);
          fSumAbsPercErr = (\<Sum>i \<leftarrow> [1..<mnCount s].
             \<bar>mpForecast s ! i - Y (maRange s ! i)\<bar>
               / (\<bar>mpForecast s ! i\<bar> + \<bar>Y (maRange s ! i)\<bar>));
          fSumDivisor = (\<Sum>i \<leftarrow> [2..<mnCount s]. \<bar>Y (maRange s ! i) - Y (maRange s ! (i - 1))\<bar>);
          nCalcCount = int (mnCount s) - 1
      in s\<lparr> mfMAE := fSumAbsErr / of_int nCalcCount,
            mfMASE := fSumAbsErr / (of_int nCalcCount * fSumDivisor / of_int (nCalcCount - 1)),
            mfMSE := fSumErrSq / of_int nCalcCount,
            mfRMSE := sqrt (fSumErrSq / of_int nCalcCount),
            mfSMAPE := fSumAbsPercErr * 2 / of_int nCalcCount \<rparr>)"

definition smoothTrend :: "nat \<Rightarrow> ets \<Rightarrow> ets" where
  "smoothTrend i s =
     s\<lparr> mpTrend := (mpTrend s)[i := mfGamma s * (mpBase s ! i - mpBase s ! (i - 1))
                                     + (1 - mfGamma s) * mpTrend s ! (i - 1)] \<rparr>"

definition refill_step :: "nat \<Rightarrow> ets \<Rightarrow> ets" where
  "refill_step i s =
     (let y = Y (maRange s ! i) in
      if bEDS s
      then (let s1 = s\<lparr> mpBase := (mpBase s)[i := mfAlpha s * y
                           + (1 - mfAlpha s) * (mpBase s ! (i - 1) + mpTrend s ! (i - 1))] \<rparr>;
                s2 = smoothTrend i s1
            in s2\<lparr> mpForecast := (mpForecast s2)[i := mpBase s2 ! (i - 1) + mpTrend s2 ! (i - 1)] \<rparr>)
      else if bAdditive s
      then (let nIdx = (if i > mnSmplInPrd s then i - mnSmplInPrd s else i);
                s1 = s\<lparr> mpBase := (mpBase s)[i := mfAlpha s * (y - mpPerIdx s ! nIdx)
                           + (1 - mfAlpha s) * (mpBase s ! (i - 1) + mpTrend s ! (i - 1))] \<rparr>;
                s2 = s1\<lparr> mpPerIdx := (mpPerIdx s1)[i := mfBeta s1 * (y - mpBase s1 ! i)
                           + (1 - mfBeta s1) * mpPerIdx s1 ! nIdx] \<rparr>;
                s3 = smoothTrend i s2
            in s3\<lparr> mpForecast := (mpForecast s3)[i := mpBase s3 ! (i - 1) + mpTrend s3 ! (i - 1)
                                                      + mpPerIdx s3 ! nIdx] \<rparr>)
      else (let nIdx = (if i \<ge> mnSmplInPrd s then i - mnSmplInPrd s else i);
                s1 = s\<lparr> mpBase := (mpBase s)[i := mfAlpha s * (y / mpPerIdx s ! nIdx)
                           + (1 - mfAlpha s) * (mpBase s ! (i - 1) + mpTrend s ! (i - 1))] \<rparr>;
                s2 = s1\<lparr> mpPerIdx := (mpPerIdx s1)[i := mfBeta s1 * (y / mpBase s1 ! i)
                           + (1 - mfBeta s1) * mpPerIdx s1 ! nIdx] \<rparr>;
                s3 = smoothTrend i s2
            in s3\<lparr> mpForecast := (mpForecast s3)[i := (mpBase s3 ! (i - 1) + mpTrend s3 ! (i - 1))
                                                      * mpPerIdx s3 ! nIdx] \<rparr>))"

definition refill :: "ets \<Rightarrow> ets" where
  "refill s = calcAccuracyIndicators (fold refill_step [1..<mnCount s] s)"

section \<open>Parameter optimizer\<close>

text \<open>
  \<open>CalcGamma\<close>, \<open>CalcBetaGamma\<close> and \<open>CalcAlphaBetaGamma\<close> run the same search, each on
  its own parameter. A search state holds the locals \<open>f0\<close>, \<open>f1\<close>, \<open>f2\<close>, \<open>fE0\<close>,
  \<open>fE2\<close> and the calculation, whose \<open>mfMSE\<close> is the error at \<open>f1\<close>. The parameter
  \<open>ev f\<close> is what the function does to try a value: assign it and recompute.
\<close>

type_synonym search = "real \<times> real \<times> real \<times> real \<times> real \<times> ets"

definition bisect_step :: "(real \<Rightarrow> ets \<Rightarrow> ets) \<Rightarrow> search \<Rightarrow> search" where
  "bisect_step ev st =
     (case st of (f0, f1, f2, fE0, fE2, s) \<Rightarrow>
        if fE2 > fE0
        then (f0, (f0 + f1) / 2, f1, fE0, mfMSE s, ev ((f0 + f1) / 2) s)
        else (f1, (f1 + f2) / 2, f2, mfMSE s, fE2, ev ((f1 + f2) / 2) s))"

function bisect_loop :: "(real \<Rightarrow> ets \<Rightarrow> ets) \<Rightarrow> search \<Rightarrow> search" where
  "bisect_loop ev (f0, f1, f2, fE0, fE2, s) =
     (if f2 - f1 > cfMinABCResolution
      then bisect_loop ev (bisect_step ev (f0, f1, f2, fE0, fE2, s))
      else (f0, f1, f2, fE0, fE2, s))"
  by pat_completeness auto
termination
proof (relation "measure (\<lambda>(ev, f0, f1, f2, fE0, fE2, s).
                            nat \<lceil>1000 * max (f2 - f1) (f1 - f0)\<rceil>)")
  show "wf (measure (\<lambda>(ev, f0, f1, f2, fE0, fE2, s). nat \<lceil>1000 * max (f2 - f1) (f1 - f0)\<rceil>))"
    by simp
next
  fix ev :: "real \<Rightarrow> ets \<Rightarrow> ets" and f0 f1 f2 fE0 fE2 :: real and s :: ets
  assume gt: "cfMinABCResolution < f2 - f1"
  define d where "d = max (f2 - f1) (f1 - f0)"
  have d1: "1 < 1000 * d" using gt by (simp add: d_def cfMinABCResolution_def max_def)
  have half: "nat \<lceil>1000 * (e / 2)\<rceil> < nat \<lceil>1000 * d\<rceil>" if "e \<le> d" for e
  proof -
    have "\<lceil>1000 * (e / 2)\<rceil> \<le> \<lceil>1000 * (d / 2)\<rceil>" using that by (intro ceiling_mono) simp
    moreover have "\<lceil>1000 * (d / 2)\<rceil> < \<lceil>1000 * d\<rceil>"
    proof -
      have "(1::int) < \<lceil>1000 * d\<rceil>" using d1 by (subst less_ceiling_iff) simp
      then have two: "2 \<le> \<lceil>1000 * d\<rceil>" by linarith
      have "1000 * d \<le> of_int \<lceil>1000 * d\<rceil>" by (rule le_of_int_ceiling)
      then have "1000 * (d / 2) \<le> of_int \<lceil>1000 * d\<rceil> / 2" by simp
      also have "\<dots> \<le> of_int (\<lceil>1000 * d\<rceil> - 1)" using two by simp
      finally have "\<lceil>1000 * (d / 2)\<rceil> \<le> \<lceil>1000 * d\<rceil> - 1" by (rule ceiling_le)
      then show ?thesis by simp
    qed
    moreover have "0 < \<lceil>1000 * d\<rceil>" using d1 by linarith
    ultimately show ?thesis by linarith
  qed
  show "((ev, bisect_step ev (f0, f1, f2, fE0, fE2, s)), (ev, f0, f1, f2, fE0, fE2, s))
        \<in> measure (\<lambda>(ev, f0, f1, f2, fE0, fE2, s). nat \<lceil>1000 * max (f2 - f1) (f1 - f0)\<rceil>)"
  proof (cases "fE2 > fE0")
    case True
    have m: "max (f1 - (f0 + f1) / 2) ((f0 + f1) / 2 - f0) = (f1 - f0) / 2"
      by (simp add: max_def field_simps)
    have st: "bisect_step ev (f0, f1, f2, fE0, fE2, s) =
                (f0, (f0 + f1) / 2, f1, fE0, mfMSE s, ev ((f0 + f1) / 2) s)"
      using True by (simp add: bisect_step_def)
    have "nat \<lceil>1000 * max (f1 - (f0 + f1) / 2) ((f0 + f1) / 2 - f0)\<rceil> < nat \<lceil>1000 * d\<rceil>"
      unfolding m by (rule half) (simp add: d_def)
    then show ?thesis
      unfolding st d_def by (simp only: in_measure prod.case)
  next
    case False
    have m: "max (f2 - (f1 + f2) / 2) ((f1 + f2) / 2 - f1) = (f2 - f1) / 2"
      by (simp add: max_def field_simps)
    have st: "bisect_step ev (f0, f1, f2, fE0, fE2, s) =
                (f1, (f1 + f2) / 2, f2, mfMSE s, fE2, ev ((f1 + f2) / 2) s)"
      using False by (simp add: bisect_step_def)
    have "nat \<lceil>1000 * max (f2 - (f1 + f2) / 2) ((f1 + f2) / 2 - f1)\<rceil> < nat \<lceil>1000 * d\<rceil>"
      unfolding m by (rule half) (simp add: d_def)
    then show ?thesis
      unfolding st d_def by (simp only: in_measure prod.case)
  qed
qed

declare bisect_loop.simps [simp del]

definition adopt :: "(real \<Rightarrow> ets \<Rightarrow> ets) \<Rightarrow> search \<Rightarrow> ets" where
  "adopt ev st =
     (case st of (f0, f1, f2, fE0, fE2, s) \<Rightarrow>
        if fE2 > fE0
        then (if fE0 < mfMSE s then ev f0 s else s)
        else (if fE2 < mfMSE s then ev f2 s else s))"

definition tryGamma :: "real \<Rightarrow> ets \<Rightarrow> ets" where
  "tryGamma f s = refill (s\<lparr> mfGamma := f \<rparr>)"

definition CalcGamma :: "ets \<Rightarrow> ets" where
  "CalcGamma s =
     (let s0 = tryGamma 0 s;
          s2 = tryGamma 1 s0;
          s1 = tryGamma (1 / 2) s2
      in if mfMSE s0 = mfMSE s1 \<and> mfMSE s1 = mfMSE s2
         then tryGamma 0 s1
         else adopt tryGamma (bisect_loop tryGamma (0, 1 / 2, 1, mfMSE s0, mfMSE s2, s1)))"

definition tryBeta :: "real \<Rightarrow> ets \<Rightarrow> ets" where
  "tryBeta f s = refill (CalcGamma (s\<lparr> mfBeta := f \<rparr>))"

definition CalcBetaGamma :: "ets \<Rightarrow> ets" where
  "CalcBetaGamma s =
     (let s0 = tryBeta 0 s;
          s2 = tryBeta 1 s0;
          s1 = tryBeta (1 / 2) s2
      in if mfMSE s0 = mfMSE s1 \<and> mfMSE s1 = mfMSE s2
         then tryBeta 0 s1
         else adopt tryBeta (bisect_loop tryBeta (0, 1 / 2, 1, mfMSE s0, mfMSE s2, s1)))"

definition tryAlpha :: "real \<Rightarrow> ets \<Rightarrow> ets" where
  "tryAlpha f s =
     refill (if bEDS s then CalcGamma (s\<lparr> mfAlpha := f \<rparr>)
             else CalcBetaGamma (s\<lparr> mfAlpha := f \<rparr>))"

definition CalcAlphaBetaGamma :: "ets \<Rightarrow> ets" where
  "CalcAlphaBetaGamma s =
     (let s0 = tryAlpha 0 (if bEDS s then s\<lparr> mfBeta := 0 \<rparr> else s);
          s2 = tryAlpha 1 s0;
          s1 = tryAlpha (1 / 2) s2
      in if mfMSE s0 = mfMSE s1 \<and> mfMSE s1 = mfMSE s2
         then tryAlpha 0 s1
         else calcAccuracyIndicators
                (adopt tryAlpha (bisect_loop tryAlpha (0, 1 / 2, 1, mfMSE s0, mfMSE s2, s1))))"


section \<open>Prediction intervals for double exponential smoothing\<close>








section \<open>Sample inputs of Core A\<close>

text \<open>
  A formatter for the sample inputs: the proleptic Gregorian calendar with the null date
  30 December 1899, the default of the number formatter; new array cells hold zero.
  Day 25569 is 1 January 1970, and the civil date is computed from the days since
  1 March 0000 in 400-year eras.
\<close>

definition civil :: "int \<Rightarrow> int \<times> nat \<times> nat" where
  "civil n =
     (let z = n - 25569 + 719468;
          era = z div 146097;
          doe = z - era * 146097;
          yoe = (doe - doe div 1460 + doe div 36524 - doe div 146096) div 365;
          doy = doe - (365 * yoe + yoe div 4 - yoe div 100);
          mp = (5 * doy + 2) div 153;
          d = doy - (153 * mp + 2) div 5 + 1;
          m = (if mp < 10 then mp + 3 else mp - 9);
          y = yoe + era * 400 + (if m \<le> 2 then 1 else 0)
      in (y, nat m, nat d))"

definition gregorian :: formatter where
  "gregorian =
     \<lparr> GetDay = (\<lambda>n. snd (snd (civil n))),
       GetMonth = (\<lambda>n. fst (snd (civil n))),
       GetYear = (\<lambda>n. fst (civil n)),
       IsLeapYear = (\<lambda>n. if fst (civil n) mod 100 = 0 then fst (civil n) mod 400 = 0
                           else fst (civil n) mod 4 = 0),
       fresh = 0 \<rparr>"




definition additive_sample :: "ets_error + ets" where
  "additive_sample =
     PreprocessDataRange gregorian [1, 2, 3, 4] [1, 3, 1, 3] 2 True 1 None etsAdd
       (ScETSForecastCalculation 4)"




text \<open>
  Sample calculations for the optimizer: double exponential smoothing over
  \<open>Y = 1, 2, 4\<close>, with \<open>mfAlpha\<close> as \<open>CalcAlphaBetaGamma\<close> sets it before it calls
  \<open>CalcGamma\<close>.
\<close>

definition des_sample :: "ets_error + ets" where
  "des_sample =
     PreprocessDataRange gregorian [1, 2, 3] [1, 2, 4] 0 True 1 None etsAdd
       (ScETSForecastCalculation 3)"

definition des_alpha :: "real \<Rightarrow> ets" where
  "des_alpha a = (projr des_sample)\<lparr> mfAlpha := a, mfBeta := 0 \<rparr>"

text \<open>Constant data, without and with a season: every trial gives the error zero.\<close>

definition const_des :: "ets_error + ets" where
  "const_des =
     PreprocessDataRange gregorian [1, 2, 3] [1, 1, 1] 0 True 1 None etsAdd
       (ScETSForecastCalculation 3)"

definition const_mult :: "ets_error + ets" where
  "const_mult =
     PreprocessDataRange gregorian [1, 2, 3, 4] [1, 1, 1, 1] 2 True 1 None etsMult
       (ScETSForecastCalculation 4)"



text \<open>
  Sample inputs with gaps. The first holds the dates 1 January, 1 February, 1 May and
  1 August 1900 (the days 2, 33, 122 and 214 after the null date), a monthly series in
  which four months are missing. The second has gaps of the same shape in plain numbers.
  The third has one missing point between 3 and 5.
\<close>

definition monthly_sample :: "ets_error + ets" where
  "monthly_sample =
     PreprocessDataRange gregorian [2, 33, 122, 214] [1, 2, 3, 4] 0 True 1 None etsAdd
       (ScETSForecastCalculation 4)"

definition spaced_sample :: "ets_error + ets" where
  "spaced_sample =
     PreprocessDataRange gregorian [1, 2, 5, 8] [1, 2, 3, 4] 0 True 1 None etsAdd
       (ScETSForecastCalculation 4)"

definition filled_sample :: "bool \<Rightarrow> ets_error + ets" where
  "filled_sample bDataCompletion =
     PreprocessDataRange gregorian [1, 2, 3, 5] [1, 2, 3, 7] 0 bDataCompletion 1 None etsAdd
       (ScETSForecastCalculation 4)"

chapter \<open>Properties of Core B\<close>

section \<open>SAX chain controller\<close>

lemma deliver_status:
  "m_nStatusOfSecurityComponents s = INITIALIZED \<Longrightarrow>
   m_nStatusOfSecurityComponents (deliver mcf cb s) = INITIALIZED"
  by (cases cb)
     (simp_all add: blockingStatusChanged_def collectionStatusChanged_def checkChainingStatus_def
        chainOn_def chainOff_def connectPrevious_def emit_def Let_def)

text \<open>
  Claim C8, as the code has it. In a state whose security components are initialized and
  whose sticky flag is clear, after a \<open>blockingStatusChanged\<close> or
  \<open>collectionStatusChanged\<close> callback the SAXEventKeeper is connected exactly when the
  controller is collecting or blocking. The callback calls \<open>stop\<close> on the
  ElementStackKeeper exactly when one is registered and the chain went from disengaged to
  engaged, and \<open>start\<close> exactly when one is registered and the chain went from engaged
  to disengaged; each at most once. The property does not need reachability: it holds
  in every such state.
\<close>

theorem sax_chain_status_callbacks:
  assumes "m_nStatusOfSecurityComponents s = INITIALIZED"
    and "\<not> m_bIsSAXEventKeeperSticky s"
  shows "(m_bIsSAXEventKeeperConnected (deliver mcf cb s) \<longleftrightarrow>
            m_bIsCollectingElement (deliver mcf cb s) \<or> m_bIsBlocking (deliver mcf cb s))
       \<and> (ESK_stop \<in> set (new_calls s (deliver mcf cb s)) \<longleftrightarrow>
            m_xElementStackKeeper s \<and> \<not> m_bIsSAXEventKeeperConnected s
            \<and> m_bIsSAXEventKeeperConnected (deliver mcf cb s))
       \<and> (ESK_start \<in> set (new_calls s (deliver mcf cb s)) \<longleftrightarrow>
            m_xElementStackKeeper s \<and> m_bIsSAXEventKeeperConnected s
            \<and> \<not> m_bIsSAXEventKeeperConnected (deliver mcf cb s))
       \<and> count_list (new_calls s (deliver mcf cb s)) ESK_stop \<le> 1
       \<and> count_list (new_calls s (deliver mcf cb s)) ESK_start \<le> 1"
  using assms
  by (cases cb)
     (auto simp: Let_def blockingStatusChanged_def collectionStatusChanged_def
        checkChainingStatus_def chainOn_def chainOff_def connectPrevious_def emit_def
        new_calls_def)

text \<open>
  Witness for C8: the controller with an ElementStackKeeper, disengaged after a first
  round of blocking, is told that an element is being collected; the buffer stage is
  engaged and the keeper is stopped.
\<close>

theorem sax_chain_status_callbacks_witness:
  "m_nStatusOfSecurityComponents chain_with_keeper = INITIALIZED
   \<and> \<not> m_bIsSAXEventKeeperSticky chain_with_keeper
   \<and> m_bIsSAXEventKeeperConnected
        (deliver all_components (CollectionStatusChanged True) chain_with_keeper)
   \<and> ESK_stop \<in> set (new_calls chain_with_keeper
        (deliver all_components (CollectionStatusChanged True) chain_with_keeper))"
proof -
  have h1: "m_nStatusOfSecurityComponents chain_with_keeper = INITIALIZED"
    by (simp add: chain_with_keeper_def blockingStatusChanged_def checkChainingStatus_def
        chainOn_def chainOff_def connectPrevious_def emit_def createXSecComponent_def
        setSAXChainConnector_def initializeSAXChain_def XSecController_def Let_def)
  have h2: "\<not> m_bIsSAXEventKeeperSticky chain_with_keeper"
    by (simp add: chain_with_keeper_def blockingStatusChanged_def checkChainingStatus_def
        chainOn_def chainOff_def connectPrevious_def emit_def createXSecComponent_def
        setSAXChainConnector_def initializeSAXChain_def XSecController_def Let_def)
  have h3: "m_xElementStackKeeper chain_with_keeper
            \<and> \<not> m_bIsSAXEventKeeperConnected chain_with_keeper"
    by (simp add: chain_with_keeper_def blockingStatusChanged_def checkChainingStatus_def
        chainOn_def chainOff_def connectPrevious_def emit_def createXSecComponent_def
        setSAXChainConnector_def initializeSAXChain_def XSecController_def Let_def)
  have h4: "m_bIsCollectingElement
              (deliver all_components (CollectionStatusChanged True) chain_with_keeper)"
    using h1 h2 h3
    by (simp add: collectionStatusChanged_def checkChainingStatus_def chainOn_def
        connectPrevious_def emit_def Let_def)
  show ?thesis
    using h1 h2 h3 h4
      sax_chain_status_callbacks [OF h1 h2, of all_components "CollectionStatusChanged True"]
    by simp
qed

text \<open>
  Counterexample to C8 as stated: the same history without an ElementStackKeeper
  (\<open>setSAXChainConnector\<close> was given a null reference). The state is initialized, not
  sticky and disengaged; the callback engages the buffer stage, and no \<open>stop\<close> is
  called at this disengaged-to-engaged transition.
\<close>

theorem sax_chain_stop_counterexample:
  "m_nStatusOfSecurityComponents chain_without_keeper = INITIALIZED
   \<and> \<not> m_bIsSAXEventKeeperSticky chain_without_keeper
   \<and> \<not> m_bIsSAXEventKeeperConnected chain_without_keeper
   \<and> m_bIsSAXEventKeeperConnected
        (collectionStatusChanged all_components True chain_without_keeper)
   \<and> ESK_stop \<notin> set (new_calls chain_without_keeper
        (collectionStatusChanged all_components True chain_without_keeper))"
  by (simp add: chain_without_keeper_def blockingStatusChanged_def collectionStatusChanged_def
      checkChainingStatus_def chainOn_def chainOff_def connectPrevious_def emit_def
      createXSecComponent_def setSAXChainConnector_def initializeSAXChain_def
      XSecController_def new_calls_def Let_def)

section \<open>OOXML signature serializer\<close>

lemma elements_named_append:
  "elements_named n (xs @ ys) = elements_named n xs @ elements_named n ys"
  by (induction n xs rule: elements_named.induct) simp_all

lemma elements_named_concat:
  "elements_named n (concat xss) = concat (map (elements_named n) xss)"
  by (induction xss) (simp_all add: elements_named_append)

lemma content_of_append:
  "elements_named n xs = [] \<Longrightarrow> content_of n (xs @ ys) = content_of n ys"
  by (induction n xs rule: elements_named.induct) (simp_all split: if_splits)

lemma lcl_isOOXMLRelationBlacklist_iff:
  "lcl_isOOXMLRelationBlacklist t \<longleftrightarrow> t \<in> set vRelationBlacklist"
  by (auto simp: lcl_isOOXMLRelationBlacklist_def find_None_iff)

subsection \<open>Relationship references\<close>

lemma relref_one:
  "elements_named ''mdssi:RelationshipReference'' (exportRelationshipReference rPairs) =
     (if snd (readIdType rPairs) \<in> set vRelationBlacklist then []
      else [[(''xmlns:mdssi'', NS_MDSSI), (''SourceId'', fst (readIdType rPairs))]])"
  by (simp add: exportRelationshipReference_def lcl_isOOXMLRelationBlacklist_iff xml_macros
      split: prod.split)

lemma relref_relations:
  "concat (map (elements_named ''mdssi:RelationshipReference'' \<circ> exportRelationshipReference) rels)
     = expectedRelationshipReferences rels"
  by (induction rels) (simp_all add: expectedRelationshipReferences_def relref_one)

lemma relref_transforms:
  "exportTransforms env r = Inr t \<Longrightarrow>
   elements_named ''mdssi:RelationshipReference'' t =
     (if hasRelationshipTransform r then expectedRelationshipReferences (relationsRead env r)
      else [])"
  by (auto simp: exportTransforms_def relationsRead_def elements_named_append
        elements_named_concat relref_relations xml_macros split: if_splits option.splits)

lemma relref_manifest_reference:
  "exportManifestReference env r = Inr evs \<Longrightarrow>
   elements_named ''mdssi:RelationshipReference'' evs =
     (if signedWithRelationshipTransform r
      then expectedRelationshipReferences (relationsRead env r) else [])"
  by (auto simp: exportManifestReference_def signedWithRelationshipTransform_def
        elements_named_append relref_transforms xml_macros split: if_splits sum.splits)

lemma relref_manifest:
  "exportManifestReferences env rs = Inr evs \<Longrightarrow>
   elements_named ''mdssi:RelationshipReference'' evs =
     concat (map (\<lambda>r. expectedRelationshipReferences (relationsRead env r))
                 (filter signedWithRelationshipTransform rs))"
  by (induction rs arbitrary: evs)
     (auto simp: elements_named_append relref_manifest_reference split: sum.splits)

lemma relref_samedoc:
  "elements_named ''mdssi:RelationshipReference'' (exportSameDocumentReference r) = []"
  by (simp add: exportSameDocumentReference_def elements_named_append xml_macros)

lemma relref_signedinfo:
  "elements_named ''mdssi:RelationshipReference'' (exportSignedInfo i) = []"
  by (simp add: exportSignedInfo_def elements_named_append elements_named_concat
      relref_samedoc xml_macros)

lemma relref_time:
  "elements_named ''mdssi:RelationshipReference'' (exportSignatureTime t) = []"
  by (simp add: exportSignatureTime_def xml_macros)

lemma relref_office:
  "elements_named ''mdssi:RelationshipReference'' (exportOfficeObject i) = []"
  by (simp add: exportOfficeObject_def xml_macros)

lemma relref_qualifying:
  "exportQualifyingProperties env i = Inr q \<Longrightarrow>
   elements_named ''mdssi:RelationshipReference'' q = []"
  by (auto simp add: exportQualifyingProperties_def exportSignedProperties_def
      elements_named_append xml_macros split: if_splits)

lemma open_after_append: "open_after stk (xs @ ys) = open_after (open_after stk xs) ys"
  by (induction stk xs rule: open_after.induct) simp_all

lemma located_named_append:
  "located_named n stk (xs @ ys) =
     located_named n stk xs @ located_named n (open_after stk xs) ys"
  by (induction n stk xs rule: located_named.induct) simp_all

lemma located_named_none:
  "elements_named n xs = [] \<Longrightarrow> located_named n stk xs = []"
  by (induction n stk xs rule: located_named.induct) (simp_all split: if_splits)

lemma located_relref_one:
  "located_named ''mdssi:RelationshipReference'' stk (exportRelationshipReference rPairs) =
     map (Pair stk) (expectedRelationshipReferences [rPairs])"
  "open_after stk (exportRelationshipReference rPairs) = stk"
  by (simp_all add: exportRelationshipReference_def expectedRelationshipReferences_def
      lcl_isOOXMLRelationBlacklist_iff xml_macros split: prod.split)

lemma expectedRelationshipReferences_Cons:
  "expectedRelationshipReferences (rPairs # rels) =
     expectedRelationshipReferences [rPairs] @ expectedRelationshipReferences rels"
  by (simp add: expectedRelationshipReferences_def)

lemma located_relref_relations:
  "located_named ''mdssi:RelationshipReference'' stk
     (concat (map exportRelationshipReference rels)) =
     map (Pair stk) (expectedRelationshipReferences rels)
   \<and> open_after stk (concat (map exportRelationshipReference rels)) = stk"
proof (induction rels)
  case Nil
  show ?case by (simp add: expectedRelationshipReferences_def)
next
  case (Cons rPairs rels)
  show ?case
    using Cons.IH
    by (simp add: located_named_append open_after_append located_relref_one
        expectedRelationshipReferences_Cons [of rPairs rels])
qed

lemma located_transforms:
  assumes "exportTransforms env r = Inr t"
  shows "located_named ''mdssi:RelationshipReference'' stk t =
     (if hasRelationshipTransform r
      then map (Pair ((''Transform'', [(''Algorithm'', ALGO_RELATIONSHIP)])
                       # (''Transforms'', []) # stk))
             (expectedRelationshipReferences (relationsRead env r))
      else [])"
    and "open_after stk t = stk"
proof -
  show "located_named ''mdssi:RelationshipReference'' stk t =
     (if hasRelationshipTransform r
      then map (Pair ((''Transform'', [(''Algorithm'', ALGO_RELATIONSHIP)])
                       # (''Transforms'', []) # stk))
             (expectedRelationshipReferences (relationsRead env r))
      else [])"
  proof (cases "hasRelationshipTransform r")
    case False
    with assms show ?thesis by (simp add: exportTransforms_def)
  next
    case True
    with assms obtain rels where
      rd: "ReadRelationsInfoSequence env (relationsPartName (ouURI r)) = Some rels"
      and t: "t = [startElement TAG_TRANSFORMS [],
                   startElement TAG_TRANSFORM [(ATTR_ALGORITHM, ALGO_RELATIONSHIP)]]
                  @ concat (map exportRelationshipReference rels)
                  @ [endElement TAG_TRANSFORM,
                     startElement TAG_TRANSFORM [(ATTR_ALGORITHM, ALGO_C14N)],
                     endElement TAG_TRANSFORM,
                     endElement TAG_TRANSFORMS]"
      by (auto simp: exportTransforms_def split: option.splits)
    have rr: "relationsRead env r = rels" by (simp add: relationsRead_def rd)
    show ?thesis
      unfolding t rr using True
      by (simp add: located_named_append open_after_append located_relref_relations
          TAG_TRANSFORMS_def TAG_TRANSFORM_def ATTR_ALGORITHM_def)
  qed
  show "open_after stk t = stk"
  proof (cases "hasRelationshipTransform r")
    case False
    with assms show ?thesis by (simp add: exportTransforms_def)
  next
    case True
    with assms obtain rels where
      t: "t = [startElement TAG_TRANSFORMS [],
                   startElement TAG_TRANSFORM [(ATTR_ALGORITHM, ALGO_RELATIONSHIP)]]
                  @ concat (map exportRelationshipReference rels)
                  @ [endElement TAG_TRANSFORM,
                     startElement TAG_TRANSFORM [(ATTR_ALGORITHM, ALGO_C14N)],
                     endElement TAG_TRANSFORM,
                     endElement TAG_TRANSFORMS]"
      by (auto simp: exportTransforms_def split: option.splits)
    show ?thesis
      unfolding t by (simp add: open_after_append located_relref_relations)
  qed
qed

lemma located_manifest_reference:
  assumes "exportManifestReference env r = Inr evs"
  shows "located_named ''mdssi:RelationshipReference'' stk evs =
     (if signedWithRelationshipTransform r
      then map (Pair ((''Transform'', [(''Algorithm'', ALGO_RELATIONSHIP)])
                       # (''Transforms'', []) # (''Reference'', [(''URI'', ouURI r)]) # stk))
             (expectedRelationshipReferences (relationsRead env r))
      else [])"
    and "open_after stk evs = stk"
proof -
  consider (skip) "nType r = SAMEDOCUMENT \<or> lcl_isOOXMLBlacklist (ouURI r)"
    | (written) "nType r \<noteq> SAMEDOCUMENT" "\<not> lcl_isOOXMLBlacklist (ouURI r)"
    by blast
  then have "located_named ''mdssi:RelationshipReference'' stk evs =
     (if signedWithRelationshipTransform r
      then map (Pair ((''Transform'', [(''Algorithm'', ALGO_RELATIONSHIP)])
                       # (''Transforms'', []) # (''Reference'', [(''URI'', ouURI r)]) # stk))
             (expectedRelationshipReferences (relationsRead env r))
      else [])
    \<and> open_after stk evs = stk"
  proof cases
    case skip
    with assms have "evs = []"
      by (auto simp: exportManifestReference_def split: if_splits)
    with skip show ?thesis by (auto simp: signedWithRelationshipTransform_def)
  next
    case written
    with assms obtain t where
      t: "exportTransforms env r = Inr t"
      and evs: "evs = [startElement TAG_REFERENCE [(ATTR_URI, ouURI r)]] @ t
              @ [startElement TAG_DIGESTMETHOD [(ATTR_ALGORITHM, ALGO_XMLDSIGSHA256)],
                 endElement TAG_DIGESTMETHOD,
                 startElement TAG_DIGESTVALUE [],
                 characters (ouDigestValue r),
                 endElement TAG_DIGESTVALUE,
                 endElement TAG_REFERENCE]"
      by (auto simp: exportManifestReference_def split: sum.splits)
    show ?thesis
      unfolding evs using written
      by (simp add: located_named_append open_after_append located_transforms [OF t]
          signedWithRelationshipTransform_def
          TAG_REFERENCE_def ATTR_URI_def TAG_DIGESTMETHOD_def TAG_DIGESTVALUE_def)
  qed
  then show "located_named ''mdssi:RelationshipReference'' stk evs =
     (if signedWithRelationshipTransform r
      then map (Pair ((''Transform'', [(''Algorithm'', ALGO_RELATIONSHIP)])
                       # (''Transforms'', []) # (''Reference'', [(''URI'', ouURI r)]) # stk))
             (expectedRelationshipReferences (relationsRead env r))
      else [])"
    and "open_after stk evs = stk"
    by simp_all
qed

lemma located_manifest:
  "exportManifestReferences env rs = Inr evs \<Longrightarrow>
   located_named ''mdssi:RelationshipReference'' stk evs =
     concat (map (\<lambda>r. map (Pair ((''Transform'', [(''Algorithm'', ALGO_RELATIONSHIP)])
                                  # (''Transforms'', []) # (''Reference'', [(''URI'', ouURI r)])
                                  # stk))
                        (expectedRelationshipReferences (relationsRead env r)))
                 (filter signedWithRelationshipTransform rs))"
proof (induction rs arbitrary: evs)
  case Nil
  then show ?case by simp
next
  case (Cons r rs)
  from Cons.prems obtain e1 e2 where
    e1: "exportManifestReference env r = Inr e1"
    and e2: "exportManifestReferences env rs = Inr e2"
    and evs: "evs = e1 @ e2"
    by (auto split: sum.splits)
  show ?case
    unfolding evs
    by (simp add: located_named_append located_manifest_reference [OF e1] Cons.IH [OF e2])
qed

lemma open_after_samedoc: "open_after stk (exportSameDocumentReference r) = stk"
  by (simp add: exportSameDocumentReference_def open_after_append)

lemma open_after_samedocs:
  "open_after stk (concat (map exportSameDocumentReference rs)) = stk"
  by (induction rs) (simp_all add: open_after_append open_after_samedoc)

lemma open_after_signedinfo:
  "open_after [] (exportSignedInfo i) =
     [(''Manifest'', []),
      (''Object'', [(''Id'', ''idPackageObject'')]),
      (''Signature'', [(''xmlns'', NS_XMLDSIG), (''Id'', ''idPackageSignature'')])]"
  by (simp add: exportSignedInfo_def open_after_append open_after_samedocs
      TAG_SIGNATURE_def TAG_OBJECT_def TAG_MANIFEST_def ATTR_XMLNS_def ATTR_ID_def)

text \<open>
  Claim C6. When \<open>exportOOXMLSignature\<close> writes a signature, the
  \<open>mdssi:RelationshipReference\<close> elements of the output are, in order, those expected
  from the relationships parts of the references written with a relationship transform:
  one element per \<open>(Id, Type)\<close> pair whose type is not one of the three blacklisted
  relation types, with \<open>SourceId\<close> set to the pair's Id. No pair of a blacklisted type
  gives an element. Each of these elements is a child of the \<open>Transform\<close> element with
  the Relationship algorithm, inside the \<open>Transforms\<close> of the \<open>Reference\<close> whose URI is
  that of the relationships part it was read from, in the manifest of the package
  object; no RelationshipReference is written anywhere else.
\<close>

theorem relationship_references_filtered:
  "exportOOXMLSignature env rInformation = Inr evs \<Longrightarrow>
   elements_named ''mdssi:RelationshipReference'' evs =
     concat (map (\<lambda>r. expectedRelationshipReferences (relationsRead env r))
                 (filter signedWithRelationshipTransform (vSignatureReferenceInfors rInformation)))
   \<and> located_named ''mdssi:RelationshipReference'' [] evs =
     concat (map (expectedLocatedReferences env)
                 (filter signedWithRelationshipTransform (vSignatureReferenceInfors rInformation)))"
proof -
  assume ex: "exportOOXMLSignature env rInformation = Inr evs"
  then obtain manifest qualifying where
    m: "exportManifestReferences env (vSignatureReferenceInfors rInformation) = Inr manifest"
    and q: "exportQualifyingProperties env rInformation = Inr qualifying"
    and evs: "evs = exportSignedInfo rInformation @ manifest
                @ (exportSignatureTime (signatureTimeValue env rInformation)
                   @ exportOfficeObject rInformation @ qualifying)"
    by (auto simp: exportOOXMLSignature_def split: sum.splits)
  have flat: "elements_named ''mdssi:RelationshipReference'' evs =
     concat (map (\<lambda>r. expectedRelationshipReferences (relationsRead env r))
                 (filter signedWithRelationshipTransform (vSignatureReferenceInfors rInformation)))"
    unfolding evs
    by (simp only: elements_named_append relref_signedinfo relref_time relref_office
        relref_qualifying [OF q] relref_manifest [OF m] append_Nil append_Nil2)
  have path: "(\<lambda>r. map (Pair ((''Transform'', [(''Algorithm'', ALGO_RELATIONSHIP)])
                                  # (''Transforms'', []) # (''Reference'', [(''URI'', ouURI r)])
                                  # open_after [] (exportSignedInfo rInformation)))
                        (expectedRelationshipReferences (relationsRead env r)))
              = expectedLocatedReferences env"
    by (rule ext)
       (simp add: expectedLocatedReferences_def relationshipTransformPath_def
          open_after_signedinfo ALGO_RELATIONSHIP_def)
  have located: "located_named ''mdssi:RelationshipReference'' [] evs =
     concat (map (expectedLocatedReferences env)
                 (filter signedWithRelationshipTransform (vSignatureReferenceInfors rInformation)))"
    unfolding evs
    by (simp only: located_named_append located_named_none [OF relref_signedinfo]
        located_named_none [OF relref_time] located_named_none [OF relref_office]
        located_named_none [OF relref_qualifying [OF q]] located_manifest [OF m] path
        append_Nil append_Nil2)
  from flat located show ?thesis by (rule conjI)
qed

lemmas export_defs =
  exportOOXMLSignature_def exportManifestReference_def exportTransforms_def
  exportQualifyingProperties_def hasRelationshipTransform_def relationsPartName_def
  lcl_isOOXMLBlacklist_def startsWith_def endsWith_def suffix_to_prefix indexOf_def

lemma sample_manifest:
  "exportManifestReferences sample_env (vSignatureReferenceInfors sample_signature) =
     Inr (events_of
            (exportManifestReferences sample_env (vSignatureReferenceInfors sample_signature)))"
  by (simp add: sample_env_def sample_signature_def export_defs events_of_def)

lemma sample_export:
  "exportOOXMLSignature sample_env sample_signature =
     Inr (events_of (exportOOXMLSignature sample_env sample_signature))"
proof -
  have q: "exportQualifyingProperties sample_env sample_signature =
     Inr (events_of (exportQualifyingProperties sample_env sample_signature))"
    by (simp add: sample_env_def sample_signature_def exportQualifyingProperties_def
        events_of_def)
  show ?thesis
    unfolding exportOOXMLSignature_def
    by (subst sample_manifest, subst q, subst sample_manifest, subst q)
       (simp only: sum.case events_of_def)
qed

lemma sample_references:
  "filter signedWithRelationshipTransform (vSignatureReferenceInfors sample_signature) =
     [\<lparr> nType = XMLSTREAM,
        ouURI = ''/word/_rels/document.xml.rels?ContentType=application/vnd.openxmlformats-package.relationships+xml'',
        ouDigestValue = ''Yw=='' \<rparr>]"
  by (simp add: sample_signature_def signedWithRelationshipTransform_def export_defs)

lemma sample_expected:
  "expectedRelationshipReferences
     (relationsRead sample_env
        \<lparr> nType = XMLSTREAM,
          ouURI = ''/word/_rels/document.xml.rels?ContentType=application/vnd.openxmlformats-package.relationships+xml'',
          ouDigestValue = ''Yw=='' \<rparr>) =
     [[(''xmlns:mdssi'', NS_MDSSI), (''SourceId'', ''rId4'')]]"
  by (simp add: expectedRelationshipReferences_def relationsRead_def sample_env_def
      readIdType_def vRelationBlacklist_def export_defs)

lemma sample_located:
  "expectedLocatedReferences sample_env
     \<lparr> nType = XMLSTREAM,
       ouURI = ''/word/_rels/document.xml.rels?ContentType=application/vnd.openxmlformats-package.relationships+xml'',
       ouDigestValue = ''Yw=='' \<rparr> =
     [([(''Transform'',
           [(''Algorithm'', ''http://schemas.openxmlformats.org/package/2006/RelationshipTransform'')]),
        (''Transforms'', []),
        (''Reference'',
           [(''URI'', ''/word/_rels/document.xml.rels?ContentType=application/vnd.openxmlformats-package.relationships+xml'')]),
        (''Manifest'', []),
        (''Object'', [(''Id'', ''idPackageObject'')]),
        (''Signature'', [(''xmlns'', NS_XMLDSIG), (''Id'', ''idPackageSignature'')])],
       [(''xmlns:mdssi'', NS_MDSSI), (''SourceId'', ''rId4'')])]"
  unfolding expectedLocatedReferences_def sample_expected
  by (simp add: relationshipTransformPath_def)

text \<open>
  Witness for C6: the sample signature refers to a relationships part that holds the
  three blacklisted relation types and a custom one; only the custom relation \<open>rId4\<close>
  is written as a RelationshipReference, as a child of the Relationship transform of
  the reference to \<open>/word/_rels/document.xml.rels\<close>.
\<close>

theorem relationship_references_filtered_witness:
  "exportOOXMLSignature sample_env sample_signature =
     Inr (events_of (exportOOXMLSignature sample_env sample_signature))
   \<and> elements_named ''mdssi:RelationshipReference''
        (events_of (exportOOXMLSignature sample_env sample_signature)) =
       [[(''xmlns:mdssi'', NS_MDSSI), (''SourceId'', ''rId4'')]]
   \<and> located_named ''mdssi:RelationshipReference'' []
        (events_of (exportOOXMLSignature sample_env sample_signature)) =
       [([(''Transform'',
             [(''Algorithm'', ''http://schemas.openxmlformats.org/package/2006/RelationshipTransform'')]),
          (''Transforms'', []),
          (''Reference'',
             [(''URI'', ''/word/_rels/document.xml.rels?ContentType=application/vnd.openxmlformats-package.relationships+xml'')]),
          (''Manifest'', []),
          (''Object'', [(''Id'', ''idPackageObject'')]),
          (''Signature'', [(''xmlns'', NS_XMLDSIG), (''Id'', ''idPackageSignature'')])],
         [(''xmlns:mdssi'', NS_MDSSI), (''SourceId'', ''rId4'')])]"
  using relationship_references_filtered [OF sample_export] sample_export
  by (simp only: sample_references sample_expected sample_located list.map concat.simps
      append_Nil2 simp_thms)

subsection \<open>The XAdES object in test mode\<close>

lemma xd_samedoc: "xd_name n \<Longrightarrow> elements_named n (exportSameDocumentReference r) = []"
  unfolding xd_name_def by (elim disjE; simp add: exportSameDocumentReference_def xml_macros)

lemma xd_samedocs:
  "xd_name n \<Longrightarrow> concat (map (elements_named n \<circ> exportSameDocumentReference) rs) = []"
  by (induction rs) (simp_all add: xd_samedoc)

lemma xd_signedinfo: "xd_name n \<Longrightarrow> elements_named n (exportSignedInfo i) = []"
  unfolding xd_name_def
  by (elim disjE;
      simp add: exportSignedInfo_def elements_named_append elements_named_concat xd_samedocs
        xd_name_def xml_macros)

lemma xd_relref: "xd_name n \<Longrightarrow> elements_named n (exportRelationshipReference p) = []"
  unfolding xd_name_def
  by (elim disjE; simp add: exportRelationshipReference_def xml_macros split: prod.splits)

lemma xd_relrefs:
  "xd_name n \<Longrightarrow> concat (map (elements_named n \<circ> exportRelationshipReference) rels) = []"
  by (induction rels) (simp_all add: xd_relref)

lemma xd_transforms:
  assumes n: "xd_name n" and t: "exportTransforms env r = Inr t"
  shows "elements_named n t = []"
proof (cases "hasRelationshipTransform r")
  case True
  with t obtain rels where
    "t = [startElement TAG_TRANSFORMS [],
          startElement TAG_TRANSFORM [(ATTR_ALGORITHM, ALGO_RELATIONSHIP)]]
         @ concat (map exportRelationshipReference rels)
         @ [endElement TAG_TRANSFORM,
            startElement TAG_TRANSFORM [(ATTR_ALGORITHM, ALGO_C14N)],
            endElement TAG_TRANSFORM,
            endElement TAG_TRANSFORMS]"
    by (cases "ReadRelationsInfoSequence env (relationsPartName (ouURI r))")
       (auto simp add: exportTransforms_def)
  then show ?thesis
    using n unfolding xd_name_def
    by (elim disjE;
        simp add: elements_named_append elements_named_concat xd_relrefs xd_name_def xml_macros)
next
  case False
  with t show ?thesis by (simp add: exportTransforms_def)
qed

lemma xd_manifest_reference:
  "xd_name n \<Longrightarrow> exportManifestReference env r = Inr evs \<Longrightarrow> elements_named n evs = []"
proof -
  assume n: "xd_name n" and r: "exportManifestReference env r = Inr evs"
  have fixed: "elements_named n [startElement TAG_REFERENCE [(ATTR_URI, ouURI r)]] = []"
     "elements_named n [startElement TAG_DIGESTMETHOD [(ATTR_ALGORITHM, ALGO_XMLDSIGSHA256)],
                              endElement TAG_DIGESTMETHOD,
                              startElement TAG_DIGESTVALUE [],
                              characters (ouDigestValue r),
                              endElement TAG_DIGESTVALUE,
                              endElement TAG_REFERENCE] = []"
    using n unfolding xd_name_def by (elim disjE; simp add: xml_macros)+
  show ?thesis
  proof (cases "nType r \<noteq> SAMEDOCUMENT \<and> \<not> lcl_isOOXMLBlacklist (ouURI r)")
    case True
    with r obtain t where t: "exportTransforms env r = Inr t"
      and evs: "evs = [startElement TAG_REFERENCE [(ATTR_URI, ouURI r)]] @ t @
         [startElement TAG_DIGESTMETHOD [(ATTR_ALGORITHM, ALGO_XMLDSIGSHA256)],
                              endElement TAG_DIGESTMETHOD,
                              startElement TAG_DIGESTVALUE [],
                              characters (ouDigestValue r),
                              endElement TAG_DIGESTVALUE,
                              endElement TAG_REFERENCE]"
      by (cases "exportTransforms env r") (auto simp add: exportManifestReference_def)
    show ?thesis
      unfolding evs elements_named_append fixed xd_transforms[OF n t] by simp
  next
    case False
    with r have "evs = []"
      by (simp add: exportManifestReference_def split: if_splits)
    then show ?thesis by simp
  qed
qed

lemma xd_manifest:
  "xd_name n \<Longrightarrow> exportManifestReferences env rs = Inr evs \<Longrightarrow> elements_named n evs = []"
proof (induction rs arbitrary: evs)
  case Nil
  then show ?case by simp
next
  case (Cons r rs)
  from Cons.prems(2) obtain a b where a: "exportManifestReference env r = Inr a"
    and b: "exportManifestReferences env rs = Inr b" and evs: "evs = a @ b"
    by (cases "exportManifestReference env r"; cases "exportManifestReferences env rs") auto
  show ?case
    unfolding evs elements_named_append
    by (simp add: xd_manifest_reference[OF Cons.prems(1) a] Cons.IH[OF Cons.prems(1) b])
qed

lemma xd_time: "xd_name n \<Longrightarrow> elements_named n (exportSignatureTime t) = []"
  unfolding xd_name_def by (elim disjE; simp add: exportSignatureTime_def xml_macros)

lemma xd_office: "xd_name n \<Longrightarrow> elements_named n (exportOfficeObject i) = []"
  unfolding xd_name_def by (elim disjE; simp add: exportOfficeObject_def xml_macros)

lemma xd_front:
  assumes "xd_name n" "exportManifestReferences env (vSignatureReferenceInfors i) = Inr m"
  shows "elements_named n (exportSignedInfo i @ m @ exportSignatureTime t @ exportOfficeObject i) = []"
  using assms by (simp add: elements_named_append xd_signedinfo xd_manifest xd_time xd_office)

lemma qualifying_test:
  "bTest env \<Longrightarrow> exportQualifyingProperties env i =
     Inr [startElement ''Object'' [],
          startElement ''xd:QualifyingProperties''
            [(''xmlns:xd'', NS_XD), (''Target'', ''#idPackageSignature'')],
          endElement ''xd:QualifyingProperties'', endElement ''Object'', endElement ''Signature'']"
  by (simp add: exportQualifyingProperties_def xml_macros)

lemma test_mode_events:
  assumes "bTest env" and "exportOOXMLSignature env rInformation = Inr evs"
  shows "content_of ''xd:QualifyingProperties'' evs = Some []
       \<and> elements_named ''xd:QualifyingProperties'' evs =
           [[(''xmlns:xd'', NS_XD), (''Target'', ''#idPackageSignature'')]]
       \<and> elements_named ''xd:SignedProperties'' evs = []"
proof -
  from assms(2) obtain m where
    m: "exportManifestReferences env (vSignatureReferenceInfors rInformation) = Inr m"
    by (auto simp: exportOOXMLSignature_def split: sum.splits)
  let ?front = "exportSignedInfo rInformation @ m
      @ exportSignatureTime (signatureTimeValue env rInformation) @ exportOfficeObject rInformation"
  let ?q = "[startElement ''Object'' [],
          startElement ''xd:QualifyingProperties''
            [(''xmlns:xd'', NS_XD), (''Target'', ''#idPackageSignature'')],
          endElement ''xd:QualifyingProperties'', endElement ''Object'', endElement ''Signature'']"
  have q: "exportQualifyingProperties env rInformation = Inr ?q"
    by (rule qualifying_test[OF assms(1)])
  have "exportOOXMLSignature env rInformation = Inr (?front @ ?q)"
    unfolding exportOOXMLSignature_def m q by (simp only: sum.case append_assoc)
  with assms(2) have "Inr evs = (Inr (?front @ ?q) :: export_error + sax_event list)"
    by (simp only:)
  then have evs: "evs = ?front @ ?q"
    by (simp only: sum.inject)
  have f1: "elements_named ''xd:QualifyingProperties'' ?front = []"
    by (rule xd_front[OF _ m]) (simp add: xd_name_def)
  have f2: "elements_named ''xd:SignedProperties'' ?front = []"
    by (rule xd_front[OF _ m]) (simp add: xd_name_def)
  have "content_of ''xd:QualifyingProperties'' evs = Some []"
    unfolding evs by (subst content_of_append[OF f1]) simp
  moreover have "elements_named ''xd:QualifyingProperties'' evs =
           [[(''xmlns:xd'', NS_XD), (''Target'', ''#idPackageSignature'')]]"
    unfolding evs by (subst elements_named_append) (simp add: f1)
  moreover have "elements_named ''xd:SignedProperties'' evs = []"
    unfolding evs by (subst elements_named_append) (simp add: f2)
  ultimately show ?thesis by simp
qed

lemma test_export:
  "exportOOXMLSignature test_env sample_signature =
     Inr (events_of (exportOOXMLSignature test_env sample_signature))"
proof -
  have m: "exportManifestReferences test_env (vSignatureReferenceInfors sample_signature) =
     Inr (events_of
            (exportManifestReferences test_env (vSignatureReferenceInfors sample_signature)))"
    by (simp add: test_env_def sample_signature_def export_defs events_of_def)
  have q: "exportQualifyingProperties test_env sample_signature =
     Inr (events_of (exportQualifyingProperties test_env sample_signature))"
    by (simp add: test_env_def exportQualifyingProperties_def events_of_def)
  show ?thesis
    unfolding exportOOXMLSignature_def
    by (subst m, subst q, subst m, subst q) (simp only: sum.case events_of_def)
qed

text \<open>
  Claim C7, as the code has it. When \<open>LO_TESTNAME\<close> is set, the OOXML output still
  contains the \<open>xd:QualifyingProperties\<close> element, with its namespace and target
  attributes, but the element is empty: the \<open>xd:SignedProperties\<close> subtree is left out.
  \<open>isXML\<close> returns true for every URI.
\<close>

theorem test_mode_output:
  assumes "bTest env"
    and "exportOOXMLSignature env rInformation = Inr evs"
    and "LO_TESTNAME ext"
  shows "content_of ''xd:QualifyingProperties'' evs = Some []
       \<and> elements_named ''xd:QualifyingProperties'' evs =
           [[(''xmlns:xd'', NS_XD), (''Target'', ''#idPackageSignature'')]]
       \<and> elements_named ''xd:SignedProperties'' evs = []
       \<and> isXML ext s rURI"
  using test_mode_events [OF assms(1,2)] assms(3) by (simp add: isXML_def)

text \<open>
  Witness for C7: the sample signature written in test mode, and \<open>isXML\<close> asked about
  a binary stream.
\<close>

theorem test_mode_output_witness:
  "bTest test_env
   \<and> exportOOXMLSignature test_env sample_signature =
       Inr (events_of (exportOOXMLSignature test_env sample_signature))
   \<and> LO_TESTNAME counting_collaborators
   \<and> content_of ''xd:QualifyingProperties''
        (events_of (exportOOXMLSignature test_env sample_signature)) = Some []
   \<and> isXML counting_collaborators sample_manager ''Pictures/logo.png''"
proof -
  have h1: "bTest test_env" by (simp add: test_env_def)
  have h3: "LO_TESTNAME counting_collaborators" by (simp add: counting_collaborators_def)
  show ?thesis
    using h1 h3 test_export
      test_mode_output [OF h1 test_export h3, of sample_manager "''Pictures/logo.png''"]
    by simp
qed

text \<open>
  Counterexample to C7 as stated: in test mode the output of the sample signature does
  contain a \<open>xd:QualifyingProperties\<close> element.
\<close>

theorem test_mode_qualifying_counterexample:
  "bTest test_env
   \<and> exportOOXMLSignature test_env sample_signature =
       Inr (events_of (exportOOXMLSignature test_env sample_signature))
   \<and> elements_named ''xd:QualifyingProperties''
        (events_of (exportOOXMLSignature test_env sample_signature)) \<noteq> []"
proof -
  have h1: "bTest test_env" by (simp add: test_env_def)
  show ?thesis
    using h1 test_export test_mode_events [OF h1 test_export] by simp
qed

section \<open>Document signature manager\<close>

lemma keeps_returnM: "keeps_signatures (returnM x)"
  by (simp add: keeps_signatures_def returnM_def)

lemma keeps_throwM: "keeps_signatures throwM"
  by (simp add: keeps_signatures_def throwM_def)

lemma keeps_getM: "keeps_signatures (getM f)"
  by (simp add: keeps_signatures_def getM_def)

lemma keeps_extern: "keeps_signatures (extern f)"
  by (simp add: keeps_signatures_def extern_def split: prod.split)

lemma keeps_modifyM:
  "(\<And>s. maCurrentSignatureInformations (f s) = maCurrentSignatureInformations s) \<Longrightarrow>
   keeps_signatures (modifyM f)"
  by (simp add: keeps_signatures_def modifyM_def)

lemma keeps_bindM:
  assumes "keeps_signatures m" and "\<And>x. keeps_signatures (f x)"
  shows "keeps_signatures (bindM m f)"
  unfolding keeps_signatures_def
proof
  fix s
  show "maCurrentSignatureInformations (snd (bindM m f s)) = maCurrentSignatureInformations s"
  proof (cases "m s")
    case (Pair r s')
    with assms(1) have eq: "maCurrentSignatureInformations s' = maCurrentSignatureInformations s"
      by (metis keeps_signatures_def snd_conv)
    show ?thesis
    proof (cases r)
      case (Returned x)
      with Pair eq assms(2)[of x] show ?thesis
        by (simp add: bindM_def keeps_signatures_def)
    next
      case Threw
      with Pair eq show ?thesis by (simp add: bindM_def)
    qed
  qed
qed

lemma keeps_thenM:
  "keeps_signatures m \<Longrightarrow> keeps_signatures k \<Longrightarrow> keeps_signatures (thenM m k)"
  by (simp add: thenM_def keeps_bindM)

lemma keeps_forM: "(\<And>x. keeps_signatures (body x)) \<Longrightarrow> keeps_signatures (forM xs body)"
  by (induction xs) (simp_all add: keeps_returnM keeps_thenM)

lemma keeps_if:
  "keeps_signatures a \<Longrightarrow> keeps_signatures b \<Longrightarrow> keeps_signatures (if c then a else b)"
  by simp

lemma keeps_case_option:
  "keeps_signatures a \<Longrightarrow> (\<And>x. keeps_signatures (b x)) \<Longrightarrow>
   keeps_signatures (case v of None \<Rightarrow> a | Some x \<Rightarrow> b x)"
  by (cases v) simp_all

lemmas keeps_intros = keeps_returnM keeps_throwM keeps_getM keeps_extern keeps_bindM keeps_thenM
  keeps_forM keeps_modifyM keeps_if keeps_case_option

lemma keeps_openTemp: "keeps_signatures (openTemp ext m h)"
  unfolding openTemp_def by (intro keeps_intros) simp_all

lemma keeps_openFinal: "keeps_signatures (openFinal ext m h)"
  unfolding openFinal_def by (intro keeps_intros)

lemma keeps_ImplOpenSignatureStream: "keeps_signatures (ImplOpenSignatureStream ext m b)"
  unfolding ImplOpenSignatureStream_def
  by (intro keeps_intros) (simp_all add: keeps_openTemp keeps_openFinal)

lemma keeps_writeODF: "keeps_signatures (writeODF ext h)"
  unfolding writeODF_def by (intro keeps_intros)

lemma keeps_writeOOXML: "keeps_signatures (writeOOXML ext h)"
  unfolding writeOOXML_def by (intro keeps_intros)

lemma keeps_add: "keeps_signatures (add ext xCert rDescription)"
  unfolding add_def Let_def
  by (intro keeps_intros keeps_ImplOpenSignatureStream keeps_writeODF keeps_writeOOXML)

text \<open>
  Claim C9. Every call of \<open>add\<close>, whether it returns or throws, leaves the list
  \<open>maCurrentSignatureInformations\<close> as it was. When the certificate reference is null or
  the serial number string is empty, \<open>add\<close> returns false, stores no security id and
  changes nothing of the manager.
\<close>

theorem add_keeps_signature_list:
  "maCurrentSignatureInformations (snd (add ext xCert rDescription s)) =
     maCurrentSignatureInformations s
   \<and> ((case xCert of None \<Rightarrow> True | Some cert \<Rightarrow> certSerialNumber ext cert = []) \<longrightarrow>
        add ext xCert rDescription s = (Returned (False, None), s))"
  using keeps_add[of ext xCert rDescription]
  by (auto simp: keeps_signatures_def add_def returnM_def split: option.splits)

text \<open>
  Witness for C9: a certificate with an empty serial number is refused without any
  change, and the list still holds its one signature.
\<close>

theorem add_keeps_signature_list_witness:
  "certSerialNumber counting_collaborators [] = []
   \<and> add counting_collaborators (Some []) ''approved'' sample_manager =
       (Returned (False, None), sample_manager)
   \<and> maCurrentSignatureInformations
        (snd (add counting_collaborators (Some []) ''approved'' sample_manager)) =
       [sample_signature]"
proof -
  have h: "certSerialNumber counting_collaborators [] = []"
    by (simp add: counting_collaborators_def)
  show ?thesis
    using h add_keeps_signature_list
            [of counting_collaborators "Some []" "''approved''" sample_manager]
    by (simp add: sample_manager_def)
qed

chapter \<open>Properties of Core A\<close>

section \<open>Evaluation on sample inputs\<close>

text \<open>
  The sample inputs use small integers only, which \<open>double\<close> represents exactly; the
  lemmas of this section are the rewrite rules that evaluate the model on them.
\<close>

lemma DBL_MAX_big: "x \<le> 1000000 \<Longrightarrow> x < DBL_MAX"
  by (simp add: DBL_MAX_def)

lemma civil_values:
  "civil 1 = (1899, 12, 31)" "civil 2 = (1900, 1, 1)"
  "civil 3 = (1900, 1, 2)" "civil 4 = (1900, 1, 3)"
  unfolding civil_def by (simp_all cong: let_weak_cong)

lemma gregorian_sel:
  "GetDay gregorian n = snd (snd (civil n))"
  "GetMonth gregorian n = fst (snd (civil n))"
  "GetYear gregorian n = fst (civil n)"
  "fresh gregorian = 0"
  by (simp_all add: gregorian_def)

lemma replicate_numeral: "replicate (numeral k) x = x # replicate (pred_numeral k) x"
  by (simp add: numeral_eq_Suc)


lemmas preprocess_defs =
  PreprocessDataRange_def prepare_def checkTarget_def ScETSForecastCalculation_def fillGaps_def
  initData_def prefillTrendData_def prefillPerIdx_def prefillBaseData_def seasonalIndex_def
  periodAverage_def
  aggregate_loop.simps aggregate_def aggregate_run.simps hasGap_loop.simps gap_loop.simps
  gap_insert.simps exceeds_def accumulate_def aggregated_def
  vec_at_def erase_def insert_at_def trunc_def fmod_def fmod_nonzero_def toMonths_def monthDiff_def
  gregorian_sel civil_values DBL_MAX_big upt_conv_Cons replicate_numeral Let_def


lemma additive_sample_value:
  "additive_sample =
     Inr \<lparr> maRange = [\<lparr>X = 1, Y = 1\<rparr>, \<lparr>X = 2, Y = 3\<rparr>, \<lparr>X = 3, Y = 1\<rparr>, \<lparr>X = 4, Y = 3\<rparr>],
           mpBase = [- 1, 0, 0, 0], mpTrend = [0, 0, 0, 0],
           mpPerIdx = [- 1, 1, 0, 0], mpForecast = [1, 0, 0, 0],
           mnSmplInPrd = 2, mfStepSize = 1, mfAlpha = 0, mfBeta = 0,
           mfGamma = 0, mnCount = 4, mbInitialised = False, mnMonthDay = 0,
           mfMAE = 0, mfMASE = 0, mfMSE = 0, mfRMSE = 0, mfSMAPE = 0,
           bAdditive = True, bEDS = False \<rparr>"
  by (simp add: additive_sample_def preprocess_defs cong: let_weak_cong)







section \<open>Duplicate aggregation\<close>

text \<open>
  Claim C10 does not hold of the code. The points \<open>X = 1, 2, 3, 3\<close> end with a run of
  equal X values. In the average case the loop erases the last point, which leaves
  three points, and evaluates its condition again: it reads \<open>maRange[3]\<close> before
  it compares \<open>i = 3\<close> with \<open>mnCount = 3\<close>. The model reports this read as
  \<open>OutOfRange\<close>.
\<close>

theorem trailing_duplicates_read_past_end:
  "PreprocessDataRange gregorian [1, 2, 3, 3] [1, 2, 3, 4] 0 True 1 None etsAdd
     (ScETSForecastCalculation 4) = Inl OutOfRange"
  by (simp add: preprocess_defs cong: let_weak_cong)

section \<open>Initializer\<close>




section \<open>Period detector\<close>









section \<open>Parameter optimizer\<close>

lemma refill_steps_keep:
  "mfAlpha (fold refill_step xs s) = mfAlpha s
   \<and> mfBeta (fold refill_step xs s) = mfBeta s
   \<and> mfGamma (fold refill_step xs s) = mfGamma s
   \<and> bEDS (fold refill_step xs s) = bEDS s"
  by (induction xs arbitrary: s) (simp_all add: refill_step_def smoothTrend_def Let_def)

lemma refill_keeps:
  "mfAlpha (refill s) = mfAlpha s" "mfBeta (refill s) = mfBeta s"
  "mfGamma (refill s) = mfGamma s" "bEDS (refill s) = bEDS s"
  by (simp_all add: refill_def calcAccuracyIndicators_def Let_def refill_steps_keep)

lemma calcAccuracyIndicators_keeps:
  "mfAlpha (calcAccuracyIndicators s) = mfAlpha s"
  "mfBeta (calcAccuracyIndicators s) = mfBeta s"
  "mfGamma (calcAccuracyIndicators s) = mfGamma s"
  "bEDS (calcAccuracyIndicators s) = bEDS s"
  by (simp_all add: calcAccuracyIndicators_def Let_def)

lemma tryGamma_fields:
  "mfGamma (tryGamma f s) = f" "mfAlpha (tryGamma f s) = mfAlpha s"
  "mfBeta (tryGamma f s) = mfBeta s" "bEDS (tryGamma f s) = bEDS s"
  by (simp_all add: tryGamma_def refill_keeps)

text \<open>
  An invariant of the search: every candidate value lies between 0 and 1, and a
  property that each trial establishes holds of the calculation in the search state.
\<close>

lemma bisect_loop_inv:
  "(\<And>f s. 0 \<le> f \<Longrightarrow> f \<le> 1 \<Longrightarrow> J s \<Longrightarrow> I (ev f s)) \<Longrightarrow> (\<And>s. I s \<Longrightarrow> J s) \<Longrightarrow>
         0 \<le> f0 \<Longrightarrow> f0 \<le> f1 \<Longrightarrow> f1 \<le> f2 \<Longrightarrow> f2 \<le> 1 \<Longrightarrow> I s \<Longrightarrow>
         bisect_loop ev (f0, f1, f2, fE0, fE2, s) = (g0, g1, g2, gE0, gE2, s') \<Longrightarrow>
         0 \<le> g0 \<and> g0 \<le> g1 \<and> g1 \<le> g2 \<and> g2 \<le> 1 \<and> I s'"
proof (induction ev "(f0, f1, f2, fE0, fE2, s)" arbitrary: f0 f1 f2 fE0 fE2 s
       rule: bisect_loop.induct)
  case (1 ev f0 f1 f2 fE0 fE2 s)
  show ?case
  proof (cases "f2 - f1 > cfMinABCResolution")
    case False
    with "1.prems" show ?thesis by (simp add: bisect_loop.simps)
  next
    case True
    show ?thesis
    proof (cases "fE2 > fE0")
      case up: True
      have st: "bisect_step ev (f0, f1, f2, fE0, fE2, s) =
                  (f0, (f0 + f1) / 2, f1, fE0, mfMSE s, ev ((f0 + f1) / 2) s)"
        using up by (simp add: bisect_step_def)
      have "I (ev ((f0 + f1) / 2) s)"
        using "1.prems"(3-7) by (intro "1.prems"(1) "1.prems"(2)) auto
      moreover have "bisect_loop ev (f0, (f0 + f1) / 2, f1, fE0, mfMSE s, ev ((f0 + f1) / 2) s)
                       = (g0, g1, g2, gE0, gE2, s')"
        using "1.prems"(8) True st by (simp add: bisect_loop.simps [of ev f0 f1 f2])
      ultimately show ?thesis
        using "1.prems"(3-6)
        by (intro "1.hyps" [OF True st "1.prems"(1) "1.prems"(2)]) auto
    next
      case down: False
      have st: "bisect_step ev (f0, f1, f2, fE0, fE2, s) =
                  (f1, (f1 + f2) / 2, f2, mfMSE s, fE2, ev ((f1 + f2) / 2) s)"
        using down by (simp add: bisect_step_def)
      have "I (ev ((f1 + f2) / 2) s)"
        using "1.prems"(3-7) by (intro "1.prems"(1) "1.prems"(2)) auto
      moreover have "bisect_loop ev (f1, (f1 + f2) / 2, f2, mfMSE s, fE2, ev ((f1 + f2) / 2) s)
                       = (g0, g1, g2, gE0, gE2, s')"
        using "1.prems"(8) True st by (simp add: bisect_loop.simps [of ev f0 f1 f2])
      ultimately show ?thesis
        using "1.prems"(3-6)
        by (intro "1.hyps" [OF True st "1.prems"(1) "1.prems"(2)]) auto
    qed
  qed
qed


lemma adopt_inv:
  assumes "\<And>f s. 0 \<le> f \<Longrightarrow> f \<le> 1 \<Longrightarrow> J s \<Longrightarrow> I (ev f s)" and "\<And>s. I s \<Longrightarrow> J s"
    and "0 \<le> f0" "f0 \<le> f1" "f1 \<le> f2" "f2 \<le> 1" "I s"
  shows "I (adopt ev (f0, f1, f2, fE0, fE2, s))"
proof -
  have "I (ev f0 s)" "I (ev f2 s)"
    using assms(3-7) by (auto intro!: assms(1) assms(2))
  with assms(7) show ?thesis by (simp add: adopt_def)
qed

lemma search_inv:
  assumes ev: "\<And>f s. 0 \<le> f \<Longrightarrow> f \<le> 1 \<Longrightarrow> J s \<Longrightarrow> I (ev f s)" and IJ: "\<And>s. I s \<Longrightarrow> J s"
    and s: "I s"
  shows "I (adopt ev (bisect_loop ev (0, 1 / 2, 1, fE0, fE2, s)))"
proof -
  obtain g0 g1 g2 gE0 gE2 s' where
    r: "bisect_loop ev (0, 1 / 2, 1, fE0, fE2, s) = (g0, g1, g2, gE0, gE2, s')"
    by (metis prod_cases6)
  have "0 \<le> g0 \<and> g0 \<le> g1 \<and> g1 \<le> g2 \<and> g2 \<le> 1 \<and> I s'"
    by (rule bisect_loop_inv [where I = I and J = J and ev = ev, OF ev IJ _ _ _ _ s r]) simp_all
  then show ?thesis
    unfolding r by (intro adopt_inv [where I = I and J = J and ev = ev, OF ev IJ]) simp_all
qed

lemma CalcGamma_found:
  "0 \<le> mfGamma (CalcGamma s) \<and> mfGamma (CalcGamma s) \<le> 1
   \<and> mfAlpha (CalcGamma s) = mfAlpha s \<and> mfBeta (CalcGamma s) = mfBeta s
   \<and> bEDS (CalcGamma s) = bEDS s"
proof -
  let ?I = "\<lambda>t. 0 \<le> mfGamma t \<and> mfGamma t \<le> 1
                 \<and> mfAlpha t = mfAlpha s \<and> mfBeta t = mfBeta s \<and> bEDS t = bEDS s"
  let ?J = "\<lambda>t. mfAlpha t = mfAlpha s \<and> mfBeta t = mfBeta s \<and> bEDS t = bEDS s"
  have ev: "?I (tryGamma f t)" if "0 \<le> f" "f \<le> 1" "?J t" for f t
    using that by (simp add: tryGamma_fields)
  have IJ: "?J t" if "?I t" for t using that by simp
  have s0: "?I (tryGamma 0 s)" by (rule ev) simp_all
  have s2: "?I (tryGamma 1 (tryGamma 0 s))" by (rule ev [OF _ _ IJ [OF s0]]) simp_all
  have s1: "?I (tryGamma (1 / 2) (tryGamma 1 (tryGamma 0 s)))"
    by (rule ev [OF _ _ IJ [OF s2]]) simp_all
  have flat: "?I (tryGamma 0 (tryGamma (1 / 2) (tryGamma 1 (tryGamma 0 s))))"
    by (rule ev [OF _ _ IJ [OF s1]]) simp_all
  have search: "?I (adopt tryGamma (bisect_loop tryGamma
                  (0, 1 / 2, 1, e0, e2, tryGamma (1 / 2) (tryGamma 1 (tryGamma 0 s)))))"
    for e0 e2
    by (rule search_inv [where I = ?I and J = ?J and ev = tryGamma, OF ev IJ s1])
  show ?thesis
    unfolding CalcGamma_def Let_def using flat search by simp
qed

lemma CalcGamma_fields:
  "0 \<le> mfGamma (CalcGamma s)" "mfGamma (CalcGamma s) \<le> 1"
  "mfAlpha (CalcGamma s) = mfAlpha s" "mfBeta (CalcGamma s) = mfBeta s"
  "bEDS (CalcGamma s) = bEDS s"
  using CalcGamma_found [of s] by simp_all

lemma tryBeta_fields:
  "mfBeta (tryBeta f s) = f" "mfAlpha (tryBeta f s) = mfAlpha s" "bEDS (tryBeta f s) = bEDS s"
  "0 \<le> mfGamma (tryBeta f s)" "mfGamma (tryBeta f s) \<le> 1"
  by (simp_all add: tryBeta_def refill_keeps CalcGamma_fields)

lemma CalcBetaGamma_found:
  "0 \<le> mfBeta (CalcBetaGamma s) \<and> mfBeta (CalcBetaGamma s) \<le> 1
   \<and> 0 \<le> mfGamma (CalcBetaGamma s) \<and> mfGamma (CalcBetaGamma s) \<le> 1
   \<and> mfAlpha (CalcBetaGamma s) = mfAlpha s \<and> bEDS (CalcBetaGamma s) = bEDS s"
proof -
  let ?I = "\<lambda>t. 0 \<le> mfBeta t \<and> mfBeta t \<le> 1 \<and> 0 \<le> mfGamma t \<and> mfGamma t \<le> 1
                 \<and> mfAlpha t = mfAlpha s \<and> bEDS t = bEDS s"
  let ?J = "\<lambda>t. mfAlpha t = mfAlpha s \<and> bEDS t = bEDS s"
  have ev: "?I (tryBeta f t)" if "0 \<le> f" "f \<le> 1" "?J t" for f t
    using that by (simp add: tryBeta_fields)
  have IJ: "?J t" if "?I t" for t using that by simp
  have s0: "?I (tryBeta 0 s)" by (rule ev) simp_all
  have s2: "?I (tryBeta 1 (tryBeta 0 s))" by (rule ev [OF _ _ IJ [OF s0]]) simp_all
  have s1: "?I (tryBeta (1 / 2) (tryBeta 1 (tryBeta 0 s)))"
    by (rule ev [OF _ _ IJ [OF s2]]) simp_all
  have flat: "?I (tryBeta 0 (tryBeta (1 / 2) (tryBeta 1 (tryBeta 0 s))))"
    by (rule ev [OF _ _ IJ [OF s1]]) simp_all
  have search: "?I (adopt tryBeta (bisect_loop tryBeta
                  (0, 1 / 2, 1, e0, e2, tryBeta (1 / 2) (tryBeta 1 (tryBeta 0 s)))))"
    for e0 e2
    by (rule search_inv [where I = ?I and J = ?J and ev = tryBeta, OF ev IJ s1])
  show ?thesis
    unfolding CalcBetaGamma_def Let_def using flat search by simp
qed

lemma CalcBetaGamma_fields:
  "0 \<le> mfBeta (CalcBetaGamma s)" "mfBeta (CalcBetaGamma s) \<le> 1"
  "0 \<le> mfGamma (CalcBetaGamma s)" "mfGamma (CalcBetaGamma s) \<le> 1"
  "mfAlpha (CalcBetaGamma s) = mfAlpha s" "bEDS (CalcBetaGamma s) = bEDS s"
  using CalcBetaGamma_found [of s] by simp_all

lemma tryAlpha_found:
  assumes "0 \<le> f" "f \<le> 1" "bEDS t = e \<and> (e \<longrightarrow> 0 \<le> mfBeta t \<and> mfBeta t \<le> 1)"
  shows "0 \<le> mfAlpha (tryAlpha f t) \<and> mfAlpha (tryAlpha f t) \<le> 1
       \<and> 0 \<le> mfBeta (tryAlpha f t) \<and> mfBeta (tryAlpha f t) \<le> 1
       \<and> 0 \<le> mfGamma (tryAlpha f t) \<and> mfGamma (tryAlpha f t) \<le> 1
       \<and> bEDS (tryAlpha f t) = e"
  using assms
  by (cases "bEDS t")
     (simp_all add: tryAlpha_def refill_keeps CalcGamma_fields CalcBetaGamma_fields)

lemma CalcAlphaBetaGamma_found:
  "0 \<le> mfAlpha (CalcAlphaBetaGamma s) \<and> mfAlpha (CalcAlphaBetaGamma s) \<le> 1
   \<and> 0 \<le> mfBeta (CalcAlphaBetaGamma s) \<and> mfBeta (CalcAlphaBetaGamma s) \<le> 1
   \<and> 0 \<le> mfGamma (CalcAlphaBetaGamma s) \<and> mfGamma (CalcAlphaBetaGamma s) \<le> 1
   \<and> bEDS (CalcAlphaBetaGamma s) = bEDS s"
proof -
  let ?I = "\<lambda>t. 0 \<le> mfAlpha t \<and> mfAlpha t \<le> 1 \<and> 0 \<le> mfBeta t \<and> mfBeta t \<le> 1
                 \<and> 0 \<le> mfGamma t \<and> mfGamma t \<le> 1 \<and> bEDS t = bEDS s"
  let ?J = "\<lambda>t. bEDS t = bEDS s \<and> (bEDS s \<longrightarrow> 0 \<le> mfBeta t \<and> mfBeta t \<le> 1)"
  let ?s = "if bEDS s then s\<lparr> mfBeta := 0 \<rparr> else s"
  have ev: "?I (tryAlpha f t)" if "0 \<le> f" "f \<le> 1" "?J t" for f t
    using that by (rule tryAlpha_found)
  have IJ: "?J t" if "?I t" for t using that by simp
  have s0: "?I (tryAlpha 0 ?s)" by (rule ev) simp_all
  have s2: "?I (tryAlpha 1 (tryAlpha 0 ?s))" by (rule ev [OF _ _ IJ [OF s0]]) simp_all
  have s1: "?I (tryAlpha (1 / 2) (tryAlpha 1 (tryAlpha 0 ?s)))"
    by (rule ev [OF _ _ IJ [OF s2]]) simp_all
  have flat: "?I (tryAlpha 0 (tryAlpha (1 / 2) (tryAlpha 1 (tryAlpha 0 ?s))))"
    by (rule ev [OF _ _ IJ [OF s1]]) simp_all
  have "?I (adopt tryAlpha (bisect_loop tryAlpha
                  (0, 1 / 2, 1, e0, e2, tryAlpha (1 / 2) (tryAlpha 1 (tryAlpha 0 ?s)))))"
    for e0 e2
    by (rule search_inv [where I = ?I and J = ?J and ev = tryAlpha, OF ev IJ s1])
  then have search: "?I (calcAccuracyIndicators (adopt tryAlpha (bisect_loop tryAlpha
                  (0, 1 / 2, 1, e0, e2, tryAlpha (1 / 2) (tryAlpha 1 (tryAlpha 0 ?s))))))"
    for e0 e2
    by (simp add: calcAccuracyIndicators_keeps)
  show ?thesis
    unfolding CalcAlphaBetaGamma_def Let_def using flat search by simp
qed


lemma bisect_step_width:
  assumes "0 \<le> f0" "f2 \<le> 1" "0 \<le> w" "f2 - f1 = w" "f1 - f0 = w"
  shows "case bisect_step ev (f0, f1, f2, fE0, fE2, t) of
           (g0, g1, g2, r) \<Rightarrow> 0 \<le> g0 \<and> g2 \<le> 1 \<and> g2 - g1 = w / 2 \<and> g1 - g0 = w / 2"
  using assms by (auto simp: bisect_step_def field_simps)

lemma bisect_steps_width:
  "case (bisect_step ev ^^ k) (0, 1 / 2, 1, e0, e2, t) of
     (f0, f1, f2, r) \<Rightarrow>
       0 \<le> f0 \<and> f2 \<le> 1 \<and> f2 - f1 = (1 / 2) ^ (k + 1) \<and> f1 - f0 = (1 / 2) ^ (k + 1)"
proof (induction k)
  case 0
  show ?case by simp
next
  case (Suc k)
  obtain f0 f1 f2 fE0 fE2 t' where
    st: "(bisect_step ev ^^ k) (0, 1 / 2, 1, e0, e2, t) = (f0, f1, f2, fE0, fE2, t')"
    by (metis prod_cases6)
  from Suc.IH have inv: "0 \<le> f0" "f2 \<le> 1" "f2 - f1 = (1 / 2) ^ (k + 1)"
    "f1 - f0 = (1 / 2) ^ (k + 1)"
    unfolding st by simp_all
  have "case bisect_step ev (f0, f1, f2, fE0, fE2, t') of
           (g0, g1, g2, r) \<Rightarrow> 0 \<le> g0 \<and> g2 \<le> 1 \<and> g2 - g1 = (1 / 2) ^ (k + 1) / 2
              \<and> g1 - g0 = (1 / 2) ^ (k + 1) / 2"
    by (rule bisect_step_width [OF inv(1,2) _ inv(3,4)]) simp
  then show ?case
    by (simp add: st)
qed

lemma bisect_loop_unroll:
  "f2 - f1 = (1 / 2) ^ (10 - n) \<Longrightarrow> f1 - f0 = (1 / 2) ^ (10 - n) \<Longrightarrow> 0 \<le> f0 \<Longrightarrow> f2 \<le> 1 \<Longrightarrow>
   n \<le> 9 \<Longrightarrow>
   bisect_loop ev (f0, f1, f2, fE0, fE2, t) = (bisect_step ev ^^ n) (f0, f1, f2, fE0, fE2, t)"
proof (induction n arbitrary: f0 f1 f2 fE0 fE2 t)
  case 0
  then show ?case
    by (simp add: bisect_loop.simps cfMinABCResolution_def power_one_over)
next
  case (Suc n)
  have pw: "(1 / 2 :: real) ^ 9 \<le> (1 / 2) ^ (10 - Suc n)"
    by (rule power_decreasing) simp_all
  have "(1 / 1000 :: real) < (1 / 2) ^ 9" by (simp add: power_one_over)
  then have "(1 / 1000 :: real) < (1 / 2) ^ (10 - Suc n)" using pw by (rule less_le_trans)
  then have big: "cfMinABCResolution < f2 - f1"
    unfolding Suc.prems(1) cfMinABCResolution_def .
  obtain g0 g1 g2 gE0 gE2 t' where
    st: "bisect_step ev (f0, f1, f2, fE0, fE2, t) = (g0, g1, g2, gE0, gE2, t')"
    by (metis prod_cases6)
  have e: "(1 / 2 :: real) ^ (10 - Suc n) / 2 = (1 / 2) ^ (10 - n)"
  proof -
    have "10 - n = Suc (10 - Suc n)" using Suc.prems(5) by simp
    then show ?thesis by simp
  qed
  have "case bisect_step ev (f0, f1, f2, fE0, fE2, t) of
           (g0, g1, g2, r) \<Rightarrow> 0 \<le> g0 \<and> g2 \<le> 1 \<and> g2 - g1 = (1 / 2) ^ (10 - Suc n) / 2
              \<and> g1 - g0 = (1 / 2) ^ (10 - Suc n) / 2"
    by (rule bisect_step_width [OF Suc.prems(3,4) _ Suc.prems(1,2)]) simp
  then have inv: "g2 - g1 = (1 / 2) ^ (10 - n)" "g1 - g0 = (1 / 2) ^ (10 - n)" "0 \<le> g0" "g2 \<le> 1"
    unfolding st e by simp_all
  have "bisect_loop ev (f0, f1, f2, fE0, fE2, t) = bisect_loop ev (g0, g1, g2, gE0, gE2, t')"
    using big by (subst bisect_loop.simps) (simp add: st)
  also have "\<dots> = (bisect_step ev ^^ n) (g0, g1, g2, gE0, gE2, t')"
    using Suc.prems(5) by (intro Suc.IH inv) simp
  also have "\<dots> = (bisect_step ev ^^ Suc n) (f0, f1, f2, fE0, fE2, t)"
    by (simp add: funpow_swap1 st)
  finally show ?case .
qed

lemma bisect_loop_nine:
  "bisect_loop ev (0, 1 / 2, 1, e0, e2, t) = (bisect_step ev ^^ 9) (0, 1 / 2, 1, e0, e2, t)"
  by (rule bisect_loop_unroll) (simp_all add: power_one_over)

lemma adopt_lowest:
  "(adopt ev (f0, f1, f2, fE0, fE2, t) = ev f0 t \<and> fE0 < mfMSE t \<and> fE0 < fE2)
   \<or> (adopt ev (f0, f1, f2, fE0, fE2, t) = ev f2 t \<and> fE2 < mfMSE t \<and> fE2 \<le> fE0)
   \<or> (adopt ev (f0, f1, f2, fE0, fE2, t) = t \<and> mfMSE t \<le> fE0 \<and> mfMSE t \<le> fE2)"
  by (auto simp: adopt_def)

lemma tryBeta_zero: "mfBeta (tryBeta 0 t) = 0"
  by (simp add: tryBeta_fields)

lemma tryAlpha_zero: "mfAlpha (tryAlpha 0 t) = 0"
  by (simp add: tryAlpha_def refill_keeps CalcGamma_fields CalcBetaGamma_fields)

text \<open>
  Claim C5, as the code has it. After \<open>CalcAlphaBetaGamma\<close> the three smoothing
  constants lie between 0 and 1. Each of the three searches tries the values 0, 1 and
  1/2, in this order. If the three errors coincide, it tries 0 once more and returns
  with the parameter 0. Otherwise it halves the interval nine times and adopts a value.
  A halving step keeps the half next to the endpoint with the lower tracked error, the
  lower half \<open>[f0, f1]\<close> when \<open>fE0 < fE2\<close> and the upper half \<open>[f1, f2]\<close> otherwise, and
  tries its midpoint; after \<open>k\<close> steps \<open>f2 - f1\<close> is \<open>(1/2)^(k+1)\<close>, which is at most
  0.001 first for \<open>k = 9\<close>. The value adopted is the one of \<open>f0\<close>, \<open>f1\<close>, \<open>f2\<close> with the
  lowest tracked error: \<open>f0\<close> or \<open>f2\<close> is tried again, or the state of \<open>f1\<close> is kept.
\<close>

theorem optimizer_search:
  "(0 \<le> mfAlpha (CalcAlphaBetaGamma s) \<and> mfAlpha (CalcAlphaBetaGamma s) \<le> 1
    \<and> 0 \<le> mfBeta (CalcAlphaBetaGamma s) \<and> mfBeta (CalcAlphaBetaGamma s) \<le> 1
    \<and> 0 \<le> mfGamma (CalcAlphaBetaGamma s) \<and> mfGamma (CalcAlphaBetaGamma s) \<le> 1)
   \<and> (let s0 = tryGamma 0 s; s2 = tryGamma 1 s0; s1 = tryGamma (1 / 2) s2
       in if mfMSE s0 = mfMSE s1 \<and> mfMSE s1 = mfMSE s2
          then CalcGamma s = tryGamma 0 s1 \<and> mfGamma (CalcGamma s) = 0
          else CalcGamma s =
                 adopt tryGamma
                   ((bisect_step tryGamma ^^ 9) (0, 1 / 2, 1, mfMSE s0, mfMSE s2, s1)))
   \<and> (let s0 = tryBeta 0 s; s2 = tryBeta 1 s0; s1 = tryBeta (1 / 2) s2
       in if mfMSE s0 = mfMSE s1 \<and> mfMSE s1 = mfMSE s2
          then CalcBetaGamma s = tryBeta 0 s1 \<and> mfBeta (CalcBetaGamma s) = 0
          else CalcBetaGamma s =
                 adopt tryBeta
                   ((bisect_step tryBeta ^^ 9) (0, 1 / 2, 1, mfMSE s0, mfMSE s2, s1)))
   \<and> (let s0 = tryAlpha 0 (if bEDS s then s\<lparr> mfBeta := 0 \<rparr> else s);
           s2 = tryAlpha 1 s0; s1 = tryAlpha (1 / 2) s2
       in if mfMSE s0 = mfMSE s1 \<and> mfMSE s1 = mfMSE s2
          then CalcAlphaBetaGamma s = tryAlpha 0 s1 \<and> mfAlpha (CalcAlphaBetaGamma s) = 0
          else CalcAlphaBetaGamma s =
                 calcAccuracyIndicators
                   (adopt tryAlpha
                      ((bisect_step tryAlpha ^^ 9) (0, 1 / 2, 1, mfMSE s0, mfMSE s2, s1))))
   \<and> (\<forall>ev f0 f1 f2 fE0 fE2 t.
         bisect_step ev (f0, f1, f2, fE0, fE2, t) =
           (if fE0 < fE2
            then (f0, (f0 + f1) / 2, f1, fE0, mfMSE t, ev ((f0 + f1) / 2) t)
            else (f1, (f1 + f2) / 2, f2, mfMSE t, fE2, ev ((f1 + f2) / 2) t)))
   \<and> (\<forall>ev k e0 e2 t.
         case (bisect_step ev ^^ k) (0, 1 / 2, 1, e0, e2, t) of
           (f0, f1, f2, r) \<Rightarrow>
             0 \<le> f0 \<and> f2 \<le> 1 \<and> f2 - f1 = (1 / 2) ^ (k + 1) \<and> f1 - f0 = (1 / 2) ^ (k + 1))
   \<and> (1 / 2) ^ (9 + 1) \<le> cfMinABCResolution \<and> cfMinABCResolution < (1 / 2) ^ (8 + 1)
   \<and> (\<forall>ev f0 f1 f2 fE0 fE2 t.
         (adopt ev (f0, f1, f2, fE0, fE2, t) = ev f0 t \<and> fE0 < mfMSE t \<and> fE0 < fE2)
         \<or> (adopt ev (f0, f1, f2, fE0, fE2, t) = ev f2 t \<and> fE2 < mfMSE t \<and> fE2 \<le> fE0)
         \<or> (adopt ev (f0, f1, f2, fE0, fE2, t) = t \<and> mfMSE t \<le> fE0 \<and> mfMSE t \<le> fE2))"
proof (intro conjI)
  show "0 \<le> mfAlpha (CalcAlphaBetaGamma s)" "mfAlpha (CalcAlphaBetaGamma s) \<le> 1"
    "0 \<le> mfBeta (CalcAlphaBetaGamma s)" "mfBeta (CalcAlphaBetaGamma s) \<le> 1"
    "0 \<le> mfGamma (CalcAlphaBetaGamma s)" "mfGamma (CalcAlphaBetaGamma s) \<le> 1"
    using CalcAlphaBetaGamma_found [of s] by simp_all
  show "let s0 = tryGamma 0 s; s2 = tryGamma 1 s0; s1 = tryGamma (1 / 2) s2
       in if mfMSE s0 = mfMSE s1 \<and> mfMSE s1 = mfMSE s2
          then CalcGamma s = tryGamma 0 s1 \<and> mfGamma (CalcGamma s) = 0
          else CalcGamma s =
                 adopt tryGamma
                   ((bisect_step tryGamma ^^ 9) (0, 1 / 2, 1, mfMSE s0, mfMSE s2, s1))"
    unfolding CalcGamma_def Let_def bisect_loop_nine
    by (simp add: tryGamma_fields)
  show "let s0 = tryBeta 0 s; s2 = tryBeta 1 s0; s1 = tryBeta (1 / 2) s2
       in if mfMSE s0 = mfMSE s1 \<and> mfMSE s1 = mfMSE s2
          then CalcBetaGamma s = tryBeta 0 s1 \<and> mfBeta (CalcBetaGamma s) = 0
          else CalcBetaGamma s =
                 adopt tryBeta
                   ((bisect_step tryBeta ^^ 9) (0, 1 / 2, 1, mfMSE s0, mfMSE s2, s1))"
    unfolding CalcBetaGamma_def Let_def bisect_loop_nine
    by (simp add: tryBeta_zero)
  show "let s0 = tryAlpha 0 (if bEDS s then s\<lparr> mfBeta := 0 \<rparr> else s);
           s2 = tryAlpha 1 s0; s1 = tryAlpha (1 / 2) s2
       in if mfMSE s0 = mfMSE s1 \<and> mfMSE s1 = mfMSE s2
          then CalcAlphaBetaGamma s = tryAlpha 0 s1 \<and> mfAlpha (CalcAlphaBetaGamma s) = 0
          else CalcAlphaBetaGamma s =
                 calcAccuracyIndicators
                   (adopt tryAlpha
                      ((bisect_step tryAlpha ^^ 9) (0, 1 / 2, 1, mfMSE s0, mfMSE s2, s1)))"
    unfolding CalcAlphaBetaGamma_def Let_def bisect_loop_nine
    by (simp add: tryAlpha_zero)
  show "\<forall>ev f0 f1 f2 fE0 fE2 t.
         bisect_step ev (f0, f1, f2, fE0, fE2, t) =
           (if fE0 < fE2
            then (f0, (f0 + f1) / 2, f1, fE0, mfMSE t, ev ((f0 + f1) / 2) t)
            else (f1, (f1 + f2) / 2, f2, mfMSE t, fE2, ev ((f1 + f2) / 2) t))"
    by (simp add: bisect_step_def)
  show "\<forall>ev k e0 e2 t.
         case (bisect_step ev ^^ k) (0, 1 / 2, 1, e0, e2, t) of
           (f0, f1, f2, r) \<Rightarrow>
             0 \<le> f0 \<and> f2 \<le> 1 \<and> f2 - f1 = (1 / 2) ^ (k + 1) \<and> f1 - f0 = (1 / 2) ^ (k + 1)"
    by (intro allI bisect_steps_width)
  show "(1 / 2) ^ (9 + 1) \<le> cfMinABCResolution" "cfMinABCResolution < (1 / 2) ^ (8 + 1)"
    by (simp_all add: cfMinABCResolution_def power_one_over)
  show "\<forall>ev f0 f1 f2 fE0 fE2 t.
         (adopt ev (f0, f1, f2, fE0, fE2, t) = ev f0 t \<and> fE0 < mfMSE t \<and> fE0 < fE2)
         \<or> (adopt ev (f0, f1, f2, fE0, fE2, t) = ev f2 t \<and> fE2 < mfMSE t \<and> fE2 \<le> fE0)
         \<or> (adopt ev (f0, f1, f2, fE0, fE2, t) = t \<and> mfMSE t \<le> fE0 \<and> mfMSE t \<le> fE2)"
    by (intro allI adopt_lowest)
qed


subsection \<open>The optimizer on sample inputs\<close>

lemmas refill_defs =
  tryGamma_def refill_def refill_step_def smoothTrend_def calcAccuracyIndicators_def
  upt_conv_Cons Let_def

lemmas search_defs =
  CalcGamma_def CalcBetaGamma_def tryBeta_def tryAlpha_def
  bisect_loop.simps bisect_step_def adopt_def cfMinABCResolution_def

lemma des_sample_value:
  "des_sample =
     Inr \<lparr> maRange = [\<lparr>X = 1, Y = 1\<rparr>, \<lparr>X = 2, Y = 2\<rparr>, \<lparr>X = 3, Y = 4\<rparr>],
           mpBase = [1, 0, 0], mpTrend = [3 / 2, 0, 0],
           mpPerIdx = [], mpForecast = [1, 0, 0],
           mnSmplInPrd = 0, mfStepSize = 1, mfAlpha = 0, mfBeta = 0,
           mfGamma = 0, mnCount = 3, mbInitialised = False, mnMonthDay = 0,
           mfMAE = 0, mfMASE = 0, mfMSE = 0, mfRMSE = 0, mfSMAPE = 0,
           bAdditive = True, bEDS = True \<rparr>"
  by (simp add: des_sample_def preprocess_defs cong: let_weak_cong)

lemma const_des_value:
  "const_des =
     Inr \<lparr> maRange = [\<lparr>X = 1, Y = 1\<rparr>, \<lparr>X = 2, Y = 1\<rparr>, \<lparr>X = 3, Y = 1\<rparr>],
           mpBase = [1, 0, 0], mpTrend = [0, 0, 0], mpPerIdx = [],
           mpForecast = [1, 0, 0], mnSmplInPrd = 0, mfStepSize = 1, mfAlpha = 0,
           mfBeta = 0, mfGamma = 0, mnCount = 3, mbInitialised = False,
           mnMonthDay = 0, mfMAE = 0, mfMASE = 0, mfMSE = 0, mfRMSE = 0,
           mfSMAPE = 0, bAdditive = True, bEDS = True \<rparr>"
  by (simp add: const_des_def preprocess_defs cong: let_weak_cong)

lemma const_mult_value:
  "const_mult =
     Inr \<lparr> maRange = [\<lparr>X = 1, Y = 1\<rparr>, \<lparr>X = 2, Y = 1\<rparr>, \<lparr>X = 3, Y = 1\<rparr>, \<lparr>X = 4, Y = 1\<rparr>],
           mpBase = [1, 0, 0, 0], mpTrend = [0, 0, 0, 0],
           mpPerIdx = [1, 1, 0, 0], mpForecast = [1, 0, 0, 0], mnSmplInPrd = 2,
           mfStepSize = 1, mfAlpha = 0, mfBeta = 0, mfGamma = 0, mnCount = 4,
           mbInitialised = False, mnMonthDay = 0, mfMAE = 0, mfMASE = 0,
           mfMSE = 0, mfRMSE = 0, mfSMAPE = 0, bAdditive = False, bEDS = False \<rparr>"
  by (simp add: const_mult_def preprocess_defs cong: let_weak_cong)

lemma des_half_errors:
  "mfMSE (tryGamma 0 (des_alpha (1 / 2))) = 5 / 32"
  "mfMSE (tryGamma 1 (tryGamma 0 (des_alpha (1 / 2)))) = 1 / 4"
  "mfMSE (tryGamma (1 / 2) (tryGamma 1 (tryGamma 0 (des_alpha (1 / 2))))) = 25 / 128"
  by (simp_all add: des_alpha_def des_sample_value refill_defs cong: let_weak_cong)

lemma des_zero_errors:
  "mfMSE (tryGamma 0 (des_alpha 0)) = 1 / 8"
  "mfMSE (tryGamma 1 (tryGamma 0 (des_alpha 0))) = 1 / 8"
  "mfMSE (tryGamma (1 / 2) (tryGamma 1 (tryGamma 0 (des_alpha 0)))) = 1 / 8"
  by (simp_all add: des_alpha_def des_sample_value refill_defs cong: let_weak_cong)

lemma additive_beta_errors:
  "mfMSE (tryBeta 0 (projr additive_sample)) = 22 / 3"
  "mfMSE (tryBeta 1 (tryBeta 0 (projr additive_sample))) = 0"
  by (simp_all add: additive_sample_value search_defs refill_defs cong: let_weak_cong)

lemma const_mult_errors:
  "mfMSE (tryBeta 0 (projr const_mult)) = 0"
  "mfMSE (tryBeta 1 (tryBeta 0 (projr const_mult))) = 0"
  "mfMSE (tryBeta (1 / 2) (tryBeta 1 (tryBeta 0 (projr const_mult)))) = 0"
  by (simp_all add: const_mult_value search_defs refill_defs cong: let_weak_cong)

lemma const_des_errors:
  "mfMSE (tryAlpha 0 ((projr const_des)\<lparr> mfBeta := 0 \<rparr>)) = 0"
  "mfMSE (tryAlpha 1 (tryAlpha 0 ((projr const_des)\<lparr> mfBeta := 0 \<rparr>))) = 0"
  "mfMSE (tryAlpha (1 / 2) (tryAlpha 1 (tryAlpha 0 ((projr const_des)\<lparr> mfBeta := 0 \<rparr>)))) = 0"
  by (simp_all add: const_des_value search_defs refill_defs cong: let_weak_cong)

lemma des_alpha_errors:
  "mfMSE (tryAlpha 0 ((projr des_sample)\<lparr> mfBeta := 0 \<rparr>)) = 1 / 8"
  "mfMSE (tryAlpha 1 (tryAlpha 0 ((projr des_sample)\<lparr> mfBeta := 0 \<rparr>))) = 1 / 4"
  by (simp_all add: des_sample_value search_defs refill_defs cong: let_weak_cong)


text \<open>
  Witness for C5. For \<open>Y = 1, 2, 4\<close> and \<open>mfAlpha = 0\<close> the three errors of the search for
  gamma coincide and gamma is 0; for \<open>mfAlpha = 1/2\<close> they are 5/32, 1/4 and 25/128, and
  the search halves nine times. The search for beta finds three errors 0 on constant
  seasonal data, and the errors 22/3 at 0 and 0 at 1 on the additive sample; the search
  for alpha finds three errors 0 on constant data, and 1/8 at 0 and 1/4 at 1 for
  \<open>Y = 1, 2, 4\<close>.
\<close>

theorem optimizer_search_witness:
  "mfGamma (CalcGamma (des_alpha 0)) = 0
   \<and> CalcGamma (des_alpha (1 / 2)) =
       adopt tryGamma
         ((bisect_step tryGamma ^^ 9)
            (0, 1 / 2, 1, 5 / 32, 1 / 4,
             tryGamma (1 / 2) (tryGamma 1 (tryGamma 0 (des_alpha (1 / 2))))))
   \<and> mfBeta (CalcBetaGamma (projr const_mult)) = 0
   \<and> CalcBetaGamma (projr additive_sample) =
       adopt tryBeta
         ((bisect_step tryBeta ^^ 9)
            (0, 1 / 2, 1, 22 / 3, 0,
             tryBeta (1 / 2) (tryBeta 1 (tryBeta 0 (projr additive_sample)))))
   \<and> mfAlpha (CalcAlphaBetaGamma (projr const_des)) = 0
   \<and> CalcAlphaBetaGamma (projr des_sample) =
       calcAccuracyIndicators
         (adopt tryAlpha
            ((bisect_step tryAlpha ^^ 9)
               (0, 1 / 2, 1, 1 / 8, 1 / 4,
                tryAlpha (1 / 2) (tryAlpha 1 (tryAlpha 0 ((projr des_sample)\<lparr> mfBeta := 0 \<rparr>))))))"
proof -
  note gamma = optimizer_search [THEN conjunct2, THEN conjunct1, unfolded Let_def]
  note beta = optimizer_search [THEN conjunct2, THEN conjunct2, THEN conjunct1, unfolded Let_def]
  note alpha = optimizer_search [THEN conjunct2, THEN conjunct2, THEN conjunct2, THEN conjunct1,
      unfolded Let_def]
  have g0: "mfGamma (CalcGamma (des_alpha 0)) = 0"
    by (rule gamma [of "des_alpha 0", unfolded des_zero_errors simp_thms if_True,
          THEN conjunct2])
  have g1: "CalcGamma (des_alpha (1 / 2)) =
       adopt tryGamma
         ((bisect_step tryGamma ^^ 9)
            (0, 1 / 2, 1, 5 / 32, 1 / 4,
             tryGamma (1 / 2) (tryGamma 1 (tryGamma 0 (des_alpha (1 / 2))))))"
    using gamma [of "des_alpha (1 / 2)"] unfolding des_half_errors by simp
  have b0: "mfBeta (CalcBetaGamma (projr const_mult)) = 0"
    by (rule beta [of "projr const_mult", unfolded const_mult_errors simp_thms if_True,
          THEN conjunct2])
  have b1: "CalcBetaGamma (projr additive_sample) =
       adopt tryBeta
         ((bisect_step tryBeta ^^ 9)
            (0, 1 / 2, 1, 22 / 3, 0,
             tryBeta (1 / 2) (tryBeta 1 (tryBeta 0 (projr additive_sample)))))"
    using beta [of "projr additive_sample"] unfolding additive_beta_errors by auto
  have eds: "bEDS (projr const_des) = True" "bEDS (projr des_sample) = True"
    by (simp_all add: const_des_value des_sample_value)
  have a0: "mfAlpha (CalcAlphaBetaGamma (projr const_des)) = 0"
    by (rule alpha [of "projr const_des", unfolded eds if_True const_des_errors simp_thms,
          THEN conjunct2])
  have a1: "CalcAlphaBetaGamma (projr des_sample) =
       calcAccuracyIndicators
         (adopt tryAlpha
            ((bisect_step tryAlpha ^^ 9)
               (0, 1 / 2, 1, 1 / 8, 1 / 4,
                tryAlpha (1 / 2) (tryAlpha 1 (tryAlpha 0 ((projr des_sample)\<lparr> mfBeta := 0 \<rparr>))))))"
    using alpha [of "projr des_sample"] unfolding eds if_True des_alpha_errors by auto
  show ?thesis
    by (rule conjI [OF g0 conjI [OF g1 conjI [OF b0 conjI [OF b1 conjI [OF a0 a1]]]]])
qed

text \<open>
  Counterexample to C5 as stated. In the search for gamma over \<open>Y = 1, 2, 4\<close> with
  \<open>mfAlpha = 1/2\<close> the error at the endpoint 0 is 5/32 and the error at the endpoint 1
  is 1/4, so 1 is the higher endpoint, by its value and by its error. The first halving
  step does not go on in the half \<open>[1/2, 1]\<close> on its side: it keeps \<open>[0, 1/2]\<close> and
  tries 1/4. All values are dyadic fractions, so the double arithmetic of the source is
  exact on this input.
\<close>

theorem bisect_side_counterexample:
  "mfMSE (tryGamma 0 (des_alpha (1 / 2))) = 5 / 32
   \<and> mfMSE (tryGamma 1 (tryGamma 0 (des_alpha (1 / 2)))) = 1 / 4
   \<and> (case bisect_step tryGamma
             (0, 1 / 2, 1, 5 / 32, 1 / 4,
              tryGamma (1 / 2) (tryGamma 1 (tryGamma 0 (des_alpha (1 / 2)))))
       of (f0, f1, f2, r) \<Rightarrow> (f0, f1, f2)) = (0, 1 / 4, 1 / 2)"
  by (simp add: des_half_errors bisect_step_def)

section \<open>Prediction intervals\<close>























subsection \<open>The sample query\<close>












section \<open>Gap filling\<close>

lemma civil_month_values:
  "civil 2 = (1900, 1, 1)" "civil 33 = (1900, 2, 1)" "civil 122 = (1900, 5, 1)"
  "civil 214 = (1900, 8, 1)"
  "civil 22801 = (1962, 6, 4)" "civil 22802 = (1962, 6, 5)" "civil 22805 = (1962, 6, 8)"
  "civil 22808 = (1962, 6, 11)"
  "civil 5 = (1900, 1, 4)" "civil 8 = (1900, 1, 7)"
  unfolding civil_def by (simp_all cong: let_weak_cong)

text \<open>
  Claim C4 does not hold of the code for monthly data. When every date falls on the same
  day of the month, \<open>PreprocessDataRange\<close> replaces each X by the month number
  \<open>12 * year + month\<close>; the step check then sees the month numbers 22801, 22802, 22805,
  22808, the step 1 and a gap. The gap filling loop, however, builds a date from each X
  again, now from a month number: the four points become 4, 5, 8 and 11 June 1962, the
  distance in months between neighbours is 0, and no gap is ever filled. Filling the
  gaps would insert four points, more than 30% of the four points, yet the function
  succeeds with the gaps left open. On the series 1, 2, 5, 8, which has the same gaps
  and no month mode, the second inserted point exceeds the bound and the result is
  \<open>NoValue\<close>. Where a point is inserted, its Y is the mean of its neighbours' Ys with
  completion and 0 without.
\<close>

theorem month_gaps_not_filled:
  "monthly_sample =
     Inr \<lparr> maRange = [\<lparr>X = 22801, Y = 1\<rparr>, \<lparr>X = 22802, Y = 2\<rparr>, \<lparr>X = 22805, Y = 3\<rparr>,
                      \<lparr>X = 22808, Y = 4\<rparr>],
           mpBase = [1, 0, 0, 0], mpTrend = [1, 0, 0, 0], mpPerIdx = [],
           mpForecast = [1, 0, 0, 0], mnSmplInPrd = 0, mfStepSize = 1,
           mfAlpha = 0, mfBeta = 0, mfGamma = 0, mnCount = 4,
           mbInitialised = False, mnMonthDay = 1, mfMAE = 0, mfMASE = 0,
           mfMSE = 0, mfRMSE = 0, mfSMAPE = 0, bAdditive = True, bEDS = True \<rparr>
   \<and> spaced_sample = Inl errNoValue
   \<and> map_sum id maRange (filled_sample True) =
       Inr [\<lparr>X = 1, Y = 1\<rparr>, \<lparr>X = 2, Y = 2\<rparr>, \<lparr>X = 3, Y = 3\<rparr>, \<lparr>X = 4, Y = 5\<rparr>,
            \<lparr>X = 5, Y = 7\<rparr>]
   \<and> map_sum id maRange (filled_sample False) =
       Inr [\<lparr>X = 1, Y = 1\<rparr>, \<lparr>X = 2, Y = 2\<rparr>, \<lparr>X = 3, Y = 3\<rparr>, \<lparr>X = 4, Y = 0\<rparr>,
            \<lparr>X = 5, Y = 7\<rparr>]"
  by (simp add: monthly_sample_def spaced_sample_def filled_sample_def preprocess_defs
      civil_month_values monthDay_loop.simps cong: let_weak_cong)

end
